theory Spec2Isabelle
  imports Main "HOL-Library.Word"
begin

unbundle bit_operations_syntax

section \<open>Machine types and constants\<close>

text \<open>
  The driver \<^verbatim>\<open>drivers/ddr/altera/iossm_mailbox.c\<close> works on 32-bit registers
  (\<^verbatim>\<open>u32\<close>) at 64-bit physical addresses (\<^verbatim>\<open>phys_addr_t\<close>). Return codes are
  C \<^verbatim>\<open>int\<close>s: 0 for success, a negated errno otherwise.
\<close>

type_synonym u8 = "8 word"
type_synonym u16 = "16 word"
type_synonym u32 = "32 word"
type_synonym phys_addr_t = "64 word"

text \<open>The errno numbers of \<^verbatim>\<open>include/linux/errno.h\<close>.\<close>

definition EPERM :: int where [simp]: "EPERM = 1"
definition ENOEXEC :: int where [simp]: "ENOEXEC = 8"
definition ETIMEDOUT :: int where [simp]: "ETIMEDOUT = 110"

text \<open>Lines 20-21 of the source.\<close>

definition MAX_RETRY_COUNT :: nat where [simp]: "MAX_RETRY_COUNT = 3"
definition NUM_CMD_RESPONSE_DATA :: nat where [simp]: "NUM_CMD_RESPONSE_DATA = 3"

text \<open>
  Modelled from the spec: the bit-field macros of \<^verbatim>\<open>linux/bits.h\<close> and
  \<^verbatim>\<open>linux/bitfield.h\<close> are not among the sources. \<^verbatim>\<open>GENMASK(h, l)\<close> is the word
  with bits \<open>l..h\<close> set, \<^verbatim>\<open>BIT(n)\<close> the word with bit \<open>n\<close> set, and
  \<^verbatim>\<open>FIELD_GET(mask, reg)\<close> the masked value shifted down to bit 0 (the spec: "IP-type
  field at bits 29-31", "instance-id field at bits 24-28").
\<close>

definition GENMASK :: "nat \<Rightarrow> nat \<Rightarrow> 'a::len word" where
  "GENMASK h l = push_bit l (mask (Suc h - l))"

definition BIT :: "nat \<Rightarrow> 'a::len word" where
  "BIT n = push_bit n 1"

fun bf_shf :: "nat \<Rightarrow> nat \<Rightarrow> 'a::len word \<Rightarrow> nat" where
  "bf_shf 0 k m = k"
| "bf_shf (Suc n) k m = (if bit m k then k else bf_shf n (Suc k) m)"

definition FIELD_GET :: "'a::len word \<Rightarrow> 'a word \<Rightarrow> 'a word" where
  "FIELD_GET msk reg = drop_bit (bf_shf LENGTH('a) 0 msk) (reg AND msk)"

text \<open>Lines 23-24 of the source.\<close>

definition INTF_IP_TYPE_MASK :: u32 where
  "INTF_IP_TYPE_MASK = GENMASK 31 29"

definition INTF_INSTANCE_ID_MASK :: u32 where
  "INTF_INSTANCE_ID_MASK = GENMASK 28 24"

text \<open>
  The header \<^verbatim>\<open>iossm_mailbox.h\<close> is not among the sources. Its register offsets,
  bit masks, command numbers and the \<^verbatim>\<open>IOSSM_CMD_RESPONSE_DATA_SHORT\<close> macro are
  parameters of the model, collected in one record; every definition below takes it as
  its first argument. \<open>TIMEOUT\<close> is a time in milliseconds in the header; here it is the
  number of further polls a bounded wait makes after its first one before the timer
  expires.
\<close>

record hdr =
  IOSSM_CMD_REQ_OFFSET :: phys_addr_t
  IOSSM_CMD_PARAM_0_OFFSET :: phys_addr_t
  IOSSM_CMD_PARAM_1_OFFSET :: phys_addr_t
  IOSSM_CMD_PARAM_2_OFFSET :: phys_addr_t
  IOSSM_CMD_PARAM_3_OFFSET :: phys_addr_t
  IOSSM_CMD_PARAM_4_OFFSET :: phys_addr_t
  IOSSM_CMD_PARAM_5_OFFSET :: phys_addr_t
  IOSSM_CMD_PARAM_6_OFFSET :: phys_addr_t
  IOSSM_CMD_RESPONSE_STATUS_OFFSET :: phys_addr_t
  IOSSM_CMD_RESPONSE_DATA_0_OFFSET :: phys_addr_t
  IOSSM_CMD_RESPONSE_DATA_1_OFFSET :: phys_addr_t
  IOSSM_CMD_RESPONSE_DATA_2_OFFSET :: phys_addr_t
  IOSSM_STATUS_COMMAND_RESPONSE_READY :: u32
  IOSSM_CMD_RESPONSE_DATA_SHORT :: "u32 \<Rightarrow> u32"
  TIMEOUT :: nat
  CMD_GET_SYS_INFO :: u32
  CMD_GET_MEM_INFO :: u32
  CMD_TRIG_MEM_CAL_OP :: u32
  GET_MEM_INTF_INFO :: u32
  GET_MEM_TECHNOLOGY :: u32
  GET_MEM_WIDTH_INFO :: u32
  TRIG_MEM_CAL :: u32
  GET_MEM_CAL_STATUS :: u32
  INTF_MEM_CAL_STATUS_SUCCESS :: u8

section \<open>Register access\<close>

text \<open>
  The hardware is a parameter: a device is a state machine that answers a 32-bit read
  and reacts to a 32-bit write. The bus state carries the device state, the trace of
  all register accesses in program order, and the console (the \<^verbatim>\<open>printf\<close> output;
  \<^verbatim>\<open>debug\<close> output is not recorded).
\<close>

datatype event = Rd phys_addr_t u32 | Wr phys_addr_t u32

datatype msg =
    CMD_REQ_not_ready
  | Invalid_command_parameter
  | CMD_RESPONSE_ERROR
  | STATUS_GENERAL_ERROR u32
  | STATUS_CMD_RESPONSE_ERROR u32
  | CMD_RESPONSE_READY phys_addr_t u32
  | Invalid_response_data
  | Get_memory_interface_failed nat
  | SDRAM_calibration_failed
  | Initial_DDR_calibration_succeed nat
  | Mismatch_DDR_type nat
  | Failed_to_get_valid_memory_size

record 'h device =
  dev_read :: "phys_addr_t \<Rightarrow> 'h \<Rightarrow> u32 \<times> 'h"
  dev_write :: "phys_addr_t \<Rightarrow> u32 \<Rightarrow> 'h \<Rightarrow> 'h"

record 'h bus =
  hw :: 'h
  trace :: "event list"
  console :: "msg list"

definition readl :: "'h device \<Rightarrow> phys_addr_t \<Rightarrow> 'h bus \<Rightarrow> u32 \<times> 'h bus" where
  "readl D a s =
     (let (v, h) = dev_read D a (hw s)
      in (v, s\<lparr>hw := h, trace := trace s @ [Rd a v]\<rparr>))"

definition writel :: "'h device \<Rightarrow> u32 \<Rightarrow> phys_addr_t \<Rightarrow> 'h bus \<Rightarrow> 'h bus" where
  "writel D v a s = s\<lparr>hw := dev_write D a v (hw s), trace := trace s @ [Wr a v]\<rparr>"

definition printf :: "msg \<Rightarrow> 'h bus \<Rightarrow> 'h bus" where
  "printf m s = s\<lparr>console := console s @ [m]\<rparr>"

text \<open>
  Modelled from the spec: \<^verbatim>\<open>clrbits_le32\<close> of \<^verbatim>\<open>asm/io.h\<close> is not among the
  sources. It clears the given bits of a register by a read followed by a write
  ("Clear the ready bit in the status register (acknowledgement)").
\<close>

definition clrbits_le32 :: "'h device \<Rightarrow> phys_addr_t \<Rightarrow> u32 \<Rightarrow> 'h bus \<Rightarrow> 'h bus" where
  "clrbits_le32 D a clear s =
     (let (v, s1) = readl D a s in writel D (v AND NOT clear) a s1)"

text \<open>
  Modelled from the spec: \<^verbatim>\<open>wait_for_bit_le32\<close> of \<^verbatim>\<open>wait_bit.h\<close> is not among
  the sources. It polls a register until all bits of the mask are set (or, with
  \<open>set' = False\<close>, all clear) and returns 0, or until its timeout expires and returns
  \<open>-ETIMEDOUT\<close> ("Wait for the request register to read as all-zero within a fixed
  timeout", "Poll the response-status register's ready bit until set or timeout").
  The register is read at least once; the last argument is the number of further polls
  before the timer expires.
\<close>

fun wait_for_bit_le32 ::
  "'h device \<Rightarrow> phys_addr_t \<Rightarrow> u32 \<Rightarrow> bool \<Rightarrow> nat \<Rightarrow> 'h bus \<Rightarrow> int \<times> 'h bus" where
  "wait_for_bit_le32 D reg msk set' 0 s =
     (let (val, s1) = readl D reg s;
          val = (if set' then val else NOT val)
      in if val AND msk = msk then (0, s1) else (- ETIMEDOUT, s1))"
| "wait_for_bit_le32 D reg msk set' (Suc n) s =
     (let (val, s1) = readl D reg s;
          val = (if set' then val else NOT val)
      in if val AND msk = msk then (0, s1) else wait_for_bit_le32 D reg msk set' n s1)"

section \<open>Mailbox transport: \<^verbatim>\<open>io96b_mb_req\<close>\<close>

record io96b_mb_resp =
  cmd_resp_status :: u32
  cmd_resp_data :: "u32 list"

text \<open>
  The body of the \<^verbatim>\<open>switch (i)\<close> of lines 132-163: parameter \<open>i\<close> is written to
  its register when it is non-zero; an index with no \<^verbatim>\<open>case\<close> prints a message.
\<close>

definition write_cmd_param ::
  "hdr \<Rightarrow> 'h device \<Rightarrow> phys_addr_t \<Rightarrow> u32 \<Rightarrow> u32 \<Rightarrow> u32 \<Rightarrow> u32 \<Rightarrow> u32 \<Rightarrow> u32 \<Rightarrow> u32 \<Rightarrow>
   nat \<Rightarrow> 'h bus \<Rightarrow> 'h bus" where
  "write_cmd_param H D io96b_csr_addr cmd_param_0 cmd_param_1 cmd_param_2 cmd_param_3
       cmd_param_4 cmd_param_5 cmd_param_6 i s =
     (if i = 0 then
        (if cmd_param_0 \<noteq> 0
         then writel D cmd_param_0 (io96b_csr_addr + IOSSM_CMD_PARAM_0_OFFSET H) s else s)
      else if i = 1 then
        (if cmd_param_1 \<noteq> 0
         then writel D cmd_param_1 (io96b_csr_addr + IOSSM_CMD_PARAM_1_OFFSET H) s else s)
      else if i = 2 then
        (if cmd_param_2 \<noteq> 0
         then writel D cmd_param_2 (io96b_csr_addr + IOSSM_CMD_PARAM_2_OFFSET H) s else s)
      else if i = 3 then
        (if cmd_param_3 \<noteq> 0
         then writel D cmd_param_3 (io96b_csr_addr + IOSSM_CMD_PARAM_3_OFFSET H) s else s)
      else if i = 4 then
        (if cmd_param_4 \<noteq> 0
         then writel D cmd_param_4 (io96b_csr_addr + IOSSM_CMD_PARAM_4_OFFSET H) s else s)
      else if i = 5 then
        (if cmd_param_5 \<noteq> 0
         then writel D cmd_param_5 (io96b_csr_addr + IOSSM_CMD_PARAM_5_OFFSET H) s else s)
      else if i = 6 then
        (if cmd_param_6 \<noteq> 0
         then writel D cmd_param_6 (io96b_csr_addr + IOSSM_CMD_PARAM_6_OFFSET H) s else s)
      else printf Invalid_command_parameter s)"

text \<open>
  The body of the \<^verbatim>\<open>switch (i)\<close> of lines 195-219: data word \<open>i\<close> is read from its
  register into \<^verbatim>\<open>resp->cmd_resp_data[i]\<close>; an index with no \<^verbatim>\<open>case\<close> prints a
  message and reads nothing.
\<close>

definition read_resp_data ::
  "hdr \<Rightarrow> 'h device \<Rightarrow> phys_addr_t \<Rightarrow> nat \<Rightarrow> io96b_mb_resp \<times> 'h bus \<Rightarrow>
   io96b_mb_resp \<times> 'h bus" where
  "read_resp_data H D io96b_csr_addr i rs =
     (let (resp, s) = rs in
      if i = 0 then
        (let (v, s1) = readl D (io96b_csr_addr + IOSSM_CMD_RESPONSE_DATA_0_OFFSET H) s
         in (resp\<lparr>cmd_resp_data := (cmd_resp_data resp)[i := v]\<rparr>, s1))
      else if i = 1 then
        (let (v, s1) = readl D (io96b_csr_addr + IOSSM_CMD_RESPONSE_DATA_1_OFFSET H) s
         in (resp\<lparr>cmd_resp_data := (cmd_resp_data resp)[i := v]\<rparr>, s1))
      else if i = 2 then
        (let (v, s1) = readl D (io96b_csr_addr + IOSSM_CMD_RESPONSE_DATA_2_OFFSET H) s
         in (resp\<lparr>cmd_resp_data := (cmd_resp_data resp)[i := v]\<rparr>, s1))
      else (resp, printf Invalid_response_data s))"

text \<open>
  \<^verbatim>\<open>io96b_mb_req\<close>, lines 106-236. The response structure behind the pointer
  \<^verbatim>\<open>resp\<close> is an argument and part of the result. The first loop of the source runs
  \<^verbatim>\<open>for (i = 0; i < 6; i++)\<close>, the second \<^verbatim>\<open>for (i = 0; i < resp_data_len; i++)\<close>.
\<close>

definition io96b_mb_req ::
  "hdr \<Rightarrow> 'h device \<Rightarrow> phys_addr_t \<Rightarrow> u32 \<Rightarrow> u32 \<Rightarrow> u32 \<Rightarrow> u32 \<Rightarrow>
   u32 \<Rightarrow> u32 \<Rightarrow> u32 \<Rightarrow> u32 \<Rightarrow> u32 \<Rightarrow> u32 \<Rightarrow> u32 \<Rightarrow> u32 \<Rightarrow> io96b_mb_resp \<Rightarrow> 'h bus \<Rightarrow>
   (int \<times> io96b_mb_resp) \<times> 'h bus" where
  "io96b_mb_req H D io96b_csr_addr ip_type instance_id usr_cmd_type usr_cmd_opcode
       cmd_param_0 cmd_param_1 cmd_param_2 cmd_param_3 cmd_param_4 cmd_param_5 cmd_param_6
       resp_data_len resp s =
     (let resp = resp\<lparr>cmd_resp_status := 0\<rparr>;
          resp = fold (\<lambda>i r. r\<lparr>cmd_resp_data := (cmd_resp_data r)[i := 0]\<rparr>)
                   [0..<NUM_CMD_RESPONSE_DATA] resp;
          (ret, s) = wait_for_bit_le32 D (io96b_csr_addr + IOSSM_CMD_REQ_OFFSET H)
                       (GENMASK 31 0) False (TIMEOUT H) s
      in if ret \<noteq> 0 then ((ret, resp), printf CMD_REQ_not_ready s)
         else
           (let s = fold (write_cmd_param H D io96b_csr_addr cmd_param_0 cmd_param_1
                            cmd_param_2 cmd_param_3 cmd_param_4 cmd_param_5 cmd_param_6)
                      [0..<6] s;
                cmd_req = push_bit 0 usr_cmd_opcode OR push_bit 16 usr_cmd_type OR
                          push_bit 24 instance_id OR push_bit 29 ip_type;
                s = writel D cmd_req (io96b_csr_addr + IOSSM_CMD_REQ_OFFSET H) s;
                (ret, s) = wait_for_bit_le32 D
                             (io96b_csr_addr + IOSSM_CMD_RESPONSE_STATUS_OFFSET H)
                             (IOSSM_STATUS_COMMAND_RESPONSE_READY H) True (TIMEOUT H) s
            in if ret \<noteq> 0 then
                 (let s = printf CMD_RESPONSE_ERROR s;
                      (cmd_resp, s) =
                         readl D (io96b_csr_addr + IOSSM_CMD_RESPONSE_STATUS_OFFSET H) s;
                      s = printf (STATUS_GENERAL_ERROR (drop_bit 1 cmd_resp AND 0xF)) s;
                      s = printf (STATUS_CMD_RESPONSE_ERROR (drop_bit 5 cmd_resp AND 0x7)) s;
                      s = printf (CMD_RESPONSE_READY
                            (io96b_csr_addr + IOSSM_CMD_RESPONSE_STATUS_OFFSET H) cmd_resp) s
                  in ((ret, resp), s))
               else
                 (let (v, s) =
                         readl D (io96b_csr_addr + IOSSM_CMD_RESPONSE_STATUS_OFFSET H) s;
                      resp = resp\<lparr>cmd_resp_status := v\<rparr>;
                      (resp, s) = fold (read_resp_data H D io96b_csr_addr)
                                    [0..<unat resp_data_len] (resp, s);
                      (v, s) =
                         readl D (io96b_csr_addr + IOSSM_CMD_RESPONSE_STATUS_OFFSET H) s;
                      resp = resp\<lparr>cmd_resp_status := v\<rparr>;
                      s = clrbits_le32 D
                            (io96b_csr_addr + IOSSM_CMD_RESPONSE_STATUS_OFFSET H)
                            (IOSSM_STATUS_COMMAND_RESPONSE_READY H) s;
                      (cmd_resp, s) =
                         readl D (io96b_csr_addr + IOSSM_CMD_RESPONSE_STATUS_OFFSET H) s
                  in ((ret, resp), s))))"

section \<open>Controller data\<close>

text \<open>
  The structures of \<^verbatim>\<open>iossm_mailbox.h\<close>, as the source uses their fields. Arrays are
  lists whose length is the declared capacity; counts and loop indices are natural
  numbers. An index at or beyond the capacity is undefined behaviour in C and
  unspecified here (\<open>xs ! i\<close>); the theorems below state the bounds they need.
  \<^verbatim>\<open>ddr_type\<close> points at an entry of \<^verbatim>\<open>ddr_type_list\<close>; the entries are pairwise
  different strings, so comparing the pointers is comparing the strings.
\<close>

record io96b_mb_ctrl =
  num_mem_interface :: nat
  ip_type :: "u32 list"
  ip_instance_id :: "u32 list"

record io96b_instance =
  size' :: u16
  io96b_csr_addr :: phys_addr_t
  cal_status :: bool
  mb_ctrl :: io96b_mb_ctrl

record io96b_info =
  num_instance :: nat
  overall_cal_status :: bool
  ddr_type :: string
  ecc_status :: bool
  overall_size :: u16
  io96b :: "io96b_instance list"
  ckgen_lock :: bool
  io96b_pll :: u8

text \<open>Lines 32-34 of the source.\<close>

definition ddr_type_list :: "string list" where
  "ddr_type_list =
     [''DDR4'', ''DDR5'', ''DDR5_RDIMM'', ''LPDDR4'', ''LPDDR5'', ''QDRIV'', ''UNKNOWN'']"

text \<open>
  A function that does not return (\<^verbatim>\<open>hang()\<close>) has the outcome \<open>Hangs\<close>.
\<close>

datatype 'a outcome = Returns 'a | Hangs

text \<open>
  The local \<^verbatim>\<open>struct io96b_mb_resp usr_resp\<close> of the callers is not initialised by
  them; \<^verbatim>\<open>io96b_mb_req\<close> sets every field before any is read. It starts as zeros here.
\<close>

definition usr_resp_init :: io96b_mb_resp where
  "usr_resp_init =
     \<lparr>cmd_resp_status = 0, cmd_resp_data = replicate NUM_CMD_RESPONSE_DATA 0\<rparr>"

section \<open>Interface enumeration: \<^verbatim>\<open>io96b_mb_init\<close>\<close>

text \<open>
  Lines 267-282: the loop over \<open>k\<close> with the write index \<open>j\<close>. \<^verbatim>\<open>ip_type_ret\<close> and
  \<^verbatim>\<open>instance_id_ret\<close> are \<^verbatim>\<open>u8\<close>.
\<close>

fun io96b_mb_init_k :: "io96b_mb_resp \<Rightarrow> nat list \<Rightarrow> nat \<Rightarrow> io96b_mb_ctrl \<Rightarrow> io96b_mb_ctrl" where
  "io96b_mb_init_k usr_resp [] j c = c"
| "io96b_mb_init_k usr_resp (k # ks) j c =
     (let ip_type_ret = (ucast (FIELD_GET INTF_IP_TYPE_MASK (cmd_resp_data usr_resp ! k)) :: u8);
          instance_id_ret =
            (ucast (FIELD_GET INTF_INSTANCE_ID_MASK (cmd_resp_data usr_resp ! k)) :: u8)
      in if ip_type_ret \<noteq> 0
         then io96b_mb_init_k usr_resp ks (Suc j)
                (c\<lparr>ip_type := (ip_type c)[j := ucast ip_type_ret],
                   ip_instance_id := (ip_instance_id c)[j := ucast instance_id_ret]\<rparr>)
         else io96b_mb_init_k usr_resp ks j c)"

text \<open>Lines 249-283: the loop over the instances.\<close>

fun io96b_mb_init_i ::
  "hdr \<Rightarrow> 'h device \<Rightarrow> nat list \<Rightarrow> io96b_info \<Rightarrow> io96b_mb_resp \<Rightarrow> 'h bus \<Rightarrow>
   io96b_info outcome \<times> 'h bus" where
  "io96b_mb_init_i H D [] io96b_ctrl usr_resp s = (Returns io96b_ctrl, s)"
| "io96b_mb_init_i H D (i # is) io96b_ctrl usr_resp s =
     (let ((ret, usr_resp), s) =
            io96b_mb_req H D (io96b_csr_addr (io96b io96b_ctrl ! i)) 0 0
              (CMD_GET_SYS_INFO H) (GET_MEM_INTF_INFO H) 0 0 0 0 0 0 0 2 usr_resp s
      in if ret \<noteq> 0 then (Hangs, printf (Get_memory_interface_failed i) s)
         else
           (let c = mb_ctrl (io96b io96b_ctrl ! i);
                c = c\<lparr>num_mem_interface :=
                       unat (IOSSM_CMD_RESPONSE_DATA_SHORT H (cmd_resp_status usr_resp) AND 0x3)\<rparr>;
                c = io96b_mb_init_k usr_resp [0..<num_mem_interface c] 0 c;
                io96b_ctrl = io96b_ctrl\<lparr>io96b :=
                               (io96b io96b_ctrl)[i := (io96b io96b_ctrl ! i)\<lparr>mb_ctrl := c\<rparr>]\<rparr>
            in io96b_mb_init_i H D is io96b_ctrl usr_resp s))"

definition io96b_mb_init :: "hdr \<Rightarrow> 'h device \<Rightarrow> io96b_info \<Rightarrow> 'h bus \<Rightarrow> io96b_info outcome \<times> 'h bus" where
  "io96b_mb_init H D io96b_ctrl s =
     io96b_mb_init_i H D [0..<num_instance io96b_ctrl] io96b_ctrl usr_resp_init s"

section \<open>Calibration retry: \<^verbatim>\<open>trig_mem_cal\<close>\<close>

text \<open>
  In the callers of \<^verbatim>\<open>io96b_mb_req\<close> every assignment to \<^verbatim>\<open>ret\<close> is followed by
  \<^verbatim>\<open>if (ret) goto err\<close>, so a loop is left early exactly with a non-zero \<^verbatim>\<open>ret\<close>. The
  loop functions return \<^verbatim>\<open>ret\<close> first: non-zero after a \<^verbatim>\<open>goto err\<close>, 0 when the
  loop ran to its end.

  Lines 377-408: the retry loop \<^verbatim>\<open>for (k = 0; k < MAX_RETRY_COUNT; k++)\<close> for interface
  \<open>j\<close>; the numeric argument is the number of iterations left. The result carries
  \<^verbatim>\<open>recal_success\<close>. \<^verbatim>\<open>cal_stat\<close> is a \<^verbatim>\<open>u8\<close>.
\<close>

fun trig_mem_cal_k ::
  "hdr \<Rightarrow> 'h device \<Rightarrow> io96b_instance \<Rightarrow> nat \<Rightarrow> nat \<Rightarrow> io96b_mb_resp \<Rightarrow> 'h bus \<Rightarrow>
   (int \<times> bool \<times> io96b_mb_resp) \<times> 'h bus" where
  "trig_mem_cal_k H D inst j 0 usr_resp s = ((0, False, usr_resp), s)"
| "trig_mem_cal_k H D inst j (Suc n) usr_resp s =
     (let cal_stat_offset = cmd_resp_data usr_resp ! j;
          (v, s) = readl D (io96b_csr_addr inst + ucast cal_stat_offset) s;
          cal_stat = (ucast v :: u8)
      in if cal_stat = INTF_MEM_CAL_STATUS_SUCCESS H then ((0, True, usr_resp), s)
         else
           (let ((ret, usr_resp), s) =
                  io96b_mb_req H D (io96b_csr_addr inst)
                    (ip_type (mb_ctrl inst) ! j) (ip_instance_id (mb_ctrl inst) ! j)
                    (CMD_TRIG_MEM_CAL_OP H) (TRIG_MEM_CAL H) 0 0 0 0 0 0 0 2 usr_resp s
            in if ret \<noteq> 0 then ((ret, False, usr_resp), s)
               else
                 (let ((ret, usr_resp), s) =
                        io96b_mb_req H D (io96b_csr_addr inst) 0 0
                          (CMD_TRIG_MEM_CAL_OP H) (GET_MEM_CAL_STATUS H) 0 0 0 0 0 0 0 2
                          usr_resp s
                  in if ret \<noteq> 0 then ((ret, False, usr_resp), s)
                     else trig_mem_cal_k H D inst j n usr_resp s)))"

text \<open>Lines 365-415: the loop over the interfaces of one instance.\<close>

fun trig_mem_cal_j ::
  "hdr \<Rightarrow> 'h device \<Rightarrow> io96b_instance \<Rightarrow> nat list \<Rightarrow> io96b_mb_resp \<Rightarrow> 'h bus \<Rightarrow>
   (int \<times> io96b_mb_resp) \<times> 'h bus" where
  "trig_mem_cal_j H D inst [] usr_resp s = ((0, usr_resp), s)"
| "trig_mem_cal_j H D inst (j # js) usr_resp s =
     (let ((ret, usr_resp), s) =
            io96b_mb_req H D (io96b_csr_addr inst) 0 0
              (CMD_TRIG_MEM_CAL_OP H) (GET_MEM_CAL_STATUS H) 0 0 0 0 0 0 0 2 usr_resp s
      in if ret \<noteq> 0 then ((ret, usr_resp), s)
         else
           (let ((ret, recal_success, usr_resp), s) =
                  trig_mem_cal_k H D inst j MAX_RETRY_COUNT usr_resp s
            in if ret \<noteq> 0 then ((ret, usr_resp), s)
               else if \<not> recal_success
               then ((- EPERM, usr_resp), printf SDRAM_calibration_failed s)
               else trig_mem_cal_j H D inst js usr_resp s))"

text \<open>Lines 363-422: the loop over the instances.\<close>

fun trig_mem_cal_i ::
  "hdr \<Rightarrow> 'h device \<Rightarrow> nat list \<Rightarrow> io96b_info \<Rightarrow> io96b_mb_resp \<Rightarrow> 'h bus \<Rightarrow>
   (int \<times> io96b_info) \<times> 'h bus" where
  "trig_mem_cal_i H D [] io96b_ctrl usr_resp s = ((0, io96b_ctrl), s)"
| "trig_mem_cal_i H D (i # is) io96b_ctrl usr_resp s =
     (if \<not> cal_status (io96b io96b_ctrl ! i) then
        (let ((ret, usr_resp), s) =
               trig_mem_cal_j H D (io96b io96b_ctrl ! i)
                 [0..<num_mem_interface (mb_ctrl (io96b io96b_ctrl ! i))] usr_resp s
         in if ret \<noteq> 0 then ((ret, io96b_ctrl), s)
            else
              (let io96b_ctrl = io96b_ctrl\<lparr>io96b :=
                     (io96b io96b_ctrl)[i := (io96b io96b_ctrl ! i)\<lparr>cal_status := True\<rparr>]\<rparr>;
                   io96b_ctrl = io96b_ctrl\<lparr>overall_cal_status :=
                     cal_status (io96b io96b_ctrl ! i)\<rparr>;
                   s = printf (Initial_DDR_calibration_succeed i) s
               in trig_mem_cal_i H D is io96b_ctrl usr_resp s))
      else trig_mem_cal_i H D is io96b_ctrl usr_resp s)"

definition trig_mem_cal :: "hdr \<Rightarrow> 'h device \<Rightarrow> io96b_info \<Rightarrow> 'h bus \<Rightarrow> (int \<times> io96b_info) \<times> 'h bus" where
  "trig_mem_cal H D io96b_ctrl s =
     trig_mem_cal_i H D [0..<num_instance io96b_ctrl] io96b_ctrl usr_resp_init s"

section \<open>The re-check after a double-bit error in \<^verbatim>\<open>sdram_mmr_init_full\<close>\<close>

text \<open>
  Lines 966-972. The argument \<open>dbe\<close> is the result of \<^verbatim>\<open>ddr_ecc_dbe_status()\<close>, a
  read of a system-manager register. After the loop \<open>i\<close> equals \<^verbatim>\<open>num_instance\<close>, and
  line 971 reads \<^verbatim>\<open>io96b[i].cal_status\<close> with that index: an array element no loop of
  the driver has written when it lies within the array, and a read beyond the array
  (\<open>None\<close>) otherwise.
\<close>

definition sdram_mmr_init_full_dbe :: "bool \<Rightarrow> io96b_info \<Rightarrow> io96b_info option" where
  "sdram_mmr_init_full_dbe dbe io96b_ctrl =
     (if dbe then
        (let io96b_ctrl =
               fold (\<lambda>i c. c\<lparr>io96b := (io96b c)[i := (io96b c ! i)\<lparr>cal_status := False\<rparr>]\<rparr>)
                 [0..<num_instance io96b_ctrl] io96b_ctrl;
             i = num_instance io96b_ctrl
         in if i < length (io96b io96b_ctrl)
            then Some (io96b_ctrl\<lparr>overall_cal_status :=
                         overall_cal_status io96b_ctrl \<and> cal_status (io96b io96b_ctrl ! i)\<rparr>)
            else None)
      else Some io96b_ctrl)"

section \<open>Property queries: \<^verbatim>\<open>get_mem_technology\<close> and \<^verbatim>\<open>get_mem_width_info\<close>\<close>

text \<open>
  Lines 456-457: \<^verbatim>\<open>if (!strcmp(io96b_ctrl->ddr_type, "UNKNOWN")) io96b_ctrl->ddr_type =
  ddr_type_list[ddr_type_ret];\<close>
\<close>

definition seed_ddr_type :: "io96b_info \<Rightarrow> u8 \<Rightarrow> io96b_info" where
  "seed_ddr_type io96b_ctrl ddr_type_ret =
     (if ddr_type io96b_ctrl = ''UNKNOWN''
      then io96b_ctrl\<lparr>ddr_type := ddr_type_list ! unat ddr_type_ret\<rparr>
      else io96b_ctrl)"

text \<open>
  Lines 442-464: the loop over the interfaces of instance \<open>i\<close>. \<^verbatim>\<open>ddr_type_ret\<close> is a
  \<^verbatim>\<open>u8\<close> holding a three-bit field, and \<^verbatim>\<open>ddr_type_list\<close> has seven entries: the
  index 7 reads beyond the array.
\<close>

fun get_mem_technology_j ::
  "hdr \<Rightarrow> 'h device \<Rightarrow> nat \<Rightarrow> nat list \<Rightarrow> io96b_info \<Rightarrow> io96b_mb_resp \<Rightarrow> 'h bus \<Rightarrow>
   (int \<times> io96b_info \<times> io96b_mb_resp) \<times> 'h bus" where
  "get_mem_technology_j H D i [] io96b_ctrl usr_resp s = ((0, io96b_ctrl, usr_resp), s)"
| "get_mem_technology_j H D i (j # js) io96b_ctrl usr_resp s =
     (let ((ret, usr_resp), s) =
            io96b_mb_req H D (io96b_csr_addr (io96b io96b_ctrl ! i))
              (ip_type (mb_ctrl (io96b io96b_ctrl ! i)) ! j)
              (ip_instance_id (mb_ctrl (io96b io96b_ctrl ! i)) ! j)
              (CMD_GET_MEM_INFO H) (GET_MEM_TECHNOLOGY H) 0 0 0 0 0 0 0 0 usr_resp s
      in if ret \<noteq> 0 then ((ret, io96b_ctrl, usr_resp), s)
         else
           (let ddr_type_ret =
                  (ucast (IOSSM_CMD_RESPONSE_DATA_SHORT H (cmd_resp_status usr_resp)
                          AND GENMASK 2 0) :: u8);
                io96b_ctrl = seed_ddr_type io96b_ctrl ddr_type_ret
            in if ddr_type_list ! unat ddr_type_ret \<noteq> ddr_type io96b_ctrl
               then ((- ENOEXEC, io96b_ctrl, usr_resp), printf (Mismatch_DDR_type i) s)
               else get_mem_technology_j H D i js io96b_ctrl usr_resp s))"

text \<open>Lines 441-465: the loop over the instances.\<close>

fun get_mem_technology_i ::
  "hdr \<Rightarrow> 'h device \<Rightarrow> nat list \<Rightarrow> io96b_info \<Rightarrow> io96b_mb_resp \<Rightarrow> 'h bus \<Rightarrow>
   (int \<times> io96b_info) \<times> 'h bus" where
  "get_mem_technology_i H D [] io96b_ctrl usr_resp s = ((0, io96b_ctrl), s)"
| "get_mem_technology_i H D (i # is) io96b_ctrl usr_resp s =
     (let ((ret, io96b_ctrl, usr_resp), s) =
            get_mem_technology_j H D i
              [0..<num_mem_interface (mb_ctrl (io96b io96b_ctrl ! i))] io96b_ctrl usr_resp s
      in if ret \<noteq> 0 then ((ret, io96b_ctrl), s)
         else get_mem_technology_i H D is io96b_ctrl usr_resp s)"

definition get_mem_technology ::
  "hdr \<Rightarrow> 'h device \<Rightarrow> io96b_info \<Rightarrow> 'h bus \<Rightarrow> (int \<times> io96b_info) \<times> 'h bus" where
  "get_mem_technology H D io96b_ctrl s =
     (let io96b_ctrl = io96b_ctrl\<lparr>ddr_type := ddr_type_list ! 6\<rparr>
      in get_mem_technology_i H D [0..<num_instance io96b_ctrl] io96b_ctrl usr_resp_init s)"

text \<open>
  Lines 481-493: the loop over the interfaces of one instance, adding to the \<^verbatim>\<open>u16\<close>
  \<^verbatim>\<open>memory_size\<close>. The sum is formed in 32 bits and cut to 16 by the assignment.
\<close>

fun get_mem_width_info_j ::
  "hdr \<Rightarrow> 'h device \<Rightarrow> io96b_instance \<Rightarrow> nat list \<Rightarrow> u16 \<Rightarrow> io96b_mb_resp \<Rightarrow> 'h bus \<Rightarrow>
   (int \<times> u16 \<times> io96b_mb_resp) \<times> 'h bus" where
  "get_mem_width_info_j H D inst [] memory_size usr_resp s = ((0, memory_size, usr_resp), s)"
| "get_mem_width_info_j H D inst (j # js) memory_size usr_resp s =
     (let ((ret, usr_resp), s) =
            io96b_mb_req H D (io96b_csr_addr inst)
              (ip_type (mb_ctrl inst) ! j) (ip_instance_id (mb_ctrl inst) ! j)
              (CMD_GET_MEM_INFO H) (GET_MEM_WIDTH_INFO H) 0 0 0 0 0 0 0 2 usr_resp s
      in if ret \<noteq> 0 then ((ret, memory_size, usr_resp), s)
         else
           (let memory_size =
                  (ucast ((ucast memory_size :: u32) +
                          (cmd_resp_data usr_resp ! 1 AND GENMASK 7 0)) :: u16)
            in get_mem_width_info_j H D inst js memory_size usr_resp s))"

text \<open>Lines 479-504: the loop over the instances, adding to \<^verbatim>\<open>total_memory_size\<close>.\<close>

fun get_mem_width_info_i ::
  "hdr \<Rightarrow> 'h device \<Rightarrow> nat list \<Rightarrow> u16 \<Rightarrow> io96b_info \<Rightarrow> io96b_mb_resp \<Rightarrow> 'h bus \<Rightarrow>
   (int \<times> u16 \<times> io96b_info) \<times> 'h bus" where
  "get_mem_width_info_i H D [] total_memory_size io96b_ctrl usr_resp s =
     ((0, total_memory_size, io96b_ctrl), s)"
| "get_mem_width_info_i H D (i # is) total_memory_size io96b_ctrl usr_resp s =
     (let ((ret, memory_size, usr_resp), s) =
            get_mem_width_info_j H D (io96b io96b_ctrl ! i)
              [0..<num_mem_interface (mb_ctrl (io96b io96b_ctrl ! i))] 0 usr_resp s
      in if ret \<noteq> 0 then ((ret, total_memory_size, io96b_ctrl), s)
         else if memory_size = 0
         then ((- ENOEXEC, total_memory_size, io96b_ctrl),
               printf Failed_to_get_valid_memory_size s)
         else
           (let io96b_ctrl = io96b_ctrl\<lparr>io96b :=
                  (io96b io96b_ctrl)[i := (io96b io96b_ctrl ! i)\<lparr>size' := memory_size\<rparr>]\<rparr>;
                total_memory_size = total_memory_size + memory_size
            in get_mem_width_info_i H D is total_memory_size io96b_ctrl usr_resp s))"

definition get_mem_width_info ::
  "hdr \<Rightarrow> 'h device \<Rightarrow> io96b_info \<Rightarrow> 'h bus \<Rightarrow> (int \<times> io96b_info) \<times> 'h bus" where
  "get_mem_width_info H D io96b_ctrl s =
     (let ((ret, total_memory_size, io96b_ctrl), s) =
            get_mem_width_info_i H D [0..<num_instance io96b_ctrl] 0 io96b_ctrl usr_resp_init s
      in if ret \<noteq> 0 then ((ret, io96b_ctrl), s)
         else if total_memory_size = 0
         then ((- ENOEXEC, io96b_ctrl), printf Failed_to_get_valid_memory_size s)
         else ((0, io96b_ctrl\<lparr>overall_size := total_memory_size\<rparr>), s))"


section \<open>Observations on traces\<close>

text \<open>
  The definitions from here on are not part of the driver: they name what the theorems
  observe (register writes in a trace, a register that holds what is written to it) and
  give a simulated mailbox to run the driver against.
\<close>

fun is_write :: "event \<Rightarrow> bool" where
  "is_write (Wr a v) = True"
| "is_write (Rd a v) = False"

fun is_write_to :: "phys_addr_t \<Rightarrow> event \<Rightarrow> bool" where
  "is_write_to a (Wr a' v) = (a' = a)"
| "is_write_to a (Rd a' v) = False"

text \<open>
  The register writes the parameter loop of \<^verbatim>\<open>io96b_mb_req\<close> makes, in program order:
  one for each non-zero parameter among the first six.
\<close>

definition cmd_param_writes ::
  "hdr \<Rightarrow> phys_addr_t \<Rightarrow> u32 \<Rightarrow> u32 \<Rightarrow> u32 \<Rightarrow> u32 \<Rightarrow> u32 \<Rightarrow> u32 \<Rightarrow> event list" where
  "cmd_param_writes H b p0 p1 p2 p3 p4 p5 =
     (if p0 \<noteq> 0 then [Wr (b + IOSSM_CMD_PARAM_0_OFFSET H) p0] else []) @
     (if p1 \<noteq> 0 then [Wr (b + IOSSM_CMD_PARAM_1_OFFSET H) p1] else []) @
     (if p2 \<noteq> 0 then [Wr (b + IOSSM_CMD_PARAM_2_OFFSET H) p2] else []) @
     (if p3 \<noteq> 0 then [Wr (b + IOSSM_CMD_PARAM_3_OFFSET H) p3] else []) @
     (if p4 \<noteq> 0 then [Wr (b + IOSSM_CMD_PARAM_4_OFFSET H) p4] else []) @
     (if p5 \<noteq> 0 then [Wr (b + IOSSM_CMD_PARAM_5_OFFSET H) p5] else [])"

text \<open>The response structure after lines 117-119.\<close>

definition zeroed :: "io96b_mb_resp \<Rightarrow> io96b_mb_resp" where
  "zeroed resp =
     fold (\<lambda>i r. r\<lparr>cmd_resp_data := (cmd_resp_data r)[i := 0]\<rparr>)
       [0..<NUM_CMD_RESPONSE_DATA] (resp\<lparr>cmd_resp_status := 0\<rparr>)"

text \<open>A register of the device that reads back the value last written to it.\<close>

definition holds_writes :: "'h device \<Rightarrow> phys_addr_t \<Rightarrow> bool" where
  "holds_writes D a = (\<forall>h w. fst (dev_read D a (dev_write D a w h)) = w)"

text \<open>
  The request register is none of the parameter registers the loop writes and not the
  response-status register.
\<close>

definition req_offset_ok :: "hdr \<Rightarrow> bool" where
  "req_offset_ok H =
     (IOSSM_CMD_REQ_OFFSET H \<notin> set [IOSSM_CMD_PARAM_0_OFFSET H, IOSSM_CMD_PARAM_1_OFFSET H,
        IOSSM_CMD_PARAM_2_OFFSET H, IOSSM_CMD_PARAM_3_OFFSET H, IOSSM_CMD_PARAM_4_OFFSET H,
        IOSSM_CMD_PARAM_5_OFFSET H, IOSSM_CMD_RESPONSE_STATUS_OFFSET H])"

section \<open>A simulated mailbox\<close>

text \<open>
  A device for running the driver: plain registers, a queue of responses and, per
  address, a queue of values for successive reads of a live status register. The request
  register of every base address in \<open>bases\<close> always reads as idle. A write to it takes the
  next queued response \<open>(status, data0, data1, data2)\<close> and puts it into the response
  registers of that base; with an empty queue nothing happens, so the status register
  keeps its value and the driver's wait for the ready bit times out. The response
  registers of a base read as plain registers. A read of any other address takes the next
  value queued for that address, or the register's value when none is queued.
\<close>

record mock =
  m_regs :: "phys_addr_t \<Rightarrow> u32"
  m_resps :: "(u32 \<times> u32 \<times> u32 \<times> u32) list"
  m_live :: "phys_addr_t \<Rightarrow> u32 list"

definition resp_regs :: "hdr \<Rightarrow> phys_addr_t list" where
  "resp_regs H =
     [IOSSM_CMD_RESPONSE_STATUS_OFFSET H, IOSSM_CMD_RESPONSE_DATA_0_OFFSET H,
      IOSSM_CMD_RESPONSE_DATA_1_OFFSET H, IOSSM_CMD_RESPONSE_DATA_2_OFFSET H]"

definition is_resp_reg :: "hdr \<Rightarrow> phys_addr_t list \<Rightarrow> phys_addr_t \<Rightarrow> bool" where
  "is_resp_reg H bases a = list_ex (\<lambda>off. a - off \<in> set bases) (resp_regs H)"

definition mock_read :: "hdr \<Rightarrow> phys_addr_t list \<Rightarrow> phys_addr_t \<Rightarrow> mock \<Rightarrow> u32 \<times> mock" where
  "mock_read H bases a h =
     (if a - IOSSM_CMD_REQ_OFFSET H \<in> set bases then (0, h)
      else if is_resp_reg H bases a then (m_regs h a, h)
      else case m_live h a of
             [] \<Rightarrow> (m_regs h a, h)
           | v # vs \<Rightarrow> (v, h\<lparr>m_live := (m_live h)(a := vs)\<rparr>))"

definition mock_respond :: "hdr \<Rightarrow> phys_addr_t \<Rightarrow> mock \<Rightarrow> mock" where
  "mock_respond H b h =
     (case m_resps h of
        [] \<Rightarrow> h
      | (st, d0, d1, d2) # rs \<Rightarrow>
          h\<lparr>m_regs := (m_regs h)
               (b + IOSSM_CMD_RESPONSE_STATUS_OFFSET H := st,
                b + IOSSM_CMD_RESPONSE_DATA_0_OFFSET H := d0,
                b + IOSSM_CMD_RESPONSE_DATA_1_OFFSET H := d1,
                b + IOSSM_CMD_RESPONSE_DATA_2_OFFSET H := d2),
            m_resps := rs\<rparr>)"

definition mock_write :: "hdr \<Rightarrow> phys_addr_t list \<Rightarrow> phys_addr_t \<Rightarrow> u32 \<Rightarrow> mock \<Rightarrow> mock" where
  "mock_write H bases a v h =
     (if a - IOSSM_CMD_REQ_OFFSET H \<in> set bases
      then mock_respond H (a - IOSSM_CMD_REQ_OFFSET H) h
      else h\<lparr>m_regs := (m_regs h)(a := v)\<rparr>)"

definition mock_dev :: "hdr \<Rightarrow> phys_addr_t list \<Rightarrow> mock device" where
  "mock_dev H bases = \<lparr>dev_read = mock_read H bases, dev_write = mock_write H bases\<rparr>"

text \<open>
  The simulated mailbox is usable at the bases when the four response registers have
  four different offsets and none of them is the request register of a base.
\<close>

definition mock_ok :: "hdr \<Rightarrow> phys_addr_t list \<Rightarrow> bool" where
  "mock_ok H bases =
     (distinct (resp_regs H) \<and>
      list_all (\<lambda>b. list_all (\<lambda>off. b + off - IOSSM_CMD_REQ_OFFSET H \<notin> set bases) (resp_regs H))
        bases)"

text \<open>
  The device state after one complete exchange at base \<open>b\<close>: the response delivered and
  the ready bit cleared by the acknowledgement.
\<close>

definition mock_exchange :: "hdr \<Rightarrow> phys_addr_t \<Rightarrow> mock \<Rightarrow> mock" where
  "mock_exchange H b h =
     (let h1 = mock_respond H b h
      in h1\<lparr>m_regs := (m_regs h1)
           (b + IOSSM_CMD_RESPONSE_STATUS_OFFSET H :=
              m_regs h1 (b + IOSSM_CMD_RESPONSE_STATUS_OFFSET H) AND
              NOT (IOSSM_STATUS_COMMAND_RESPONSE_READY H))\<rparr>)"

text \<open>
  The register accesses of one exchange with no parameters and \<^verbatim>\<open>resp_data_len\<close> 2
  (respectively 0) against the simulated mailbox, \<open>w\<close> being the request word.
\<close>

definition exchange_trace_2 ::
  "hdr \<Rightarrow> phys_addr_t \<Rightarrow> u32 \<Rightarrow> u32 \<Rightarrow> u32 \<Rightarrow> u32 \<Rightarrow> event list" where
  "exchange_trace_2 H b w st d0 d1 =
     [Rd (b + IOSSM_CMD_REQ_OFFSET H) 0,
      Wr (b + IOSSM_CMD_REQ_OFFSET H) w,
      Rd (b + IOSSM_CMD_RESPONSE_STATUS_OFFSET H) st,
      Rd (b + IOSSM_CMD_RESPONSE_STATUS_OFFSET H) st,
      Rd (b + IOSSM_CMD_RESPONSE_DATA_0_OFFSET H) d0,
      Rd (b + IOSSM_CMD_RESPONSE_DATA_1_OFFSET H) d1,
      Rd (b + IOSSM_CMD_RESPONSE_STATUS_OFFSET H) st,
      Rd (b + IOSSM_CMD_RESPONSE_STATUS_OFFSET H) st,
      Wr (b + IOSSM_CMD_RESPONSE_STATUS_OFFSET H)
         (st AND NOT (IOSSM_STATUS_COMMAND_RESPONSE_READY H)),
      Rd (b + IOSSM_CMD_RESPONSE_STATUS_OFFSET H)
         (st AND NOT (IOSSM_STATUS_COMMAND_RESPONSE_READY H))]"

definition exchange_trace_0 :: "hdr \<Rightarrow> phys_addr_t \<Rightarrow> u32 \<Rightarrow> u32 \<Rightarrow> event list" where
  "exchange_trace_0 H b w st =
     [Rd (b + IOSSM_CMD_REQ_OFFSET H) 0,
      Wr (b + IOSSM_CMD_REQ_OFFSET H) w,
      Rd (b + IOSSM_CMD_RESPONSE_STATUS_OFFSET H) st,
      Rd (b + IOSSM_CMD_RESPONSE_STATUS_OFFSET H) st,
      Rd (b + IOSSM_CMD_RESPONSE_STATUS_OFFSET H) st,
      Rd (b + IOSSM_CMD_RESPONSE_STATUS_OFFSET H) st,
      Wr (b + IOSSM_CMD_RESPONSE_STATUS_OFFSET H)
         (st AND NOT (IOSSM_STATUS_COMMAND_RESPONSE_READY H)),
      Rd (b + IOSSM_CMD_RESPONSE_STATUS_OFFSET H)
         (st AND NOT (IOSSM_STATUS_COMMAND_RESPONSE_READY H))]"

section \<open>Example values\<close>

text \<open>
  A header instance for the worked examples: register offsets within one 4 KiB block,
  the ready bit at bit 0, the short data field in the upper half of the status word, and
  a wait that gives up after three polls.
\<close>

definition hdr0 :: hdr where
  "hdr0 = \<lparr>IOSSM_CMD_REQ_OFFSET = 0x43C,
     IOSSM_CMD_PARAM_0_OFFSET = 0x438,
     IOSSM_CMD_PARAM_1_OFFSET = 0x434,
     IOSSM_CMD_PARAM_2_OFFSET = 0x430,
     IOSSM_CMD_PARAM_3_OFFSET = 0x42C,
     IOSSM_CMD_PARAM_4_OFFSET = 0x428,
     IOSSM_CMD_PARAM_5_OFFSET = 0x424,
     IOSSM_CMD_PARAM_6_OFFSET = 0x420,
     IOSSM_CMD_RESPONSE_STATUS_OFFSET = 0x45C,
     IOSSM_CMD_RESPONSE_DATA_0_OFFSET = 0x458,
     IOSSM_CMD_RESPONSE_DATA_1_OFFSET = 0x454,
     IOSSM_CMD_RESPONSE_DATA_2_OFFSET = 0x450,
     IOSSM_STATUS_COMMAND_RESPONSE_READY = 1,
     IOSSM_CMD_RESPONSE_DATA_SHORT = (\<lambda>d. drop_bit 16 d),
     TIMEOUT = 2,
     CMD_GET_SYS_INFO = 1,
     CMD_GET_MEM_INFO = 2,
     CMD_TRIG_MEM_CAL_OP = 5,
     GET_MEM_INTF_INFO = 1,
     GET_MEM_TECHNOLOGY = 2,
     GET_MEM_WIDTH_INFO = 4,
     TRIG_MEM_CAL = 0xA,
     GET_MEM_CAL_STATUS = 0xB,
     INTF_MEM_CAL_STATUS_SUCCESS = 1\<rparr>"

definition dev0 :: "mock device" where
  "dev0 = mock_dev hdr0 [0x1000, 0x2000]"

definition mock0 ::
  "(u32 \<times> u32 \<times> u32 \<times> u32) list \<Rightarrow> (phys_addr_t \<Rightarrow> u32 list) \<Rightarrow> mock bus" where
  "mock0 rs live = \<lparr>hw = \<lparr>m_regs = (\<lambda>_. 0), m_resps = rs, m_live = live\<rparr>,
                    trace = [], console = []\<rparr>"

definition stale_resp :: io96b_mb_resp where
  "stale_resp = \<lparr>cmd_resp_status = 0xDEAD, cmd_resp_data = [0x11, 0x22, 0x33]\<rparr>"

definition example_inst :: "phys_addr_t \<Rightarrow> bool \<Rightarrow> nat \<Rightarrow> io96b_instance" where
  "example_inst b cal n =
     \<lparr>size' = 0, io96b_csr_addr = b, cal_status = cal,
      mb_ctrl = \<lparr>num_mem_interface = n, ip_type = [0xAA, 0xBB], ip_instance_id = [0xCC, 0xDD]\<rparr>\<rparr>"

definition example_ctrl :: "io96b_instance list \<Rightarrow> nat \<Rightarrow> bool \<Rightarrow> io96b_info" where
  "example_ctrl insts n overall =
     \<lparr>num_instance = n, overall_cal_status = overall, ddr_type = ''UNKNOWN'', ecc_status = False,
      overall_size = 0, io96b = insts, ckgen_lock = False, io96b_pll = 0\<rparr>"

section \<open>Words of the specification\<close>

text \<open>A queued response whose status word has the ready bit set.\<close>

definition resp_ready :: "hdr \<Rightarrow> u32 \<times> u32 \<times> u32 \<times> u32 \<Rightarrow> bool" where
  "resp_ready H r =
     (fst r AND IOSSM_STATUS_COMMAND_RESPONSE_READY H = IOSSM_STATUS_COMMAND_RESPONSE_READY H)"

text \<open>
  The interface table of an instance after enumeration from the response
  \<open>(status, data0, data1, data2)\<close>, as the specification words it: the count is the low
  two bits of the short data field; of the first \<open>count\<close> data words of the response
  structure (two words are read from the hardware, the third is zero) those with a
  non-zero IP type in bits 29-31 are recorded in order, each as its IP type and its
  instance id from bits 24-28; the array elements behind them keep their values.
\<close>

definition recorded_table :: "hdr \<Rightarrow> u32 \<times> u32 \<times> u32 \<times> u32 \<Rightarrow> io96b_mb_ctrl \<Rightarrow> io96b_mb_ctrl" where
  "recorded_table H r c =
     (case r of (st, d0, d1, d2) \<Rightarrow>
        let n = unat (IOSSM_CMD_RESPONSE_DATA_SHORT H st AND 0x3);
            es = filter (\<lambda>w. drop_bit 29 w \<noteq> 0) (take n [d0, d1, 0])
        in c\<lparr>num_mem_interface := n,
             ip_type := map (drop_bit 29) es @ drop (length es) (ip_type c),
             ip_instance_id :=
               map (\<lambda>w. take_bit 5 (drop_bit 24 w)) es @ drop (length es) (ip_instance_id c)\<rparr>)"

text \<open>
  The DDR type code a queued response reports: the low three bits of the short data field
  of its status word.
\<close>

definition type_code :: "hdr \<Rightarrow> u32 \<times> u32 \<times> u32 \<times> u32 \<Rightarrow> nat" where
  "type_code H r = unat (take_bit 3 (IOSSM_CMD_RESPONSE_DATA_SHORT H (fst r)))"

text \<open>
  The type codes reported to \<^verbatim>\<open>get_mem_technology\<close> when \<open>rss ! i\<close> are the responses to
  the interfaces of instance \<open>i\<close>: pairs of instance index and type code, in the order of
  the queries.
\<close>

definition reported_types :: "hdr \<Rightarrow> (u32 \<times> u32 \<times> u32 \<times> u32) list list \<Rightarrow> (nat \<times> nat) list" where
  "reported_types H rss =
     concat (map (\<lambda>(i, rs). map (\<lambda>r. (i, type_code H r)) rs) (enumerate 0 rss))"

text \<open>
  The establish-then-verify rule of \<^verbatim>\<open>get_mem_technology\<close> (lines 456-463) on a list of
  reported type codes, without the mailbox: the aggregate reached, and the instance of
  the first mismatch if there is one.
\<close>

fun tech_scan :: "string \<Rightarrow> (nat \<times> nat) list \<Rightarrow> string \<times> nat option" where
  "tech_scan ddr [] = (ddr, None)"
| "tech_scan ddr ((i, t) # xs) =
     (let ddr' = (if ddr = ''UNKNOWN'' then ddr_type_list ! t else ddr)
      in if ddr_type_list ! t \<noteq> ddr' then (ddr', Some i) else tech_scan ddr' xs)"

text \<open>
  The width a queued response reports to \<^verbatim>\<open>get_mem_width_info\<close>, as the specification
  words it: the low 8 bits of the second response data word. The width of an instance is
  the sum of the widths reported for its interfaces.
\<close>

definition resp_width :: "u32 \<times> u32 \<times> u32 \<times> u32 \<Rightarrow> nat" where
  "resp_width r = unat (take_bit 8 (fst (snd (snd r))))"

definition instance_width :: "(u32 \<times> u32 \<times> u32 \<times> u32) list \<Rightarrow> nat" where
  "instance_width rs = sum_list (map resp_width rs)"

text \<open>A controller set of one instance with three memory interfaces.\<close>

definition width_ctrl :: io96b_info where
  "width_ctrl = example_ctrl
     [\<lparr>size' = 0, io96b_csr_addr = 0x1000, cal_status = True,
       mb_ctrl = \<lparr>num_mem_interface = 3, ip_type = [1, 1, 1], ip_instance_id = [0, 1, 2]\<rparr>\<rparr>]
     1 True"

text \<open>
  Calibration retry (\<^verbatim>\<open>trig_mem_cal\<close>). A value read from the live calibration status
  register counts as a failure when its low 8 bits (\<^verbatim>\<open>cal_stat\<close> is a \<^verbatim>\<open>u8\<close>) are not
  \<^verbatim>\<open>INTF_MEM_CAL_STATUS_SUCCESS\<close>; \<open>failed_reads\<close> is the number of failures before the
  first success in the values of successive reads.
\<close>

definition cal_failed :: "hdr \<Rightarrow> u32 \<Rightarrow> bool" where
  "cal_failed H v = ((ucast v :: u8) \<noteq> INTF_MEM_CAL_STATUS_SUCCESS H)"

definition failed_reads :: "hdr \<Rightarrow> u32 list \<Rightarrow> nat" where
  "failed_reads H vs = length (takeWhile (cal_failed H) vs)"

text \<open>
  The request words of the two commands of the retry loop, packed as \<^verbatim>\<open>io96b_mb_req\<close>
  packs them: the status query (lines 366-368 and 401-403, IP type and instance id 0) and
  the trigger command for interface \<open>j\<close> (lines 387-391).
\<close>

definition cal_status_word :: "hdr \<Rightarrow> u32" where
  "cal_status_word H =
     (push_bit 0 (GET_MEM_CAL_STATUS H) OR push_bit 16 (CMD_TRIG_MEM_CAL_OP H) OR
      push_bit 24 0 OR push_bit 29 0)"

definition trig_cal_word :: "hdr \<Rightarrow> io96b_instance \<Rightarrow> nat \<Rightarrow> u32" where
  "trig_cal_word H inst j =
     (push_bit 0 (TRIG_MEM_CAL H) OR push_bit 16 (CMD_TRIG_MEM_CAL_OP H) OR
      push_bit 24 (ip_instance_id (mb_ctrl inst) ! j) OR
      push_bit 29 (ip_type (mb_ctrl inst) ! j))"

text \<open>
  The register offset a status-query response \<open>(status, data0, data1, data2)\<close> gives for
  interface \<open>j\<close>: word \<open>j\<close> of the response structure after a request with
  \<^verbatim>\<open>resp_data_len\<close> 2, whose third word is the zero of line 119.
\<close>

definition cal_status_offset :: "nat \<Rightarrow> u32 \<times> u32 \<times> u32 \<times> u32 \<Rightarrow> u32" where
  "cal_status_offset j r = [fst (snd r), fst (snd (snd r)), 0] ! j"

text \<open>
  The responses queued for the retries: for every retry the response to the trigger
  command and the response to the status query that follows it.
\<close>

definition retry_responses ::
  "((u32 \<times> u32 \<times> u32 \<times> u32) \<times> (u32 \<times> u32 \<times> u32 \<times> u32)) list \<Rightarrow>
   (u32 \<times> u32 \<times> u32 \<times> u32) list" where
  "retry_responses pairs = concat (map (\<lambda>(t, q). [t, q]) pairs)"

text \<open>
  What the retry loop does on the bus, seen through the two kinds of access the claim
  speaks of: reads of the live status register \<open>a\<close> and commands, that is writes to the
  request register of base \<open>b\<close>. One failed attempt is a read of \<open>a\<close>, then the trigger
  command, then the status query.
\<close>

fun retry_event :: "hdr \<Rightarrow> phys_addr_t \<Rightarrow> phys_addr_t \<Rightarrow> event \<Rightarrow> bool" where
  "retry_event H b a (Rd x v) = (x = a)"
| "retry_event H b a (Wr x w) = (x = b + IOSSM_CMD_REQ_OFFSET H)"

definition retry_view :: "hdr \<Rightarrow> phys_addr_t \<Rightarrow> phys_addr_t \<Rightarrow> event list \<Rightarrow> event list" where
  "retry_view H b a evs = filter (retry_event H b a) evs"

definition retry_round :: "hdr \<Rightarrow> io96b_instance \<Rightarrow> nat \<Rightarrow> phys_addr_t \<Rightarrow> u32 \<Rightarrow> event list" where
  "retry_round H inst j a v =
     [Rd a v,
      Wr (io96b_csr_addr inst + IOSSM_CMD_REQ_OFFSET H) (trig_cal_word H inst j),
      Wr (io96b_csr_addr inst + IOSSM_CMD_REQ_OFFSET H) (cal_status_word H)]"

text \<open>
  A controller set of one instance with one interface whose calibration failed, and a
  simulated mailbox for it: the status query answers offset \<open>0x10\<close>, so that the live
  status register is \<open>0x1010\<close>, read successively as \<open>vs\<close>; \<open>n\<close> retries are answered.
\<close>

definition retry_ctrl :: io96b_info where
  "retry_ctrl = example_ctrl [example_inst 0x1000 False 1] 1 False"

definition retry_mock :: "nat \<Rightarrow> u32 list \<Rightarrow> mock bus" where
  "retry_mock n vs =
     mock0 ((1, 0x10, 0, 0) # retry_responses (replicate n ((1, 0, 0, 0), (1, 0x10, 0, 0))))
       ((\<lambda>_. [])(0x1010 := vs))"

text \<open>
  A controller set of two instances whose calibration failed, one interface each, and a
  simulated mailbox for \<^verbatim>\<open>trig_mem_cal\<close> on it: the status register of the first instance
  (\<open>0x1010\<close>) reports success at once, the one of the second instance (\<open>0x2010\<close>) never
  does, and all commands are answered.
\<close>

definition cal_ctrl :: io96b_info where
  "cal_ctrl = example_ctrl [example_inst 0x1000 False 1, example_inst 0x2000 False 1] 2 False"

definition cal_mock :: "mock bus" where
  "cal_mock =
     mock0 ((1, 0x10, 0, 0) # (1, 0x10, 0, 0) #
            retry_responses (replicate 3 ((1, 0, 0, 0), (1, 0x10, 0, 0))))
       ((\<lambda>_. [])(0x1010 := [1, 1, 1], 0x2010 := [0, 0, 0]))"

text \<open>
  A controller set after a successful \<^verbatim>\<open>init_mem_cal\<close>, with \<open>n\<close> of the two elements of
  its instance array in use; the element not in use holds \<^verbatim>\<open>true\<close> (the structure comes
  from \<^verbatim>\<open>malloc\<close>, line 898, and nothing writes that element).
\<close>

definition dbe_ctrl :: "nat \<Rightarrow> io96b_info" where
  "dbe_ctrl n = example_ctrl [example_inst 0x1000 True 1, example_inst 0x2000 True 1] n True"


section \<open>Lemmas about the transport\<close>

lemma upt_1: "[0..<1] = [0]"
  by (simp add: upt_rec)

lemma upt_2: "[0..<2] = [0, 1]"
  by (simp add: upt_rec)

lemma upt_3: "[0..<3] = [0, 1, 2]"
  by (simp add: upt_rec)

lemma upt_4: "[0..<4] = [0, 1, 2, 3]"
  by (simp add: upt_rec)

lemma upt_6: "[0..<6] = [0, 1, 2, 3, 4, 5]"
  by (simp add: upt_rec)

lemma GENMASK_31_0: "(GENMASK 31 0 :: u32) = - 1"
  by (simp add: GENMASK_def mask_eq_exp_minus_1)

lemma idle_iff: "(NOT v AND (GENMASK 31 0 :: u32) = GENMASK 31 0) \<longleftrightarrow> v = 0"
proof -
  have "(NOT v = - 1) \<longleftrightarrow> v = 0"
    by (metis bit.compl_zero bit.double_compl)
  then show ?thesis by (simp add: GENMASK_31_0)
qed

lemma usr_resp_init_eq: "usr_resp_init = \<lparr>cmd_resp_status = 0, cmd_resp_data = [0, 0, 0]\<rparr>"
  by (simp add: usr_resp_init_def numeral_3_eq_3)

lemma readl_frame:
  "readl D a s = (v, s') \<Longrightarrow> trace s' = trace s @ [Rd a v] \<and> console s' = console s"
  by (auto simp: readl_def split: prod.splits)

lemma writel_frame:
  "trace (writel D v a s) = trace s @ [Wr a v] \<and> console (writel D v a s) = console s"
  by (simp add: writel_def)

lemma wait_for_bit_le32_frame:
  "wait_for_bit_le32 D reg msk st n s = (ret, s') \<Longrightarrow>
     \<exists>vs. vs \<noteq> [] \<and> trace s' = trace s @ map (Rd reg) vs \<and> console s' = console s \<and>
          (ret = 0 \<and> (if st then last vs else NOT (last vs)) AND msk = msk \<or> ret = - ETIMEDOUT)"
proof (induction n arbitrary: s)
  case 0
  obtain v s1 where r: "readl D reg s = (v, s1)" by (cases "readl D reg s")
  from readl_frame[OF r] 0 r show ?case
    by (intro exI[of _ "[v]"]) (auto simp: Let_def split: if_splits)
next
  case (Suc n)
  obtain v s1 where r: "readl D reg s = (v, s1)" by (cases "readl D reg s")
  show ?case
  proof (cases "(if st then v else NOT v) AND msk = msk")
    case True
    with readl_frame[OF r] Suc.prems r show ?thesis
      by (intro exI[of _ "[v]"]) (auto simp: Let_def split: if_splits)
  next
    case False
    with Suc.prems r have "wait_for_bit_le32 D reg msk st n s1 = (ret, s')"
      by (auto simp: Let_def split: if_splits)
    from Suc.IH[OF this] obtain vs where
      "vs \<noteq> []" "trace s' = trace s1 @ map (Rd reg) vs" "console s' = console s1"
      "ret = 0 \<and> (if st then last vs else NOT (last vs)) AND msk = msk \<or> ret = - ETIMEDOUT"
      by blast
    with readl_frame[OF r] show ?thesis
      by (intro exI[of _ "v # vs"]) auto
  qed
qed

lemma wait_for_bit_le32_unfold:
  "wait_for_bit_le32 D reg msk st n s =
     (let (val, s1) = readl D reg s;
          val = (if st then val else NOT val)
      in if val AND msk = msk then (0, s1)
         else if n = 0 then (- ETIMEDOUT, s1)
         else wait_for_bit_le32 D reg msk st (n - 1) s1)"
  by (cases n) (auto split: prod.splits)

lemma write_cmd_params_trace:
  "trace (fold (write_cmd_param H D b p0 p1 p2 p3 p4 p5 p6) [0..<6] s) =
     trace s @ cmd_param_writes H b p0 p1 p2 p3 p4 p5"
  by (simp add: upt_6 write_cmd_param_def cmd_param_writes_def writel_def)

lemma write_cmd_params_console:
  "console (fold (write_cmd_param H D b p0 p1 p2 p3 p4 p5 p6) [0..<6] s) = console s"
  by (simp add: upt_6 write_cmd_param_def writel_def)

lemma write_cmd_params_param_6:
  "fold (write_cmd_param H D b p0 p1 p2 p3 p4 p5 p6) [0..<6] s =
   fold (write_cmd_param H D b p0 p1 p2 p3 p4 p5 0) [0..<6] s"
  by (simp add: upt_6 write_cmd_param_def)

lemma write_cmd_params_zero:
  "fold (write_cmd_param H D b 0 0 0 0 0 0 p6) [0..<6] s = s"
  by (simp add: upt_6 write_cmd_param_def)

lemma io96b_mb_req_cases:
  assumes "io96b_mb_req H D b ipt iid ty opc p0 p1 p2 p3 p4 p5 p6 len resp s = ((ret, r), s')"
  obtains
    (not_ready) s1 where
      "wait_for_bit_le32 D (b + IOSSM_CMD_REQ_OFFSET H) (GENMASK 31 0) False (TIMEOUT H) s
         = (ret, s1)"
      "ret \<noteq> 0" "s' = printf CMD_REQ_not_ready s1" "r = zeroed resp"
  | (timeout) s1 s4 v s5 where
      "wait_for_bit_le32 D (b + IOSSM_CMD_REQ_OFFSET H) (GENMASK 31 0) False (TIMEOUT H) s
         = (0, s1)"
      "wait_for_bit_le32 D (b + IOSSM_CMD_RESPONSE_STATUS_OFFSET H)
         (IOSSM_STATUS_COMMAND_RESPONSE_READY H) True (TIMEOUT H)
         (writel D (push_bit 0 opc OR push_bit 16 ty OR push_bit 24 iid OR push_bit 29 ipt)
            (b + IOSSM_CMD_REQ_OFFSET H)
            (fold (write_cmd_param H D b p0 p1 p2 p3 p4 p5 p6) [0..<6] s1)) = (ret, s4)"
      "ret \<noteq> 0"
      "readl D (b + IOSSM_CMD_RESPONSE_STATUS_OFFSET H) (printf CMD_RESPONSE_ERROR s4) = (v, s5)"
      "s' = printf (CMD_RESPONSE_READY (b + IOSSM_CMD_RESPONSE_STATUS_OFFSET H) v)
              (printf (STATUS_CMD_RESPONSE_ERROR (drop_bit 5 v AND 0x7))
                 (printf (STATUS_GENERAL_ERROR (drop_bit 1 v AND 0xF)) s5))"
      "r = zeroed resp"
  | (ok) s1 s4 v1 s5 r6 s6 v2 s7 v3 where
      "wait_for_bit_le32 D (b + IOSSM_CMD_REQ_OFFSET H) (GENMASK 31 0) False (TIMEOUT H) s
         = (0, s1)"
      "wait_for_bit_le32 D (b + IOSSM_CMD_RESPONSE_STATUS_OFFSET H)
         (IOSSM_STATUS_COMMAND_RESPONSE_READY H) True (TIMEOUT H)
         (writel D (push_bit 0 opc OR push_bit 16 ty OR push_bit 24 iid OR push_bit 29 ipt)
            (b + IOSSM_CMD_REQ_OFFSET H)
            (fold (write_cmd_param H D b p0 p1 p2 p3 p4 p5 p6) [0..<6] s1)) = (0, s4)"
      "readl D (b + IOSSM_CMD_RESPONSE_STATUS_OFFSET H) s4 = (v1, s5)"
      "fold (read_resp_data H D b) [0..<unat len] ((zeroed resp)\<lparr>cmd_resp_status := v1\<rparr>, s5)
         = (r6, s6)"
      "readl D (b + IOSSM_CMD_RESPONSE_STATUS_OFFSET H) s6 = (v2, s7)"
      "r = r6\<lparr>cmd_resp_status := v2\<rparr>"
      "readl D (b + IOSSM_CMD_RESPONSE_STATUS_OFFSET H)
         (clrbits_le32 D (b + IOSSM_CMD_RESPONSE_STATUS_OFFSET H)
            (IOSSM_STATUS_COMMAND_RESPONSE_READY H) s7) = (v3, s')"
      "ret = 0"
  using assms unfolding io96b_mb_req_def zeroed_def Let_def
  by (auto split: prod.splits if_splits)

lemma zeroed_eq:
  assumes "length (cmd_resp_data resp) = NUM_CMD_RESPONSE_DATA"
  shows "zeroed resp = usr_resp_init"
proof -
  from assms obtain x y z where "cmd_resp_data resp = [x, y, z]"
    by (auto simp: numeral_3_eq_3 length_Suc_conv)
  then show ?thesis
    by (cases resp) (simp add: zeroed_def usr_resp_init_def upt_3 numeral_3_eq_3)
qed

lemma read_resp_data_frame:
  assumes "read_resp_data H D b i (r, s) = (r', s')"
  shows "length (cmd_resp_data r') = length (cmd_resp_data r)"
    and "cmd_resp_status r' = cmd_resp_status r"
    and "\<And>k. k \<noteq> i \<Longrightarrow> cmd_resp_data r' ! k = cmd_resp_data r ! k"
    and "\<exists>evs. trace s' = trace s @ evs \<and> (\<forall>e\<in>set evs. \<not> is_write e)"
  using assms
  by (auto simp: read_resp_data_def readl_def printf_def split: if_splits prod.splits)

lemma fold_read_resp_data_frame:
  "fold (read_resp_data H D b) [0..<n] (r, s) = (r', s') \<Longrightarrow>
     length (cmd_resp_data r') = length (cmd_resp_data r) \<and>
     cmd_resp_status r' = cmd_resp_status r \<and>
     (\<forall>k\<ge>n. cmd_resp_data r' ! k = cmd_resp_data r ! k) \<and>
     (\<exists>evs. trace s' = trace s @ evs \<and> (\<forall>e\<in>set evs. \<not> is_write e))"
proof (induction n arbitrary: r' s')
  case 0
  then show ?case by simp
next
  case (Suc n)
  obtain r1 s1 where f: "fold (read_resp_data H D b) [0..<n] (r, s) = (r1, s1)"
    by (cases "fold (read_resp_data H D b) [0..<n] (r, s)")
  with Suc.prems have st: "read_resp_data H D b n (r1, s1) = (r', s')"
    by simp
  from Suc.IH[OF f] obtain evs where ih:
    "length (cmd_resp_data r1) = length (cmd_resp_data r)"
    "cmd_resp_status r1 = cmd_resp_status r"
    "\<forall>k\<ge>n. cmd_resp_data r1 ! k = cmd_resp_data r ! k"
    "trace s1 = trace s @ evs" "\<forall>e\<in>set evs. \<not> is_write e"
    by blast
  from read_resp_data_frame(4)[OF st] obtain evs' where
    e': "trace s' = trace s1 @ evs'" "\<forall>e\<in>set evs'. \<not> is_write e"
    by blast
  have "trace s' = trace s @ (evs @ evs')" "\<forall>e\<in>set (evs @ evs'). \<not> is_write e"
    using ih e' by auto
  then have "\<exists>evs. trace s' = trace s @ evs \<and> (\<forall>e\<in>set evs. \<not> is_write e)"
    by blast
  with read_resp_data_frame(1-3)[OF st] ih show ?case
    by auto
qed

lemma filter_reads: "filter (is_write_to a) (map (Rd reg) vs) = []"
  by (induction vs) simp_all

lemma filter_non_writes: "\<forall>e\<in>set evs. \<not> is_write e \<Longrightarrow> filter (is_write_to a) evs = []"
proof (induction evs)
  case Nil
  then show ?case by simp
next
  case (Cons e evs)
  then show ?case by (cases e) simp_all
qed

lemma filter_cmd_param_writes:
  "req_offset_ok H \<Longrightarrow>
   filter (is_write_to (b + IOSSM_CMD_REQ_OFFSET H)) (cmd_param_writes H b p0 p1 p2 p3 p4 p5) = []"
  by (auto simp: req_offset_ok_def cmd_param_writes_def)

lemma after_doorbell:
  assumes w2: "wait_for_bit_le32 D a msk True n s3 = (ret, s4)"
      and rest: "(ret \<noteq> 0 \<and> readl D a (printf m s4) = (v, s5) \<and> trace s' = trace s5) \<or>
                 (readl D a s4 = (v1, s5) \<and> fold (read_resp_data H D b) [0..<k] (r5, s5) = (r6, s6) \<and>
                  readl D a s6 = (v2, s7) \<and> readl D a (clrbits_le32 D a c s7) = (v3, s'))"
      and ne: "a \<noteq> q"
  shows "\<exists>post. trace s' = trace s3 @ post \<and> filter (is_write_to q) post = []"
proof -
  from wait_for_bit_le32_frame[OF w2] obtain vs where
    vs: "trace s4 = trace s3 @ map (Rd a) vs" by blast
  from rest show ?thesis
  proof
    assume A: "ret \<noteq> 0 \<and> readl D a (printf m s4) = (v, s5) \<and> trace s' = trace s5"
    then have "trace s' = trace s3 @ (map (Rd a) vs @ [Rd a v])"
      using vs readl_frame[of D a "printf m s4" v s5] by (simp add: printf_def)
    moreover have "filter (is_write_to q) (map (Rd a) vs @ [Rd a v]) = []"
      by (simp add: filter_reads)
    ultimately show ?thesis by blast
  next
    assume B: "readl D a s4 = (v1, s5) \<and> fold (read_resp_data H D b) [0..<k] (r5, s5) = (r6, s6) \<and>
                  readl D a s6 = (v2, s7) \<and> readl D a (clrbits_le32 D a c s7) = (v3, s')"
    from B fold_read_resp_data_frame[of H D b k r5 s5 r6 s6] obtain evs where
      evs: "trace s6 = trace s5 @ evs" "\<forall>e\<in>set evs. \<not> is_write e" by blast
    obtain v4 h where rd: "dev_read D a (hw s7) = (v4, h)"
      by (cases "dev_read D a (hw s7)")
    have t': "trace s' = trace s7 @ [Rd a v4, Wr a (v4 AND NOT c), Rd a v3]"
      using B rd by (auto simp: clrbits_le32_def readl_def writel_def split: prod.splits)
    have "trace s' = trace s3 @
            (map (Rd a) vs @ [Rd a v1] @ evs @ [Rd a v2] @ [Rd a v4, Wr a (v4 AND NOT c), Rd a v3])"
      using t' vs evs B readl_frame[of D a s4 v1 s5] readl_frame[of D a s6 v2 s7] by simp
    moreover have "filter (is_write_to q)
            (map (Rd a) vs @ [Rd a v1] @ evs @ [Rd a v2] @ [Rd a v4, Wr a (v4 AND NOT c), Rd a v3]) = []"
      using ne by (simp add: filter_reads filter_non_writes[OF evs(2)])
    ultimately show ?thesis by blast
  qed
qed

lemma fold_read_resp_data_beyond:
  "3 \<le> n \<Longrightarrow>
   fold (read_resp_data H D b) [0..<n] (r, s) =
     (case fold (read_resp_data H D b) [0..<3] (r, s) of
        (r3, s3) \<Rightarrow> (r3, s3\<lparr>console := console s3 @ replicate (n - 3) Invalid_response_data\<rparr>))"
proof (induction n)
  case 0
  then show ?case by simp
next
  case (Suc n)
  obtain r3 s3 where f3: "fold (read_resp_data H D b) [0..<3] (r, s) = (r3, s3)"
    by (cases "fold (read_resp_data H D b) [0..<3] (r, s)")
  show ?case
  proof (cases "n = 2")
    case True
    then have "Suc n = 3" by simp
    then show ?thesis by (simp add: f3)
  next
    case False
    with Suc.prems have n: "3 \<le> n" by simp
    have rep: "replicate (n - 3) Invalid_response_data @ [Invalid_response_data] =
               replicate (Suc n - 3) Invalid_response_data"
    proof -
      from n obtain m where "n = 3 + m" by (auto simp: le_iff_add)
      then show ?thesis by (simp add: replicate_append_same)
    qed
    have "fold (read_resp_data H D b) [0..<Suc n] (r, s) =
          read_resp_data H D b n (fold (read_resp_data H D b) [0..<n] (r, s))"
      by simp
    also have "\<dots> = read_resp_data H D b n
           (r3, s3\<lparr>console := console s3 @ replicate (n - 3) Invalid_response_data\<rparr>)"
      by (simp add: Suc.IH[OF n] f3)
    also have "\<dots> = (r3, s3\<lparr>console :=
           (console s3 @ replicate (n - 3) Invalid_response_data) @ [Invalid_response_data]\<rparr>)"
      using n by (simp add: read_resp_data_def printf_def)
    finally show ?thesis
      unfolding f3 append_assoc rep by simp
  qed
qed

lemma readl_console:
  "readl D a (s\<lparr>console := c\<rparr>) = (case readl D a s of (v, s1) \<Rightarrow> (v, s1\<lparr>console := c\<rparr>))"
  by (simp add: readl_def split: prod.splits)

lemma readl_console_same: "readl D a s = (v, s1) \<Longrightarrow> console s1 = console s"
  by (auto simp: readl_def split: prod.splits)

lemma clrbits_le32_console:
  "clrbits_le32 D a m (s\<lparr>console := c\<rparr>) = (clrbits_le32 D a m s)\<lparr>console := c\<rparr>"
  by (simp add: clrbits_le32_def readl_def writel_def split: prod.splits)

lemma clrbits_le32_console_same: "console (clrbits_le32 D a m s) = console s"
  by (simp add: clrbits_le32_def readl_def writel_def split: prod.splits)

lemma hdr0_simps [simp]:
  "IOSSM_CMD_REQ_OFFSET hdr0 = 0x43C"
  "IOSSM_CMD_PARAM_0_OFFSET hdr0 = 0x438"
  "IOSSM_CMD_PARAM_1_OFFSET hdr0 = 0x434"
  "IOSSM_CMD_PARAM_2_OFFSET hdr0 = 0x430"
  "IOSSM_CMD_PARAM_3_OFFSET hdr0 = 0x42C"
  "IOSSM_CMD_PARAM_4_OFFSET hdr0 = 0x428"
  "IOSSM_CMD_PARAM_5_OFFSET hdr0 = 0x424"
  "IOSSM_CMD_PARAM_6_OFFSET hdr0 = 0x420"
  "IOSSM_CMD_RESPONSE_STATUS_OFFSET hdr0 = 0x45C"
  "IOSSM_CMD_RESPONSE_DATA_0_OFFSET hdr0 = 0x458"
  "IOSSM_CMD_RESPONSE_DATA_1_OFFSET hdr0 = 0x454"
  "IOSSM_CMD_RESPONSE_DATA_2_OFFSET hdr0 = 0x450"
  "IOSSM_STATUS_COMMAND_RESPONSE_READY hdr0 = 1"
  "IOSSM_CMD_RESPONSE_DATA_SHORT hdr0 = (\<lambda>d. drop_bit 16 d)"
  "TIMEOUT hdr0 = 2"
  "CMD_GET_SYS_INFO hdr0 = 1"
  "CMD_GET_MEM_INFO hdr0 = 2"
  "CMD_TRIG_MEM_CAL_OP hdr0 = 5"
  "GET_MEM_INTF_INFO hdr0 = 1"
  "GET_MEM_TECHNOLOGY hdr0 = 2"
  "GET_MEM_WIDTH_INFO hdr0 = 4"
  "TRIG_MEM_CAL hdr0 = 0xA"
  "GET_MEM_CAL_STATUS hdr0 = 0xB"
  "INTF_MEM_CAL_STATUS_SUCCESS hdr0 = 1"
  by (simp_all add: hdr0_def)

lemma mock_dev_simps [simp]:
  "dev_read (mock_dev H bases) = mock_read H bases"
  "dev_write (mock_dev H bases) = mock_write H bases"
  by (simp_all add: mock_dev_def)

lemmas eval_simps =
  io96b_mb_req_def readl_def writel_def clrbits_le32_def printf_def write_cmd_param_def
  read_resp_data_def mock_read_def is_resp_reg_def resp_regs_def mock_write_def mock_respond_def mock0_def dev0_def GENMASK_31_0
  upt_3 upt_6 wait_for_bit_le32_unfold Let_def

lemma req_offset_ok_hdr0: "req_offset_ok hdr0"
  by (simp add: req_offset_ok_def)


section \<open>Lemmas about the simulated mailbox\<close>

lemma mock_ok_D:
  assumes "mock_ok H bases" "b \<in> set bases"
  shows "b + IOSSM_CMD_RESPONSE_STATUS_OFFSET H - IOSSM_CMD_REQ_OFFSET H \<notin> set bases"
    and "b + IOSSM_CMD_RESPONSE_DATA_0_OFFSET H - IOSSM_CMD_REQ_OFFSET H \<notin> set bases"
    and "b + IOSSM_CMD_RESPONSE_DATA_1_OFFSET H - IOSSM_CMD_REQ_OFFSET H \<notin> set bases"
    and "b + IOSSM_CMD_RESPONSE_DATA_2_OFFSET H - IOSSM_CMD_REQ_OFFSET H \<notin> set bases"
    and "IOSSM_CMD_RESPONSE_STATUS_OFFSET H \<noteq> IOSSM_CMD_RESPONSE_DATA_0_OFFSET H"
    and "IOSSM_CMD_RESPONSE_STATUS_OFFSET H \<noteq> IOSSM_CMD_RESPONSE_DATA_1_OFFSET H"
    and "IOSSM_CMD_RESPONSE_STATUS_OFFSET H \<noteq> IOSSM_CMD_RESPONSE_DATA_2_OFFSET H"
    and "IOSSM_CMD_RESPONSE_DATA_0_OFFSET H \<noteq> IOSSM_CMD_RESPONSE_DATA_1_OFFSET H"
    and "IOSSM_CMD_RESPONSE_DATA_0_OFFSET H \<noteq> IOSSM_CMD_RESPONSE_DATA_2_OFFSET H"
    and "IOSSM_CMD_RESPONSE_DATA_1_OFFSET H \<noteq> IOSSM_CMD_RESPONSE_DATA_2_OFFSET H"
  using assms by (simp_all add: mock_ok_def resp_regs_def list_all_iff)

lemma is_resp_reg_I:
  assumes "b \<in> set bases"
  shows "is_resp_reg H bases (b + IOSSM_CMD_RESPONSE_STATUS_OFFSET H)"
    and "is_resp_reg H bases (b + IOSSM_CMD_RESPONSE_DATA_0_OFFSET H)"
    and "is_resp_reg H bases (b + IOSSM_CMD_RESPONSE_DATA_1_OFFSET H)"
    and "is_resp_reg H bases (b + IOSSM_CMD_RESPONSE_DATA_2_OFFSET H)"
  using assms by (simp_all add: is_resp_reg_def resp_regs_def)

lemma mock_readl_req:
  "b \<in> set bases \<Longrightarrow>
   readl (mock_dev H bases) (b + IOSSM_CMD_REQ_OFFSET H) s =
     (0, s\<lparr>trace := trace s @ [Rd (b + IOSSM_CMD_REQ_OFFSET H) 0]\<rparr>)"
  by (simp add: readl_def mock_read_def)

lemma mock_wait_idle:
  "b \<in> set bases \<Longrightarrow>
   wait_for_bit_le32 (mock_dev H bases) (b + IOSSM_CMD_REQ_OFFSET H) (GENMASK 31 0) False n s =
     (0, s\<lparr>trace := trace s @ [Rd (b + IOSSM_CMD_REQ_OFFSET H) 0]\<rparr>)"
  by (cases n) (simp_all add: mock_readl_req GENMASK_31_0)

lemma mock_readl_reg:
  "a - IOSSM_CMD_REQ_OFFSET H \<notin> set bases \<Longrightarrow> is_resp_reg H bases a \<Longrightarrow>
   readl (mock_dev H bases) a s =
     (m_regs (hw s) a, s\<lparr>trace := trace s @ [Rd a (m_regs (hw s) a)]\<rparr>)"
  by (simp add: readl_def mock_read_def)

lemma mock_readl_live:
  "a - IOSSM_CMD_REQ_OFFSET H \<notin> set bases \<Longrightarrow> \<not> is_resp_reg H bases a \<Longrightarrow>
   m_live (hw s) a = v # vs \<Longrightarrow>
   readl (mock_dev H bases) a s =
     (v, s\<lparr>hw := (hw s)\<lparr>m_live := (m_live (hw s))(a := vs)\<rparr>, trace := trace s @ [Rd a v]\<rparr>)"
  by (simp add: readl_def mock_read_def)

lemma mock_wait_ready:
  "a - IOSSM_CMD_REQ_OFFSET H \<notin> set bases \<Longrightarrow> is_resp_reg H bases a \<Longrightarrow>
   m_regs (hw s) a AND R = R \<Longrightarrow>
   wait_for_bit_le32 (mock_dev H bases) a R True n s =
     (0, s\<lparr>trace := trace s @ [Rd a (m_regs (hw s) a)]\<rparr>)"
  by (cases n) (simp_all add: mock_readl_reg)

lemma mock_writel_req:
  "b \<in> set bases \<Longrightarrow>
   writel (mock_dev H bases) v (b + IOSSM_CMD_REQ_OFFSET H) s =
     s\<lparr>hw := mock_respond H b (hw s), trace := trace s @ [Wr (b + IOSSM_CMD_REQ_OFFSET H) v]\<rparr>"
  by (simp add: writel_def mock_write_def)

lemma mock_writel_reg:
  "a - IOSSM_CMD_REQ_OFFSET H \<notin> set bases \<Longrightarrow>
   writel (mock_dev H bases) v a s =
     s\<lparr>hw := (hw s)\<lparr>m_regs := (m_regs (hw s))(a := v)\<rparr>, trace := trace s @ [Wr a v]\<rparr>"
  by (simp add: writel_def mock_write_def)

lemma mock_respond_regs:
  assumes "mock_ok H bases" "b \<in> set bases" "m_resps h = (st, d0, d1, d2) # rs"
  shows "m_regs (mock_respond H b h) (b + IOSSM_CMD_RESPONSE_STATUS_OFFSET H) = st"
    and "m_regs (mock_respond H b h) (b + IOSSM_CMD_RESPONSE_DATA_0_OFFSET H) = d0"
    and "m_regs (mock_respond H b h) (b + IOSSM_CMD_RESPONSE_DATA_1_OFFSET H) = d1"
    and "m_regs (mock_respond H b h) (b + IOSSM_CMD_RESPONSE_DATA_2_OFFSET H) = d2"
  using mock_ok_D(5-10)[OF assms(1,2)] assms(3)
  by (simp_all add: mock_respond_def)

lemma mock_exchange_simps [simp]:
  "m_live (mock_exchange H b h) = m_live h"
  "m_resps (mock_exchange H b h) = tl (m_resps h)"
  by (simp_all add: mock_exchange_def mock_respond_def Let_def split: list.splits prod.splits)

lemma mb_req_mock_2:
  assumes ok: "mock_ok H bases" and b: "b \<in> set bases"
      and q: "m_resps (hw s) = (st, d0, d1, d2) # rs"
      and rdy: "st AND IOSSM_STATUS_COMMAND_RESPONSE_READY H = IOSSM_STATUS_COMMAND_RESPONSE_READY H"
      and len: "length (cmd_resp_data resp) = 3"
  shows "io96b_mb_req H (mock_dev H bases) b ipt iid ty opc 0 0 0 0 0 0 0 2 resp s =
           ((0, \<lparr>cmd_resp_status = st, cmd_resp_data = [d0, d1, 0]\<rparr>),
            s\<lparr>hw := mock_exchange H b (hw s),
              trace := trace s @ exchange_trace_2 H b
                (push_bit 0 opc OR push_bit 16 ty OR push_bit 24 iid OR push_bit 29 ipt)
                st d0 d1\<rparr>)"
proof -
  note D = mock_ok_D[OF ok b]
  note I = is_resp_reg_I[OF b]
  note R = mock_respond_regs[OF ok b q]
  from len obtain x y z where xyz: "cmd_resp_data resp = [x, y, z]"
    by (auto simp: numeral_3_eq_3 length_Suc_conv)
  show ?thesis
    unfolding io96b_mb_req_def
    by (cases resp)
       (use xyz in \<open>simp add: mock_wait_idle[OF b] write_cmd_params_zero mock_writel_req[OF b]
          mock_wait_ready mock_readl_reg mock_writel_reg D I R rdy upt_3 upt_2
          read_resp_data_def clrbits_le32_def mock_exchange_def exchange_trace_2_def Let_def\<close>)
qed

lemma mb_req_mock_0:
  assumes ok: "mock_ok H bases" and b: "b \<in> set bases"
      and q: "m_resps (hw s) = (st, d0, d1, d2) # rs"
      and rdy: "st AND IOSSM_STATUS_COMMAND_RESPONSE_READY H = IOSSM_STATUS_COMMAND_RESPONSE_READY H"
      and len: "length (cmd_resp_data resp) = 3"
  shows "io96b_mb_req H (mock_dev H bases) b ipt iid ty opc 0 0 0 0 0 0 0 0 resp s =
           ((0, \<lparr>cmd_resp_status = st, cmd_resp_data = [0, 0, 0]\<rparr>),
            s\<lparr>hw := mock_exchange H b (hw s),
              trace := trace s @ exchange_trace_0 H b
                (push_bit 0 opc OR push_bit 16 ty OR push_bit 24 iid OR push_bit 29 ipt) st\<rparr>)"
proof -
  note D = mock_ok_D[OF ok b]
  note I = is_resp_reg_I[OF b]
  note R = mock_respond_regs[OF ok b q]
  from len obtain x y z where xyz: "cmd_resp_data resp = [x, y, z]"
    by (auto simp: numeral_3_eq_3 length_Suc_conv)
  show ?thesis
    unfolding io96b_mb_req_def
    by (cases resp)
       (use xyz in \<open>simp add: mock_wait_idle[OF b] write_cmd_params_zero mock_writel_req[OF b]
          mock_wait_ready mock_readl_reg mock_writel_reg D I R rdy upt_3
          read_resp_data_def clrbits_le32_def mock_exchange_def exchange_trace_0_def Let_def\<close>)
qed

lemma mock0_simps:
  "hw (mock0 rs live) = \<lparr>m_regs = (\<lambda>_. 0), m_resps = rs, m_live = live\<rparr>"
  "trace (mock0 rs live) = []"
  "console (mock0 rs live) = []"
  by (simp_all add: mock0_def)

lemma mock_ok_dev0: "mock_ok hdr0 [0x1000, 0x2000]"
  by (simp add: mock_ok_def resp_regs_def)

lemma holds_writes_mock:
  assumes "mock_ok H bases" "b \<in> set bases"
  shows "holds_writes (mock_dev H bases) (b + IOSSM_CMD_RESPONSE_STATUS_OFFSET H)"
  using mock_ok_D(1)[OF assms] is_resp_reg_I(1)[OF assms(2), of H]
  by (simp add: holds_writes_def mock_read_def mock_write_def)


section \<open>The mailbox transport: claims\<close>

text \<open>
  Two runs of \<^verbatim>\<open>io96b_mb_req\<close> against the simulated mailbox, evaluated in full: a
  successful exchange with one parameter and one data word requested, into a response
  structure that held stale values; and an exchange the mailbox never answers.
\<close>

lemma example_run_1:
  "io96b_mb_req hdr0 dev0 0x1000 1 2 3 4 0 6 0 0 0 0 5 1 stale_resp
     (mock0 [(0x30001, 7, 8, 9)] (\<lambda>_. [])) =
   ((0, \<lparr>cmd_resp_status = 0x30001, cmd_resp_data = [7, 0, 0]\<rparr>),
    \<lparr>hw = \<lparr>m_regs = (\<lambda>_. 0)(0x1434 := 6, 0x1458 := 7, 0x1454 := 8, 0x1450 := 9, 0x145C := 0x30000),
            m_resps = [], m_live = (\<lambda>_. [])\<rparr>,
      trace = [Rd 0x143C 0, Wr 0x1434 6, Wr 0x143C 0x22030004, Rd 0x145C 0x30001, Rd 0x145C 0x30001,
               Rd 0x1458 7, Rd 0x145C 0x30001, Rd 0x145C 0x30001, Wr 0x145C 0x30000,
               Rd 0x145C 0x30000],
      console = []\<rparr>)"
  by (simp add: eval_simps stale_resp_def upt_1)

lemma example_run_2:
  "io96b_mb_req hdr0 dev0 0x1000 1 2 3 4 0 0 0 0 0 0 0 1 stale_resp (mock0 [] (\<lambda>_. [])) =
   ((- ETIMEDOUT, \<lparr>cmd_resp_status = 0, cmd_resp_data = [0, 0, 0]\<rparr>),
    \<lparr>hw = \<lparr>m_regs = (\<lambda>_. 0), m_resps = [], m_live = (\<lambda>_. [])\<rparr>,
      trace = [Rd 0x143C 0, Wr 0x143C 0x22030004, Rd 0x145C 0, Rd 0x145C 0, Rd 0x145C 0,
               Rd 0x145C 0],
      console = [CMD_RESPONSE_ERROR, STATUS_GENERAL_ERROR 0, STATUS_CMD_RESPONSE_ERROR 0,
                 CMD_RESPONSE_READY 0x145C 0]\<rparr>)"
  by (simp add: eval_simps stale_resp_def upt_1)


text \<open>
  Claim C2 says that each of the seven parameter slots 0..6 is written to its register
  exactly when the value is non-zero. The loop of lines 131-164 runs
  \<^verbatim>\<open>for (i = 0; i < 6; i++)\<close>, so \<^verbatim>\<open>case 6\<close> of its \<^verbatim>\<open>switch\<close> is never reached:
  whatever \<^verbatim>\<open>cmd_param_6\<close> holds, the call does exactly what it does with
  \<^verbatim>\<open>cmd_param_6 = 0\<close>, and the register \<^verbatim>\<open>CMD_PARAM_6\<close> is never written. The claim holds
  for the slots 0..5 (\<open>write_cmd_params_trace\<close>) and fails for slot 6.
\<close>

theorem io96b_mb_req_ignores_cmd_param_6:
  "io96b_mb_req H D b ipt iid ty opc p0 p1 p2 p3 p4 p5 p6 len resp s =
   io96b_mb_req H D b ipt iid ty opc p0 p1 p2 p3 p4 p5 0 len resp s"
  unfolding io96b_mb_req_def write_cmd_params_param_6[of H D b p0 p1 p2 p3 p4 p5 p6]
  by (rule refl)

text \<open>
  Claim C5: every call of \<^verbatim>\<open>io96b_mb_req\<close> that reaches the doorbell step writes the
  request register exactly once, and only after the request register has been read as
  all-zero; the word written is the opcode at bit 0, the command type at bit 16, the
  instance id at bit 24 and the IP type at bit 29.

  The register accesses of a call are either polls of the request register only, with a
  non-zero return value (the doorbell step is not reached), or: polls of the request
  register, the last of which reads 0; then the writes of the non-zero parameters; then
  the write of the packed word to the request register; then accesses none of which
  writes the request register. In the second case the writes to the request register
  among all accesses of the call are that one write. The hypothesis says that the request
  register is none of the parameter registers and not the response-status register.
\<close>

theorem io96b_mb_req_doorbell:
  assumes hok: "req_offset_ok H"
      and run: "io96b_mb_req H D b ipt iid ty opc p0 p1 p2 p3 p4 p5 p6 len resp s = ((ret, r), s')"
  shows "(ret \<noteq> 0 \<and> (\<exists>polls. trace s' = trace s @ map (Rd (b + IOSSM_CMD_REQ_OFFSET H)) polls)) \<or>
         (\<exists>polls post.
            trace s' = trace s @ map (Rd (b + IOSSM_CMD_REQ_OFFSET H)) polls @
              [Rd (b + IOSSM_CMD_REQ_OFFSET H) 0] @
              cmd_param_writes H b p0 p1 p2 p3 p4 p5 @
              [Wr (b + IOSSM_CMD_REQ_OFFSET H)
                 (push_bit 0 opc OR push_bit 16 ty OR push_bit 24 iid OR push_bit 29 ipt)] @
              post \<and>
            filter (is_write_to (b + IOSSM_CMD_REQ_OFFSET H))
              (drop (length (trace s)) (trace s')) =
              [Wr (b + IOSSM_CMD_REQ_OFFSET H)
                 (push_bit 0 opc OR push_bit 16 ty OR push_bit 24 iid OR push_bit 29 ipt)])"
proof -
  let ?q = "b + IOSSM_CMD_REQ_OFFSET H"
  let ?a = "b + IOSSM_CMD_RESPONSE_STATUS_OFFSET H"
  let ?w = "push_bit 0 opc OR push_bit 16 ty OR push_bit 24 iid OR push_bit 29 ipt"
  let ?pw = "cmd_param_writes H b p0 p1 p2 p3 p4 p5"
  have ne: "?a \<noteq> ?q"
    using hok by (auto simp: req_offset_ok_def)
  have idle: "\<exists>polls. trace s1 = trace s @ map (Rd ?q) polls @ [Rd ?q 0]"
    if w1: "wait_for_bit_le32 D ?q (GENMASK 31 0) False (TIMEOUT H) s = (0, s1)" for s1
  proof -
    from wait_for_bit_le32_frame[OF w1] obtain vs where
      vs: "vs \<noteq> []" "trace s1 = trace s @ map (Rd ?q) vs" "last vs = 0"
      by (auto simp: idle_iff)
    then have "vs = butlast vs @ [0]"
      by (metis append_butlast_last_id)
    then have "map (Rd ?q) vs = map (Rd ?q) (butlast vs) @ [Rd ?q 0]"
      by (metis list.simps(8,9) map_append)
    with vs(2) show ?thesis by auto
  qed
  have reached: ?thesis
    if w1: "wait_for_bit_le32 D ?q (GENMASK 31 0) False (TIMEOUT H) s = (0, s1)"
      and post: "\<exists>post. trace s' = trace (writel D ?w ?q
                    (fold (write_cmd_param H D b p0 p1 p2 p3 p4 p5 p6) [0..<6] s1)) @ post \<and>
                  filter (is_write_to ?q) post = []" for s1
  proof -
    from idle[OF w1] obtain polls where
      p: "trace s1 = trace s @ map (Rd ?q) polls @ [Rd ?q 0]" by blast
    from post obtain post where
      q: "trace s' = trace (writel D ?w ?q
            (fold (write_cmd_param H D b p0 p1 p2 p3 p4 p5 p6) [0..<6] s1)) @ post"
         "filter (is_write_to ?q) post = []" by blast
    have t: "trace s' = trace s @ map (Rd ?q) polls @ [Rd ?q 0] @ ?pw @ [Wr ?q ?w] @ post"
      using p q(1) by (simp add: writel_def write_cmd_params_trace)
    have "filter (is_write_to ?q) (drop (length (trace s)) (trace s')) = [Wr ?q ?w]"
      using q(2) by (simp add: t filter_reads filter_cmd_param_writes[OF hok])
    with t show ?thesis by blast
  qed
  from run show ?thesis
  proof (cases rule: io96b_mb_req_cases)
    case (not_ready s1)
    from wait_for_bit_le32_frame[OF not_ready(1)] obtain vs where
      "trace s1 = trace s @ map (Rd ?q) vs" by blast
    with not_ready show ?thesis by (auto simp: printf_def)
  next
    case (timeout s1 s4 v s5)
    have "trace s' = trace s5"
      using timeout(5) by (simp add: printf_def)
    with timeout have "\<exists>post. trace s' = trace (writel D ?w ?q
                    (fold (write_cmd_param H D b p0 p1 p2 p3 p4 p5 p6) [0..<6] s1)) @ post \<and>
                  filter (is_write_to ?q) post = []"
      by (intro after_doorbell[OF timeout(2) _ ne]) blast
    with timeout(1) show ?thesis by (rule reached)
  next
    case (ok s1 s4 v1 s5 r6 s6 v2 s7 v3)
    then have "\<exists>post. trace s' = trace (writel D ?w ?q
                    (fold (write_cmd_param H D b p0 p1 p2 p3 p4 p5 p6) [0..<6] s1)) @ post \<and>
                  filter (is_write_to ?q) post = []"
      by (intro after_doorbell[OF ok(2) _ ne]) blast
    with ok(1) show ?thesis by (rule reached)
  qed
qed

theorem io96b_mb_req_doorbell_witness:
  "req_offset_ok hdr0 \<and>
   fst (io96b_mb_req hdr0 dev0 0x1000 1 2 3 4 0 6 0 0 0 0 5 1 stale_resp
          (mock0 [(0x30001, 7, 8, 9)] (\<lambda>_. []))) =
     (0, \<lparr>cmd_resp_status = 0x30001, cmd_resp_data = [7, 0, 0]\<rparr>) \<and>
   filter (is_write_to 0x143C)
     (trace (snd (io96b_mb_req hdr0 dev0 0x1000 1 2 3 4 0 6 0 0 0 0 5 1 stale_resp
                    (mock0 [(0x30001, 7, 8, 9)] (\<lambda>_. []))))) =
     [Wr 0x143C 0x22030004]"
  using io96b_mb_req_doorbell[OF req_offset_ok_hdr0 example_run_1] req_offset_ok_hdr0
  by (simp add: example_run_1 mock0_simps)

text \<open>
  Claim C6: for every call of \<^verbatim>\<open>io96b_mb_req\<close> that returns success, the ready bit of the
  response-status register is cleared before the call returns: the acknowledgement write
  has been issued and the register no longer shows the ready bit.

  The last three register accesses of a successful call are the read and the write of
  \<^verbatim>\<open>clrbits_le32\<close> on the response-status register, the write storing the value read
  with the ready bit cleared, and the driver's final read of that register. When the
  register holds what is written to it, that final read shows the ready bit clear. (What
  a register shows after a write is the device's matter; the driver does not check it.)
\<close>

theorem io96b_mb_req_ack:
  assumes run: "io96b_mb_req H D b ipt iid ty opc p0 p1 p2 p3 p4 p5 p6 len resp s = ((0, r), s')"
  shows "\<exists>pre v v'.
           trace s' = pre @
             [Rd (b + IOSSM_CMD_RESPONSE_STATUS_OFFSET H) v,
              Wr (b + IOSSM_CMD_RESPONSE_STATUS_OFFSET H)
                 (v AND NOT (IOSSM_STATUS_COMMAND_RESPONSE_READY H)),
              Rd (b + IOSSM_CMD_RESPONSE_STATUS_OFFSET H) v'] \<and>
           (holds_writes D (b + IOSSM_CMD_RESPONSE_STATUS_OFFSET H) \<longrightarrow>
              v' AND IOSSM_STATUS_COMMAND_RESPONSE_READY H = 0)"
  using run
proof (cases rule: io96b_mb_req_cases)
  case (ok s1 s4 v1 s5 r6 s6 v2 s7 v3)
  let ?a = "b + IOSSM_CMD_RESPONSE_STATUS_OFFSET H"
  let ?R = "IOSSM_STATUS_COMMAND_RESPONSE_READY H"
  obtain v h where rd: "dev_read D ?a (hw s7) = (v, h)"
    by (cases "dev_read D ?a (hw s7)")
  have tr: "trace s' = trace s7 @ [Rd ?a v, Wr ?a (v AND NOT ?R), Rd ?a v3]"
    and v3: "v3 = fst (dev_read D ?a (dev_write D ?a (v AND NOT ?R) h))"
    using ok(7) rd
    by (auto simp: clrbits_le32_def readl_def writel_def split: prod.splits)
  have "holds_writes D ?a \<longrightarrow> v3 AND ?R = 0"
    using v3 by (simp add: holds_writes_def and.assoc)
  with tr show ?thesis by blast
qed simp_all

theorem io96b_mb_req_ack_witness:
  "fst (io96b_mb_req hdr0 dev0 0x1000 1 2 3 4 0 6 0 0 0 0 5 1 stale_resp
          (mock0 [(0x30001, 7, 8, 9)] (\<lambda>_. []))) =
     (0, \<lparr>cmd_resp_status = 0x30001, cmd_resp_data = [7, 0, 0]\<rparr>) \<and>
   holds_writes dev0 (0x1000 + IOSSM_CMD_RESPONSE_STATUS_OFFSET hdr0) \<and>
   (\<exists>pre v v'.
      trace (snd (io96b_mb_req hdr0 dev0 0x1000 1 2 3 4 0 6 0 0 0 0 5 1 stale_resp
                    (mock0 [(0x30001, 7, 8, 9)] (\<lambda>_. [])))) =
        pre @ [Rd 0x145C v, Wr 0x145C (v AND NOT 1), Rd 0x145C v'] \<and>
      v' AND 1 = 0)"
proof -
  have h: "holds_writes dev0 (0x1000 + IOSSM_CMD_RESPONSE_STATUS_OFFSET hdr0)"
    unfolding dev0_def by (rule holds_writes_mock[OF mock_ok_dev0]) simp
  from io96b_mb_req_ack[OF example_run_1] h show ?thesis
    by (simp add: example_run_1)
qed

text \<open>
  Claim C9 says that a call with \<^verbatim>\<open>resp_data_len\<close> greater than 3 is rejected with an
  error of its own instead of returning success. In the source the \<^verbatim>\<open>default\<close> branch of
  the \<^verbatim>\<open>switch\<close> of lines 195-219 prints "Invalid response data" and goes on; no
  statement of the function assigns an error for it. A call with \<^verbatim>\<open>resp_data_len = 4\<close>
  that the mailbox answers returns 0, with three data words read and one message printed.
\<close>

theorem io96b_mb_req_long_resp_data_len_counterexample:
  "fst (io96b_mb_req hdr0 dev0 0x1000 1 2 3 4 0 0 0 0 0 0 0 4 usr_resp_init
          (mock0 [(0x30001, 7, 8, 9)] (\<lambda>_. []))) =
     (0, \<lparr>cmd_resp_status = 0x30001, cmd_resp_data = [7, 8, 9]\<rparr>) \<and>
   console (snd (io96b_mb_req hdr0 dev0 0x1000 1 2 3 4 0 0 0 0 0 0 0 4 usr_resp_init
                   (mock0 [(0x30001, 7, 8, 9)] (\<lambda>_. [])))) =
     [Invalid_response_data]"
  by (simp add: eval_simps usr_resp_init_eq upt_4)

text \<open>
  Claim C9 as amended: a \<^verbatim>\<open>resp_data_len\<close> greater than 3 is not rejected. The call
  returns what the call with \<^verbatim>\<open>resp_data_len = 3\<close> returns, with the same response, the
  same register accesses and the same device state; when that is success, the message
  "Invalid response data" has been printed once for every index from 3 up to
  \<^verbatim>\<open>resp_data_len - 1\<close>.
\<close>

theorem io96b_mb_req_long_resp_data_len:
  "io96b_mb_req H D b ipt iid ty opc p0 p1 p2 p3 p4 p5 p6 len resp s =
     (case io96b_mb_req H D b ipt iid ty opc p0 p1 p2 p3 p4 p5 p6 (min len 3) resp s of
        ((ret, r), s') \<Rightarrow>
          ((ret, r),
           if ret = 0
           then s'\<lparr>console := console s' @ replicate (unat len - 3) Invalid_response_data\<rparr>
           else s'))"
proof (cases "unat len \<le> 3")
  case True
  then have "len \<le> 3" by (simp add: word_le_nat_alt)
  then have "min len 3 = len" by (simp add: min_def)
  with True show ?thesis by (simp split: prod.splits)
next
  case False
  then have "\<not> len \<le> 3" by (simp add: word_le_nat_alt)
  then have m: "min len 3 = 3" by (simp add: min_def)
  from False have n: "3 \<le> unat len" by simp
  show ?thesis
    unfolding m io96b_mb_req_def Let_def
    by (simp add: fold_read_resp_data_beyond[OF n] readl_console clrbits_le32_console
          split: prod.splits)
       (auto dest!: readl_console_same simp: clrbits_le32_console_same)
qed

text \<open>
  Claim C10: on every call \<^verbatim>\<open>io96b_mb_req\<close> zeroes the caller's response structure, the
  status word and all three data words, before any register access; so every data word
  beyond the requested count, and every field when the call fails before reading the
  response, is zero on return.

  For a response structure with its three data words, whatever they hold: the call does
  what it does on an all-zero structure; a call that fails returns the all-zero
  structure; and after any call the data words at the indices from \<^verbatim>\<open>resp_data_len\<close> up
  to 2 are zero.
\<close>

theorem io96b_mb_req_zeroes_resp:
  assumes len3: "length (cmd_resp_data resp) = NUM_CMD_RESPONSE_DATA"
      and run: "io96b_mb_req H D b ipt iid ty opc p0 p1 p2 p3 p4 p5 p6 len resp s = ((ret, r), s')"
  shows "io96b_mb_req H D b ipt iid ty opc p0 p1 p2 p3 p4 p5 p6 len usr_resp_init s
           = ((ret, r), s') \<and>
         length (cmd_resp_data r) = NUM_CMD_RESPONSE_DATA \<and>
         (ret \<noteq> 0 \<longrightarrow> cmd_resp_status r = 0 \<and> cmd_resp_data r = [0, 0, 0]) \<and>
         (\<forall>i. unat len \<le> i \<and> i < NUM_CMD_RESPONSE_DATA \<longrightarrow> cmd_resp_data r ! i = 0)"
proof -
  have z: "zeroed resp = usr_resp_init"
    by (rule zeroed_eq[OF len3])
  have zi: "zeroed usr_resp_init = usr_resp_init"
    by (rule zeroed_eq) (simp add: usr_resp_init_def)
  have same: "io96b_mb_req H D b ipt iid ty opc p0 p1 p2 p3 p4 p5 p6 len usr_resp_init s
                = io96b_mb_req H D b ipt iid ty opc p0 p1 p2 p3 p4 p5 p6 len resp s"
    using z zi unfolding io96b_mb_req_def zeroed_def by simp
  have init: "cmd_resp_status usr_resp_init = 0" "cmd_resp_data usr_resp_init = [0, 0, 0]"
    by (simp_all add: usr_resp_init_def numeral_3_eq_3)
  from run have rest:
    "length (cmd_resp_data r) = NUM_CMD_RESPONSE_DATA \<and>
     (ret \<noteq> 0 \<longrightarrow> cmd_resp_status r = 0 \<and> cmd_resp_data r = [0, 0, 0]) \<and>
     (\<forall>i. unat len \<le> i \<and> i < NUM_CMD_RESPONSE_DATA \<longrightarrow> cmd_resp_data r ! i = 0)"
  proof (cases rule: io96b_mb_req_cases)
    case (not_ready s1)
    then show ?thesis using z init by (auto simp: nth_Cons')
  next
    case (timeout s1 s4 v s5)
    then show ?thesis using z init by (auto simp: nth_Cons')
  next
    case (ok s1 s4 v1 s5 r6 s6 v2 s7 v3)
    from fold_read_resp_data_frame[OF ok(4)] z init ok(6,8) show ?thesis
      by (auto simp: nth_Cons')
  qed
  from same run rest show ?thesis by simp
qed

theorem io96b_mb_req_zeroes_resp_witness:
  "length (cmd_resp_data stale_resp) = NUM_CMD_RESPONSE_DATA \<and>
   cmd_resp_data stale_resp = [0x11, 0x22, 0x33] \<and>
   fst (io96b_mb_req hdr0 dev0 0x1000 1 2 3 4 0 6 0 0 0 0 5 1 usr_resp_init
          (mock0 [(0x30001, 7, 8, 9)] (\<lambda>_. []))) =
     (0, \<lparr>cmd_resp_status = 0x30001, cmd_resp_data = [7, 0, 0]\<rparr>) \<and>
   fst (io96b_mb_req hdr0 dev0 0x1000 1 2 3 4 0 0 0 0 0 0 0 1 usr_resp_init
          (mock0 [] (\<lambda>_. []))) =
     (- ETIMEDOUT, \<lparr>cmd_resp_status = 0, cmd_resp_data = [0, 0, 0]\<rparr>)"
proof -
  have l: "length (cmd_resp_data stale_resp) = NUM_CMD_RESPONSE_DATA"
    by (simp add: stale_resp_def)
  from io96b_mb_req_zeroes_resp[OF l example_run_1] io96b_mb_req_zeroes_resp[OF l example_run_2] l
  show ?thesis
    by (simp add: stale_resp_def)
qed


section \<open>Interface enumeration: claims\<close>

lemma bf_shf_unfold:
  "bf_shf n k m = (if n = 0 then k else if bit m k then k else bf_shf (n - 1) (k + 1) m)"
  by (cases n) simp_all

lemma GENMASK_ip_type: "(GENMASK 31 29 :: u32) = 0xE0000000"
  by (simp add: GENMASK_def mask_eq_exp_minus_1 push_bit_eq_mult)

lemma GENMASK_instance_id: "(GENMASK 28 24 :: u32) = 0x1F000000"
  by (simp add: GENMASK_def mask_eq_exp_minus_1 push_bit_eq_mult)

lemma bf_shf_ip_type: "bf_shf 32 0 (0xE0000000 :: u32) = 29"
  by (simp add: bf_shf_unfold)

lemma bf_shf_instance_id: "bf_shf 32 0 (0x1F000000 :: u32) = 24"
  by (simp add: bf_shf_unfold)

lemma FIELD_GET_ip_type: "FIELD_GET INTF_IP_TYPE_MASK w = drop_bit 29 w"
proof -
  have a: "drop_bit 29 (w AND GENMASK 31 29) = drop_bit 29 w"
  proof (rule bit_word_eqI)
    fix n assume "n < LENGTH(32)"
    have "bit w (29 + n) \<Longrightarrow> n < 3"
      using bit_imp_le_length[of w "29 + n"] by simp
    then show "bit (drop_bit 29 (w AND GENMASK 31 29)) n = bit (drop_bit 29 w) n"
      by (auto simp: bit_simps GENMASK_def)
  qed
  have b: "bf_shf LENGTH(32) 0 (GENMASK 31 29 :: u32) = 29"
    by (simp add: GENMASK_ip_type bf_shf_ip_type)
  show ?thesis
    by (simp only: FIELD_GET_def INTF_IP_TYPE_MASK_def b a)
qed

lemma FIELD_GET_instance_id: "FIELD_GET INTF_INSTANCE_ID_MASK w = take_bit 5 (drop_bit 24 w)"
proof -
  have a: "drop_bit 24 (w AND GENMASK 28 24) = take_bit 5 (drop_bit 24 w)"
    by (rule bit_word_eqI) (auto simp: bit_simps GENMASK_def)
  have b: "bf_shf LENGTH(32) 0 (GENMASK 28 24 :: u32) = 24"
    by (simp add: GENMASK_instance_id bf_shf_instance_id)
  show ?thesis
    by (simp only: FIELD_GET_def INTF_INSTANCE_ID_MASK_def b a)
qed

lemma ucast_ip_type: "(ucast (ucast (drop_bit 29 (w :: u32)) :: u8) :: u32) = drop_bit 29 w"
proof (rule bit_word_eqI)
  fix n assume "n < LENGTH(32)"
  have "bit w (29 + n) \<Longrightarrow> n < 8"
    using bit_imp_le_length[of w "29 + n"] by simp
  then show "bit (ucast (ucast (drop_bit 29 w) :: u8) :: u32) n = bit (drop_bit 29 w) n"
    by (auto simp: bit_simps)
qed

lemma ucast_ip_type_0: "(ucast (drop_bit 29 (w :: u32)) :: u8) = 0 \<longleftrightarrow> drop_bit 29 w = 0"
  by (metis ucast_ip_type ucast_0)

lemma ucast_instance_id:
  "(ucast (ucast (take_bit 5 (drop_bit 24 (w :: u32))) :: u8) :: u32) = take_bit 5 (drop_bit 24 w)"
  by (rule bit_word_eqI) (auto simp: bit_simps)

lemma io96b_mb_init_k_spec:
  "j + length (filter (\<lambda>w. drop_bit 29 w \<noteq> 0) (map ((!) (cmd_resp_data r)) ks)) \<le> length (ip_type c) \<Longrightarrow>
   j + length (filter (\<lambda>w. drop_bit 29 w \<noteq> 0) (map ((!) (cmd_resp_data r)) ks))
     \<le> length (ip_instance_id c) \<Longrightarrow>
   io96b_mb_init_k r ks j c =
     c\<lparr>ip_type := take j (ip_type c) @
          map (drop_bit 29) (filter (\<lambda>w. drop_bit 29 w \<noteq> 0) (map ((!) (cmd_resp_data r)) ks)) @
          drop (j + length (filter (\<lambda>w. drop_bit 29 w \<noteq> 0) (map ((!) (cmd_resp_data r)) ks)))
            (ip_type c),
        ip_instance_id := take j (ip_instance_id c) @
          map (\<lambda>w. take_bit 5 (drop_bit 24 w))
            (filter (\<lambda>w. drop_bit 29 w \<noteq> 0) (map ((!) (cmd_resp_data r)) ks)) @
          drop (j + length (filter (\<lambda>w. drop_bit 29 w \<noteq> 0) (map ((!) (cmd_resp_data r)) ks)))
            (ip_instance_id c)\<rparr>"
proof (induction ks arbitrary: j c)
  case Nil
  then show ?case by simp
next
  case (Cons k ks)
  let ?w = "cmd_resp_data r ! k"
  show ?case
  proof (cases "drop_bit 29 ?w = 0")
    case True
    with Cons show ?thesis
      by (simp add: FIELD_GET_ip_type FIELD_GET_instance_id ucast_ip_type_0 Let_def)
  next
    case False
    let ?c1 = "c\<lparr>ip_type := (ip_type c)[j := drop_bit 29 ?w],
                  ip_instance_id := (ip_instance_id c)[j := take_bit 5 (drop_bit 24 ?w)]\<rparr>"
    from False Cons.prems have j: "j < length (ip_type c)" "j < length (ip_instance_id c)"
      by simp_all
    have step: "io96b_mb_init_k r (k # ks) j c = io96b_mb_init_k r ks (Suc j) ?c1"
      using False
      by (simp add: FIELD_GET_ip_type FIELD_GET_instance_id ucast_ip_type_0 ucast_ip_type
            ucast_instance_id Let_def)
    have t1: "take (Suc j) ((ip_type c)[j := x]) = take j (ip_type c) @ [x]" for x
      using j(1) by (simp add: take_Suc_conv_app_nth)
    have t2: "take (Suc j) ((ip_instance_id c)[j := x]) = take j (ip_instance_id c) @ [x]" for x
      using j(2) by (simp add: take_Suc_conv_app_nth)
    from False Cons.prems show ?thesis
      unfolding step
      by (subst Cons.IH) (simp_all add: t1 t2)
  qed
qed

lemma map_nth_upt: "m \<le> length xs \<Longrightarrow> map ((!) xs) [0..<m] = take m xs"
  by (simp add: list_eq_iff_nth_eq)

lemma unat_and_3: "unat ((x :: u32) AND 0x3) \<le> 3"
proof -
  have "x AND 3 \<le> 3" by (rule word_and_le1)
  then show ?thesis by (simp add: word_le_nat_alt)
qed

lemma filter_take_3:
  "length (filter (\<lambda>w. drop_bit 29 w \<noteq> 0) (take n [d0, d1, (0 :: u32)])) \<le> 2"
proof -
  have "filter (\<lambda>w. drop_bit 29 w \<noteq> 0) (take n [d0, d1, (0 :: u32)]) =
        filter (\<lambda>w. drop_bit 29 w \<noteq> 0) (take n [d0, d1])"
    by (cases n rule: nat.exhaust[case_product nat.exhaust]) (auto simp: take_Cons')
  also have "length \<dots> \<le> length (take n [d0, d1])"
    by (rule length_filter_le)
  finally show ?thesis by simp
qed

lemma io96b_mb_init_k_table:
  assumes "2 \<le> length (ip_type c)" "2 \<le> length (ip_instance_id c)"
  shows "io96b_mb_init_k \<lparr>cmd_resp_status = st, cmd_resp_data = [d0, d1, 0]\<rparr>
           [0..<unat (IOSSM_CMD_RESPONSE_DATA_SHORT H st AND 0x3)] 0
           (c\<lparr>num_mem_interface := unat (IOSSM_CMD_RESPONSE_DATA_SHORT H st AND 0x3)\<rparr>) =
         recorded_table H (st, d0, d1, d2) c"
proof -
  let ?n = "unat (IOSSM_CMD_RESPONSE_DATA_SHORT H st AND 0x3)"
  have m: "map ((!) [d0, d1, 0]) [0..<?n] = take ?n [d0, d1, 0]"
    by (rule map_nth_upt) (use unat_and_3[of "IOSSM_CMD_RESPONSE_DATA_SHORT H st"] in simp)
  from filter_take_3[of ?n d0 d1] assms show ?thesis
    by (subst io96b_mb_init_k_spec) (simp_all add: m recorded_table_def Let_def)
qed

lemma io96b_mb_init_i_mock:
  assumes ok: "mock_ok H bases"
  shows "distinct is \<Longrightarrow>
     (\<forall>i\<in>set is. i < length (io96b ctrl) \<and> io96b_csr_addr (io96b ctrl ! i) \<in> set bases \<and>
        2 \<le> length (ip_type (mb_ctrl (io96b ctrl ! i))) \<and>
        2 \<le> length (ip_instance_id (mb_ctrl (io96b ctrl ! i)))) \<Longrightarrow>
     m_resps (hw s) = rs \<Longrightarrow> length is \<le> length rs \<Longrightarrow>
     (\<forall>r\<in>set (take (length is) rs). resp_ready H r) \<Longrightarrow>
     length (cmd_resp_data resp) = 3 \<Longrightarrow>
     \<exists>ctrl' s'. io96b_mb_init_i H (mock_dev H bases) is ctrl resp s = (Returns ctrl', s') \<and>
        length (io96b ctrl') = length (io96b ctrl) \<and>
        (\<forall>i. i \<notin> set is \<longrightarrow> io96b ctrl' ! i = io96b ctrl ! i) \<and>
        (\<forall>p<length is. io96b ctrl' ! (is ! p) =
           (io96b ctrl ! (is ! p))\<lparr>mb_ctrl :=
              recorded_table H (rs ! p) (mb_ctrl (io96b ctrl ! (is ! p)))\<rparr>)"
proof (induction "is" arbitrary: ctrl resp s rs)
  case Nil
  then show ?case by simp
next
  case (Cons i "is")
  from Cons.prems(4) obtain r rs' where rs: "rs = r # rs'"
    by (cases rs) auto
  obtain st d0 d1 d2 where r: "r = (st, d0, d1, d2)"
    by (cases r) auto
  let ?D = "mock_dev H bases"
  let ?b = "io96b_csr_addr (io96b ctrl ! i)"
  let ?w = "push_bit 0 (GET_MEM_INTF_INFO H) OR push_bit 16 (CMD_GET_SYS_INFO H) OR
            push_bit 24 0 OR push_bit 29 (0 :: u32)"
  let ?s1 = "s\<lparr>hw := mock_exchange H ?b (hw s),
               trace := trace s @ exchange_trace_2 H ?b ?w st d0 d1\<rparr>"
  let ?r1 = "\<lparr>cmd_resp_status = st, cmd_resp_data = [d0, d1, 0]\<rparr>"
  let ?c1 = "recorded_table H r (mb_ctrl (io96b ctrl ! i))"
  let ?ctrl1 = "ctrl\<lparr>io96b := (io96b ctrl)[i := (io96b ctrl ! i)\<lparr>mb_ctrl := ?c1\<rparr>]\<rparr>"
  from Cons.prems(2) have i: "i < length (io96b ctrl)" "?b \<in> set bases"
    "2 \<le> length (ip_type (mb_ctrl (io96b ctrl ! i)))"
    "2 \<le> length (ip_instance_id (mb_ctrl (io96b ctrl ! i)))"
    by simp_all
  from Cons.prems(5) rs r have rdy:
    "st AND IOSSM_STATUS_COMMAND_RESPONSE_READY H = IOSSM_STATUS_COMMAND_RESPONSE_READY H"
    by (simp add: resp_ready_def)
  have q: "m_resps (hw s) = (st, d0, d1, d2) # rs'"
    using Cons.prems(3) rs r by simp
  have ex: "io96b_mb_req H ?D ?b 0 0 (CMD_GET_SYS_INFO H) (GET_MEM_INTF_INFO H)
              0 0 0 0 0 0 0 2 resp s = ((0, ?r1), ?s1)"
    by (rule mb_req_mock_2[OF ok i(2) q rdy Cons.prems(6)])
  have step: "io96b_mb_init_i H ?D (i # is) ctrl resp s = io96b_mb_init_i H ?D is ?ctrl1 ?r1 ?s1"
    using io96b_mb_init_k_table[OF i(3,4), of st d0 d1 H d2]
    by (simp add: ex r Let_def)
  from Cons.prems(1) have d: "distinct is" "i \<notin> set is" by simp_all
  have p2: "\<forall>k\<in>set is. k < length (io96b ?ctrl1) \<and> io96b_csr_addr (io96b ?ctrl1 ! k) \<in> set bases \<and>
        2 \<le> length (ip_type (mb_ctrl (io96b ?ctrl1 ! k))) \<and>
        2 \<le> length (ip_instance_id (mb_ctrl (io96b ?ctrl1 ! k)))"
    using Cons.prems(2) d(2) by (auto simp: nth_list_update)
  have p3: "m_resps (hw ?s1) = rs'"
    using q by simp
  have p4: "length is \<le> length rs'"
    using Cons.prems(4) rs by simp
  have p5: "\<forall>r\<in>set (take (length is) rs'). resp_ready H r"
    using Cons.prems(5) rs by simp
  have p6: "length (cmd_resp_data ?r1) = 3" by simp
  from Cons.IH[OF d(1) p2 p3 p4 p5 p6] obtain ctrl' s' where
    run: "io96b_mb_init_i H ?D is ?ctrl1 ?r1 ?s1 = (Returns ctrl', s')"
    and l: "length (io96b ctrl') = length (io96b ?ctrl1)"
    and fr: "\<forall>k. k \<notin> set is \<longrightarrow> io96b ctrl' ! k = io96b ?ctrl1 ! k"
    and tb: "\<forall>p<length is. io96b ctrl' ! (is ! p) =
           (io96b ?ctrl1 ! (is ! p))\<lparr>mb_ctrl :=
              recorded_table H (rs' ! p) (mb_ctrl (io96b ?ctrl1 ! (is ! p)))\<rparr>"
    by blast
  have a: "length (io96b ctrl') = length (io96b ctrl)"
    using l by simp
  have b: "\<forall>k. k \<notin> set (i # is) \<longrightarrow> io96b ctrl' ! k = io96b ctrl ! k"
    using fr by (auto simp: nth_list_update)
  have c: "io96b ctrl' ! ((i # is) ! p) =
           (io96b ctrl ! ((i # is) ! p))\<lparr>mb_ctrl :=
              recorded_table H (rs ! p) (mb_ctrl (io96b ctrl ! ((i # is) ! p)))\<rparr>"
    if "p < length (i # is)" for p
  proof (cases p)
    case 0
    with fr d(2) i(1) rs show ?thesis by simp
  next
    case (Suc p')
    with that have p': "p' < length is" by simp
    then have "is ! p' \<noteq> i" using d(2) by (metis nth_mem)
    with tb p' Suc rs show ?thesis by (simp add: nth_list_update)
  qed
  from run a b c show ?case
    unfolding step by blast
qed

text \<open>
  Claim C4: when the get-memory-interface-info command succeeds and the low two bits of
  the status word's short data field report \<open>n\<close> interfaces, \<^verbatim>\<open>io96b_mb_init\<close> records as
  table entries exactly those of the first \<open>n\<close> response data words whose IP-type field
  (bits 29-31) is non-zero; a response of two data words of which the second has a zero
  IP type gives one recorded interface, not two.

  The source passes over a word with a zero IP type when it writes the table (index
  \<open>j\<close>, lines 268-280), but it never lowers \<^verbatim>\<open>num_mem_interface\<close>, set to \<open>n\<close> at line 259.
  The table is read through that count (the loops at lines 365, 442, 481 and 530), so it
  still has \<open>n\<close> interfaces, the last ones being whatever the arrays held before. Besides,
  the request asks for two data words only: for \<open>n = 3\<close> the third word examined is the
  zero of line 119, not a word of the response.

  What the call does, against the simulated mailbox with one ready response queued per
  instance: it returns, and for every instance \<open>i\<close> with response \<open>(st, d0, d1, d2)\<close> the
  interface count is \<open>n\<close>, the low two bits of the short data field, also when fewer than
  \<open>n\<close> entries are written; the entries written, from index 0 on and in order, are the IP
  type and instance id (bits 24-28) of those among the first \<open>n\<close> words of \<open>[d0, d1, 0]\<close>
  whose IP type is non-zero; the array elements behind them are unchanged. The arrays have
  at least their two elements.
\<close>

theorem io96b_mb_init_records:
  assumes ok: "mock_ok H bases"
      and n: "num_instance ctrl \<le> length (io96b ctrl)"
      and inst: "\<forall>i<num_instance ctrl.
                   io96b_csr_addr (io96b ctrl ! i) \<in> set bases \<and>
                   2 \<le> length (ip_type (mb_ctrl (io96b ctrl ! i))) \<and>
                   2 \<le> length (ip_instance_id (mb_ctrl (io96b ctrl ! i)))"
      and q: "m_resps (hw s) = rs" "length rs = num_instance ctrl"
      and rdy: "\<forall>r\<in>set rs. resp_ready H r"
  shows "\<exists>ctrl' s'.
           io96b_mb_init H (mock_dev H bases) ctrl s = (Returns ctrl', s') \<and>
           (\<forall>i<num_instance ctrl.
              case rs ! i of (st, d0, d1, d2) \<Rightarrow>
                let n = unat (IOSSM_CMD_RESPONSE_DATA_SHORT H st AND 0x3);
                    es = filter (\<lambda>w. drop_bit 29 w \<noteq> 0) (take n [d0, d1, 0]);
                    c = mb_ctrl (io96b ctrl ! i);
                    c' = mb_ctrl (io96b ctrl' ! i)
                in num_mem_interface c' = n \<and>
                   ip_type c' = map (drop_bit 29) es @ drop (length es) (ip_type c) \<and>
                   ip_instance_id c' =
                     map (\<lambda>w. take_bit 5 (drop_bit 24 w)) es @
                     drop (length es) (ip_instance_id c))"
proof -
  have p2: "\<forall>i\<in>set [0..<num_instance ctrl].
        i < length (io96b ctrl) \<and> io96b_csr_addr (io96b ctrl ! i) \<in> set bases \<and>
        2 \<le> length (ip_type (mb_ctrl (io96b ctrl ! i))) \<and>
        2 \<le> length (ip_instance_id (mb_ctrl (io96b ctrl ! i)))"
    using n inst by auto
  have p5: "\<forall>r\<in>set (take (length [0..<num_instance ctrl]) rs). resp_ready H r"
    using rdy by (auto dest: in_set_takeD)
  have p6: "length (cmd_resp_data usr_resp_init) = 3"
    by (simp add: usr_resp_init_def)
  from io96b_mb_init_i_mock[OF ok distinct_upt p2 q(1) _ p5 p6] q(2)
  obtain ctrl' s' where
    run: "io96b_mb_init_i H (mock_dev H bases) [0..<num_instance ctrl] ctrl usr_resp_init s
            = (Returns ctrl', s')"
    and tb: "\<forall>p<length [0..<num_instance ctrl]. io96b ctrl' ! ([0..<num_instance ctrl] ! p) =
           (io96b ctrl ! ([0..<num_instance ctrl] ! p))\<lparr>mb_ctrl :=
              recorded_table H (rs ! p) (mb_ctrl (io96b ctrl ! ([0..<num_instance ctrl] ! p)))\<rparr>"
    by auto
  have "mb_ctrl (io96b ctrl' ! i) = recorded_table H (rs ! i) (mb_ctrl (io96b ctrl ! i))"
    if "i < num_instance ctrl" for i
    using tb that by simp
  then show ?thesis
    using run unfolding io96b_mb_init_def
    by (auto simp: recorded_table_def Let_def split: prod.splits)
qed

theorem io96b_mb_init_records_witness:
  "mock_ok hdr0 [0x1000, 0x2000] \<and>
   resp_ready hdr0 (0x20001, 0x23000000, 0x05000000, 0x99) \<and>
   (\<exists>ctrl' s'.
      io96b_mb_init hdr0 dev0 (example_ctrl [example_inst 0x1000 True 0] 1 True)
        (mock0 [(0x20001, 0x23000000, 0x05000000, 0x99)] (\<lambda>_. [])) = (Returns ctrl', s') \<and>
      num_mem_interface (mb_ctrl (io96b ctrl' ! 0)) = 2 \<and>
      ip_type (mb_ctrl (io96b ctrl' ! 0)) = [1, 0xBB] \<and>
      ip_instance_id (mb_ctrl (io96b ctrl' ! 0)) = [3, 0xDD])"
proof -
  let ?rs = "[(0x20001, 0x23000000, 0x05000000, 0x99)] :: (u32 \<times> u32 \<times> u32 \<times> u32) list"
  let ?ctrl = "example_ctrl [example_inst 0x1000 True 0] 1 True"
  have r: "resp_ready hdr0 (0x20001, 0x23000000, 0x05000000, 0x99)"
    by (simp add: resp_ready_def)
  have n: "num_instance ?ctrl \<le> length (io96b ?ctrl)"
    by (simp add: example_ctrl_def)
  have inst: "\<forall>i<num_instance ?ctrl.
                   io96b_csr_addr (io96b ?ctrl ! i) \<in> set [0x1000, 0x2000] \<and>
                   2 \<le> length (ip_type (mb_ctrl (io96b ?ctrl ! i))) \<and>
                   2 \<le> length (ip_instance_id (mb_ctrl (io96b ?ctrl ! i)))"
    by (simp add: example_ctrl_def example_inst_def)
  have q: "m_resps (hw (mock0 ?rs (\<lambda>_. []))) = ?rs" "length ?rs = num_instance ?ctrl"
    by (simp_all add: mock0_simps example_ctrl_def)
  have rdy: "\<forall>r\<in>set ?rs. resp_ready hdr0 r"
    using r by simp
  from io96b_mb_init_records[OF mock_ok_dev0 n inst q rdy]
  obtain ctrl' s' where
    "io96b_mb_init hdr0 dev0 ?ctrl (mock0 ?rs (\<lambda>_. [])) = (Returns ctrl', s')"
    "num_mem_interface (mb_ctrl (io96b ctrl' ! 0)) = 2"
    "ip_type (mb_ctrl (io96b ctrl' ! 0)) = [1, 0xBB]"
    "ip_instance_id (mb_ctrl (io96b ctrl' ! 0)) = [3, 0xDD]"
    unfolding dev0_def
    by (auto simp: example_ctrl_def example_inst_def Let_def drop_bit_eq_div take_bit_eq_mod)
  with mock_ok_dev0 r show ?thesis by blast
qed


section \<open>DDR type query: claims\<close>

lemma GENMASK_2_0: "(GENMASK 2 0 :: u32) = 7"
  by (simp add: GENMASK_def mask_eq_exp_minus_1)

lemma ddr_type_ret_code:
  "unat (ucast (IOSSM_CMD_RESPONSE_DATA_SHORT H st AND GENMASK 2 0) :: u8) =
   type_code H (st, d0, d1, d2)"
proof -
  have "(mask 3 :: u32) = 7"
    by (simp add: mask_eq_exp_minus_1)
  then have "(x :: u32) AND 7 = take_bit 3 x" for x
    by (simp add: take_bit_eq_mask)
  then show ?thesis
    by (simp add: type_code_def GENMASK_2_0 unsigned_ucast_eq take_bit_take_bit unsigned_take_bit_eq min_def)
qed

lemma tech_scan_append:
  "tech_scan ddr (xs @ ys) =
     (case tech_scan ddr xs of
        (ddr', None) \<Rightarrow> tech_scan ddr' ys
      | (ddr', Some i) \<Rightarrow> (ddr', Some i))"
  by (induction ddr xs rule: tech_scan.induct) (simp_all add: Let_def)

lemma get_mem_technology_j_mock:
  assumes ok: "mock_ok H bases" and b: "io96b_csr_addr (io96b ctrl ! i) \<in> set bases"
  shows "m_resps (hw s) = rs \<Longrightarrow> length js \<le> length rs \<Longrightarrow>
     (\<forall>r\<in>set (take (length js) rs). resp_ready H r) \<Longrightarrow>
     length (cmd_resp_data resp) = 3 \<Longrightarrow> io96b ctrl0 = io96b ctrl \<Longrightarrow>
     \<exists>resp' s'.
       get_mem_technology_j H (mock_dev H bases) i js ctrl0 resp s =
         ((case snd (tech_scan (ddr_type ctrl0) (map (\<lambda>r. (i, type_code H r)) (take (length js) rs))) of
             None \<Rightarrow> 0 | Some k \<Rightarrow> - ENOEXEC,
           ctrl0\<lparr>ddr_type :=
             fst (tech_scan (ddr_type ctrl0) (map (\<lambda>r. (i, type_code H r)) (take (length js) rs)))\<rparr>,
           resp'), s') \<and>
       length (cmd_resp_data resp') = 3 \<and>
       (case snd (tech_scan (ddr_type ctrl0) (map (\<lambda>r. (i, type_code H r)) (take (length js) rs))) of
          None \<Rightarrow> m_resps (hw s') = drop (length js) rs \<and> console s' = console s
        | Some k \<Rightarrow> console s' = console s @ [Mismatch_DDR_type k])"
proof (induction js arbitrary: ctrl0 resp s rs)
  case Nil
  then show ?case by simp
next
  case (Cons j js)
  from Cons.prems(2) obtain st d0 d1 d2 rs' where rs: "rs = (st, d0, d1, d2) # rs'"
    by (cases rs) auto
  let ?D = "mock_dev H bases"
  let ?b = "io96b_csr_addr (io96b ctrl ! i)"
  let ?w = "push_bit 0 (GET_MEM_TECHNOLOGY H) OR push_bit 16 (CMD_GET_MEM_INFO H) OR
            push_bit 24 (ip_instance_id (mb_ctrl (io96b ctrl ! i)) ! j) OR
            push_bit 29 (ip_type (mb_ctrl (io96b ctrl ! i)) ! j)"
  let ?s1 = "s\<lparr>hw := mock_exchange H ?b (hw s),
               trace := trace s @ exchange_trace_0 H ?b ?w st\<rparr>"
  let ?r1 = "\<lparr>cmd_resp_status = st, cmd_resp_data = [0, 0, 0]\<rparr>"
  let ?t = "type_code H (st, d0, d1, d2)"
  let ?c1 = "seed_ddr_type ctrl0 (ucast (IOSSM_CMD_RESPONSE_DATA_SHORT H st AND GENMASK 2 0))"
  from Cons.prems(3) rs have rdy:
    "st AND IOSSM_STATUS_COMMAND_RESPONSE_READY H = IOSSM_STATUS_COMMAND_RESPONSE_READY H"
    by (simp add: resp_ready_def)
  have q: "m_resps (hw s) = (st, d0, d1, d2) # rs'"
    using Cons.prems(1) rs by simp
  have ex: "io96b_mb_req H ?D ?b (ip_type (mb_ctrl (io96b ctrl ! i)) ! j)
              (ip_instance_id (mb_ctrl (io96b ctrl ! i)) ! j)
              (CMD_GET_MEM_INFO H) (GET_MEM_TECHNOLOGY H)
              0 0 0 0 0 0 0 0 resp s = ((0, ?r1), ?s1)"
    by (rule mb_req_mock_0[OF ok b q rdy Cons.prems(4)])
  have c1: "?c1 = ctrl0\<lparr>ddr_type :=
              (if ddr_type ctrl0 = ''UNKNOWN'' then ddr_type_list ! ?t else ddr_type ctrl0)\<rparr>"
    by (simp add: seed_ddr_type_def ddr_type_ret_code[of H st d0 d1 d2])
  show ?case
  proof (cases "ddr_type_list ! ?t \<noteq>
                (if ddr_type ctrl0 = ''UNKNOWN'' then ddr_type_list ! ?t else ddr_type ctrl0)")
    case True
    then show ?thesis
      using ex c1 Cons.prems(5) rs ddr_type_ret_code[of H st d0 d1 d2]
      by (simp add: Let_def printf_def)
  next
    case False
    have p1: "m_resps (hw ?s1) = rs'" using q by simp
    have p2: "length js \<le> length rs'" using Cons.prems(2) rs by simp
    have p3: "\<forall>r\<in>set (take (length js) rs'). resp_ready H r"
      using Cons.prems(3) rs by simp
    have p4: "length (cmd_resp_data ?r1) = 3" by simp
    have p5: "io96b ?c1 = io96b ctrl" using Cons.prems(5) by (simp add: c1)
    have step: "get_mem_technology_j H ?D i (j # js) ctrl0 resp s =
                get_mem_technology_j H ?D i js ?c1 ?r1 ?s1"
      using False ex c1 Cons.prems(5) ddr_type_ret_code[of H st d0 d1 d2]
      by (simp add: Let_def)
    from Cons.IH[OF p1 p2 p3 p4 p5] False show ?thesis
      unfolding step by (simp add: c1 rs Let_def cong: option.case_cong)
  qed
qed

lemma get_mem_technology_i_mock:
  assumes ok: "mock_ok H bases"
  shows "(\<forall>i\<in>set is. io96b_csr_addr (io96b ctrl ! i) \<in> set bases) \<Longrightarrow>
     length rss = length is \<Longrightarrow>
     (\<forall>p<length is. length (rss ! p) = num_mem_interface (mb_ctrl (io96b ctrl ! (is ! p)))) \<Longrightarrow>
     m_resps (hw s) = concat rss @ rest \<Longrightarrow>
     (\<forall>r\<in>set (concat rss). resp_ready H r) \<Longrightarrow>
     length (cmd_resp_data resp) = 3 \<Longrightarrow> io96b ctrl0 = io96b ctrl \<Longrightarrow>
     \<exists>s'.
       get_mem_technology_i H (mock_dev H bases) is ctrl0 resp s =
         ((case snd (tech_scan (ddr_type ctrl0)
                  (concat (map (\<lambda>(i, rs). map (\<lambda>r. (i, type_code H r)) rs) (zip is rss)))) of
             None \<Rightarrow> 0 | Some k \<Rightarrow> - ENOEXEC,
           ctrl0\<lparr>ddr_type :=
             fst (tech_scan (ddr_type ctrl0)
                  (concat (map (\<lambda>(i, rs). map (\<lambda>r. (i, type_code H r)) rs) (zip is rss))))\<rparr>), s') \<and>
       (case snd (tech_scan (ddr_type ctrl0)
                  (concat (map (\<lambda>(i, rs). map (\<lambda>r. (i, type_code H r)) rs) (zip is rss)))) of
          None \<Rightarrow> console s' = console s
        | Some k \<Rightarrow> console s' = console s @ [Mismatch_DDR_type k])"
proof (induction "is" arbitrary: rss ctrl0 resp s)
  case Nil
  then show ?case by simp
next
  case (Cons i "is")
  from Cons.prems(2) obtain rs1 rss' where rss: "rss = rs1 # rss'"
    by (cases rss) auto
  let ?D = "mock_dev H bases"
  let ?n = "num_mem_interface (mb_ctrl (io96b ctrl ! i))"
  let ?x1 = "map (\<lambda>r. (i, type_code H r)) rs1"
  let ?xs = "concat (map (\<lambda>(i, rs). map (\<lambda>r. (i, type_code H r)) rs) (zip is rss'))"
  obtain d1 o1 where T1: "tech_scan (ddr_type ctrl0) ?x1 = (d1, o1)"
    by (cases "tech_scan (ddr_type ctrl0) ?x1")
  have b: "io96b_csr_addr (io96b ctrl ! i) \<in> set bases"
    using Cons.prems(1) by simp
  have n: "length rs1 = ?n"
    using Cons.prems(3) rss by auto
  have q: "m_resps (hw s) = rs1 @ concat rss' @ rest"
    using Cons.prems(4) rss by simp
  have l: "length [0..<?n] \<le> length (rs1 @ concat rss' @ rest)"
    using n by simp
  have tk: "take (length [0..<?n]) (rs1 @ concat rss' @ rest) = rs1"
    using n by simp
  have dr: "drop (length [0..<?n]) (rs1 @ concat rss' @ rest) = concat rss' @ rest"
    using n by simp
  have rdy: "\<forall>r\<in>set (take (length [0..<?n]) (rs1 @ concat rss' @ rest)). resp_ready H r"
    unfolding tk using Cons.prems(5) rss by simp
  from get_mem_technology_j_mock[OF ok b q l rdy Cons.prems(6,7)]
  obtain resp1 s1 where
    inner: "get_mem_technology_j H ?D i [0..<?n] ctrl0 resp s =
              ((case o1 of None \<Rightarrow> 0 | Some k \<Rightarrow> - ENOEXEC, ctrl0\<lparr>ddr_type := d1\<rparr>, resp1), s1)"
    and l1: "length (cmd_resp_data resp1) = 3"
    and c1: "case o1 of
               None \<Rightarrow> m_resps (hw s1) = concat rss' @ rest \<and> console s1 = console s
             | Some k \<Rightarrow> console s1 = console s @ [Mismatch_DDR_type k]"
    unfolding tk dr T1 by auto
  have T: "tech_scan (ddr_type ctrl0)
             (concat (map (\<lambda>(i, rs). map (\<lambda>r. (i, type_code H r)) rs) (zip (i # is) rss))) =
           (case o1 of None \<Rightarrow> tech_scan d1 ?xs | Some k \<Rightarrow> (d1, Some k))"
    by (simp add: rss tech_scan_append T1 split: option.splits)
  show ?case
  proof (cases o1)
    case (Some k)
    with inner c1 Cons.prems(7) show ?thesis
      unfolding T by simp
  next
    case None
    have p1: "\<forall>i\<in>set is. io96b_csr_addr (io96b ctrl ! i) \<in> set bases"
      using Cons.prems(1) by simp
    have p2: "length rss' = length is"
      using Cons.prems(2) rss by simp
    have p3: "\<forall>p<length is. length (rss' ! p) = num_mem_interface (mb_ctrl (io96b ctrl ! (is ! p)))"
      using Cons.prems(3) rss by auto
    have p4: "m_resps (hw s1) = concat rss' @ rest"
      using c1 None by simp
    have p5: "\<forall>r\<in>set (concat rss'). resp_ready H r"
      using Cons.prems(5) rss by simp
    have p7: "io96b (ctrl0\<lparr>ddr_type := d1\<rparr>) = io96b ctrl"
      using Cons.prems(7) by simp
    have step: "get_mem_technology_i H ?D (i # is) ctrl0 resp s =
                get_mem_technology_i H ?D is (ctrl0\<lparr>ddr_type := d1\<rparr>) resp1 s1"
      using inner None Cons.prems(7) by simp
    from Cons.IH[OF p1 p2 p3 p4 p5 l1 p7] c1 None show ?thesis
      unfolding step T by (simp cong: option.case_cong)
  qed
qed

lemma distinct_ddr_type_list: "distinct ddr_type_list"
  by (simp add: ddr_type_list_def)

lemma ddr_type_list_inj:
  "t < 7 \<Longrightarrow> u < 7 \<Longrightarrow> (ddr_type_list ! t = ddr_type_list ! u) = (t = u)"
  using nth_eq_iff_index_eq[OF distinct_ddr_type_list, of t u]
  by (simp add: ddr_type_list_def)

lemma ddr_type_list_6: "ddr_type_list ! 6 = ''UNKNOWN''"
  by (simp add: ddr_type_list_def)

lemma ddr_type_list_unknown: "t < 7 \<Longrightarrow> (ddr_type_list ! t = ''UNKNOWN'') = (t = 6)"
proof -
  have "''UNKNOWN'' = ddr_type_list ! 6"
    by (simp add: ddr_type_list_def)
  then show "t < 7 \<Longrightarrow> (ddr_type_list ! t = ''UNKNOWN'') = (t = 6)"
    using ddr_type_list_inj[of t 6] by simp
qed

lemma tech_scan_known:
  "t0 < 7 \<Longrightarrow> t0 \<noteq> 6 \<Longrightarrow> \<forall>x\<in>set xs. snd x < 7 \<Longrightarrow>
   tech_scan (ddr_type_list ! t0) xs =
     (ddr_type_list ! t0, map_option fst (find (\<lambda>x. snd x \<noteq> t0) xs))"
proof (induction xs)
  case Nil
  then show ?case by simp
next
  case (Cons x xs)
  obtain i t where x: "x = (i, t)" by (cases x)
  with Cons show ?case
    by (auto simp: Let_def ddr_type_list_unknown ddr_type_list_inj)
qed

lemma tech_scan_unknown:
  "\<forall>x\<in>set xs. snd x < 7 \<Longrightarrow>
   tech_scan ''UNKNOWN'' xs =
     (case dropWhile (\<lambda>x. snd x = 6) xs of
        [] \<Rightarrow> (''UNKNOWN'', None)
      | u # us \<Rightarrow> (ddr_type_list ! snd u, map_option fst (find (\<lambda>x. snd x \<noteq> snd u) us)))"
proof (induction xs)
  case Nil
  then show ?case by simp
next
  case (Cons x xs)
  obtain i t where x: "x = (i, t)" by (cases x)
  show ?case
  proof (cases "t = 6")
    case True
    with Cons x show ?thesis
      by (simp add: Let_def ddr_type_list_6)
  next
    case False
    with Cons.prems x have "t < 7" by simp
    with False Cons.prems x tech_scan_known[of t xs] show ?thesis
      by (simp add: Let_def ddr_type_list_unknown)
  qed
qed

lemma enumerate_upt: "enumerate 0 xs = zip [0..<length xs] xs"
  by (simp add: enumerate_eq_zip)

lemmas eval_ctrl_simps = example_ctrl_def example_inst_def usr_resp_init_eq upt_1 upt_2

text \<open>
  What \<^verbatim>\<open>get_mem_technology\<close> does for the type codes 0 to 6, against the simulated
  mailbox with one ready response queued per interface, in the order of the queries: the
  aggregate is seeded by the first interface whose reported type is not "UNKNOWN" (type
  code 6); at the first later interface that reports another type the call returns
  \<open>-ENOEXEC\<close>, prints the index of that interface's instance and leaves the aggregate at
  the seeded type; if there is none the call returns 0 with the seeded type, or "UNKNOWN"
  when every interface reported "UNKNOWN". Interfaces reporting "UNKNOWN" before the seed
  are passed over. Type code 7 indexes beyond the seven entries of \<^verbatim>\<open>ddr_type_list\<close>.
\<close>

lemma get_mem_technology_scan:
  assumes ok: "mock_ok H bases"
      and rss: "length rss = num_instance ctrl"
      and inst: "\<forall>i<num_instance ctrl.
                   io96b_csr_addr (io96b ctrl ! i) \<in> set bases \<and>
                   length (rss ! i) = num_mem_interface (mb_ctrl (io96b ctrl ! i))"
      and q: "m_resps (hw s) = concat rss"
      and rdy: "\<forall>r\<in>set (concat rss). resp_ready H r \<and> type_code H r < 7"
  shows "case dropWhile (\<lambda>x. snd x = 6) (reported_types H rss) of
           [] \<Rightarrow>
             \<exists>s'. get_mem_technology H (mock_dev H bases) ctrl s =
                     ((0, ctrl\<lparr>ddr_type := ''UNKNOWN''\<rparr>), s')
         | u # us \<Rightarrow>
             (case find (\<lambda>x. snd x \<noteq> snd u) us of
                None \<Rightarrow>
                  \<exists>s'. get_mem_technology H (mock_dev H bases) ctrl s =
                          ((0, ctrl\<lparr>ddr_type := ddr_type_list ! snd u\<rparr>), s')
              | Some x \<Rightarrow>
                  \<exists>s'. get_mem_technology H (mock_dev H bases) ctrl s =
                          ((- ENOEXEC, ctrl\<lparr>ddr_type := ddr_type_list ! snd u\<rparr>), s') \<and>
                       console s' = console s @ [Mismatch_DDR_type (fst x)])"
proof -
  let ?c0 = "ctrl\<lparr>ddr_type := ddr_type_list ! 6\<rparr>"
  let ?is = "[0..<num_instance ctrl]"
  have p1: "\<forall>i\<in>set ?is. io96b_csr_addr (io96b ctrl ! i) \<in> set bases"
    using inst by simp
  have p2: "length rss = length ?is" using rss by simp
  have p3: "\<forall>p<length ?is. length (rss ! p) = num_mem_interface (mb_ctrl (io96b ctrl ! (?is ! p)))"
    using inst by simp
  have p4: "m_resps (hw s) = concat rss @ []" using q by simp
  have p5: "\<forall>r\<in>set (concat rss). resp_ready H r" using rdy by blast
  have p6: "length (cmd_resp_data usr_resp_init) = 3" by (simp add: usr_resp_init_def)
  have p7: "io96b ?c0 = io96b ctrl" by simp
  have rep: "concat (map (\<lambda>(i, rs). map (\<lambda>r. (i, type_code H r)) rs) (zip ?is rss)) =
             reported_types H rss"
    by (simp add: reported_types_def enumerate_upt rss)
  have lt: "\<forall>x\<in>set (reported_types H rss). snd x < 7"
    using rdy by (auto simp: reported_types_def enumerate_upt dest!: set_zip_rightD)
  have T: "tech_scan (ddr_type ?c0) (reported_types H rss) =
     (case dropWhile (\<lambda>x. snd x = 6) (reported_types H rss) of
        [] \<Rightarrow> (''UNKNOWN'', None)
      | u # us \<Rightarrow> (ddr_type_list ! snd u, map_option fst (find (\<lambda>x. snd x \<noteq> snd u) us)))"
    using tech_scan_unknown[OF lt] by (simp add: ddr_type_list_6)
  from get_mem_technology_i_mock[OF ok p1 p2 p3 p4 p5 p6 p7]
  obtain s' where
    run: "get_mem_technology H (mock_dev H bases) ctrl s =
            ((case snd (tech_scan (ddr_type ?c0) (reported_types H rss)) of
                None \<Rightarrow> 0 | Some k \<Rightarrow> - ENOEXEC,
              ctrl\<lparr>ddr_type := fst (tech_scan (ddr_type ?c0) (reported_types H rss))\<rparr>), s')"
    and con: "case snd (tech_scan (ddr_type ?c0) (reported_types H rss)) of
                None \<Rightarrow> console s' = console s
              | Some k \<Rightarrow> console s' = console s @ [Mismatch_DDR_type k]"
    unfolding rep get_mem_technology_def Let_def by auto
  show ?thesis
  proof (cases "dropWhile (\<lambda>x. snd x = 6) (reported_types H rss)")
    case Nil
    from run T[unfolded Nil] show ?thesis
      unfolding Nil by simp
  next
    case (Cons u us)
    show ?thesis
    proof (cases "find (\<lambda>x. snd x \<noteq> snd u) us")
      case None
      from run T[unfolded Cons] None show ?thesis
        unfolding Cons by simp
    next
      case (Some x)
      from run con T[unfolded Cons] Some show ?thesis
        unfolding Cons by simp
    qed
  qed
qed

lemma get_mem_technology_scan_example:
  "mock_ok hdr0 [0x1000, 0x2000] \<and>
   (\<exists>s'. get_mem_technology hdr0 dev0
            (example_ctrl [example_inst 0x1000 True 1, example_inst 0x2000 True 1] 2 True)
            (mock0 [(0x00001, 0, 0, 0), (0x10001, 0, 0, 0)] (\<lambda>_. [])) =
          ((- ENOEXEC,
            (example_ctrl [example_inst 0x1000 True 1, example_inst 0x2000 True 1] 2 True)
              \<lparr>ddr_type := ''DDR4''\<rparr>), s') \<and>
         console s' = [Mismatch_DDR_type 1]) \<and>
   (\<exists>s'. get_mem_technology hdr0 dev0
            (example_ctrl [example_inst 0x1000 True 1, example_inst 0x2000 True 1] 2 True)
            (mock0 [(0x10001, 0, 0, 0), (0x10001, 0, 0, 0)] (\<lambda>_. [])) =
          ((0,
            (example_ctrl [example_inst 0x1000 True 1, example_inst 0x2000 True 1] 2 True)
              \<lparr>ddr_type := ''DDR5''\<rparr>), s'))"
proof -
  let ?ctrl = "example_ctrl [example_inst 0x1000 True 1, example_inst 0x2000 True 1] 2 True"
  let ?a = "[[(0x00001, 0, 0, 0)], [(0x10001, 0, 0, 0)]] :: (u32 \<times> u32 \<times> u32 \<times> u32) list list"
  let ?b = "[[(0x10001, 0, 0, 0)], [(0x10001, 0, 0, 0)]] :: (u32 \<times> u32 \<times> u32 \<times> u32) list list"
  have tc: "type_code hdr0 (0x00001, 0, 0, 0) = 0" "type_code hdr0 (0x10001, 0, 0, 0) = 1"
    by (simp_all add: type_code_def drop_bit_eq_div take_bit_eq_mod)
  have inst: "\<forall>i<num_instance ?ctrl.
                io96b_csr_addr (io96b ?ctrl ! i) \<in> set [0x1000, 0x2000] \<and>
                length (?a ! i) = num_mem_interface (mb_ctrl (io96b ?ctrl ! i))"
             "\<forall>i<num_instance ?ctrl.
                io96b_csr_addr (io96b ?ctrl ! i) \<in> set [0x1000, 0x2000] \<and>
                length (?b ! i) = num_mem_interface (mb_ctrl (io96b ?ctrl ! i))"
    by (simp_all add: example_ctrl_def example_inst_def less_Suc_eq numeral_2_eq_2)
  have len: "length ?a = num_instance ?ctrl" "length ?b = num_instance ?ctrl"
    by (simp_all add: example_ctrl_def)
  have qa: "m_resps (hw (mock0 [(0x00001, 0, 0, 0), (0x10001, 0, 0, 0)] (\<lambda>_. []))) = concat ?a"
    and qb: "m_resps (hw (mock0 [(0x10001, 0, 0, 0), (0x10001, 0, 0, 0)] (\<lambda>_. []))) = concat ?b"
    by (simp_all add: mock0_simps)
  have ra: "\<forall>r\<in>set (concat ?a). resp_ready hdr0 r \<and> type_code hdr0 r < 7"
    and rb: "\<forall>r\<in>set (concat ?b). resp_ready hdr0 r \<and> type_code hdr0 r < 7"
    by (simp_all add: resp_ready_def tc)
  have ta: "reported_types hdr0 ?a = [(0, 0), (1, 1)]"
    and tb: "reported_types hdr0 ?b = [(0, 1), (1, 1)]"
    by (simp_all add: reported_types_def enumerate_upt tc upt_2)
  have l: "ddr_type_list ! 0 = ''DDR4''" "ddr_type_list ! Suc 0 = ''DDR5''"
    by (simp_all add: ddr_type_list_def)
  from get_mem_technology_scan[OF mock_ok_dev0 len(1) inst(1) qa ra]
       get_mem_technology_scan[OF mock_ok_dev0 len(2) inst(2) qb rb]
       mock_ok_dev0
  show ?thesis
    unfolding ta tb dev0_def by (simp add: l mock0_simps)
qed

text \<open>
  Claim C7: in \<^verbatim>\<open>get_mem_technology\<close> the first interface's reported DDR type seeds the
  aggregate and every later interface must report the same type, else the call returns a
  consistency error; line 440 of the source says the same ("Get and ensure all memory
  interface(s) same DDR type"). The source has no flag for "seeded" (its sibling
  \<^verbatim>\<open>ecc_enable_status\<close> has \<^verbatim>\<open>ecc_stat_set\<close>): it seeds whenever the aggregate still
  compares equal to "UNKNOWN" (line 456), and "UNKNOWN" is also entry 6 of the type list.
  So an interface reporting type code 6 leaves the aggregate unseeded, and the result
  depends on the order of the interfaces. With two interfaces reporting the codes 6
  ("UNKNOWN") and 0 ("DDR4"), two different types, the call returns 0 with the aggregate
  "DDR4"; with the same two reports in the other order it returns \<open>-ENOEXEC\<close>.
\<close>

theorem get_mem_technology_unknown_collision:
  "map (type_code hdr0) [(0x60001, 0, 0, 0), (0x00001, 0, 0, 0)] = [6, 0] \<and>
   ddr_type_list ! 6 = ''UNKNOWN'' \<and> ddr_type_list ! 0 = ''DDR4'' \<and>
   fst (get_mem_technology hdr0 dev0 (example_ctrl [example_inst 0x1000 True 2] 1 True)
          (mock0 [(0x60001, 0, 0, 0), (0x00001, 0, 0, 0)] (\<lambda>_. []))) =
     (0, (example_ctrl [example_inst 0x1000 True 2] 1 True)\<lparr>ddr_type := ''DDR4''\<rparr>) \<and>
   fst (get_mem_technology hdr0 dev0 (example_ctrl [example_inst 0x1000 True 2] 1 True)
          (mock0 [(0x00001, 0, 0, 0), (0x60001, 0, 0, 0)] (\<lambda>_. []))) =
     (- ENOEXEC, (example_ctrl [example_inst 0x1000 True 2] 1 True)\<lparr>ddr_type := ''DDR4''\<rparr>)"
  by (simp add: get_mem_technology_def seed_ddr_type_def ddr_type_list_def type_code_def
        eval_simps eval_ctrl_simps GENMASK_2_0 drop_bit_eq_div take_bit_eq_mod)

section \<open>Memory width query: claims\<close>

lemma ucast_add_down: "(ucast ((a :: 32 word) + b) :: 16 word) = ucast a + ucast b"
proof -
  have "(word_of_nat (unat (a + b)) :: 16 word) = word_of_nat (unat a + unat b)"
    unfolding word_of_nat_eq_iff
    by (simp add: unat_word_ariths take_bit_eq_mod mod_mod_cancel)
  then show ?thesis
    by (simp add: of_nat_unat)
qed

lemma ucast_up_down: "(ucast (ucast (m :: 16 word) :: 32 word) :: 16 word) = m"
  by (rule ucast_up_ucast_id) (simp add: is_up)

lemma GENMASK_7_0: "(GENMASK 7 0 :: u32) = 0xFF"
  by (simp add: GENMASK_def mask_eq_exp_minus_1)

lemma and_FF: "(x :: u32) AND 0xFF = take_bit 8 x"
proof -
  have "(mask 8 :: u32) = 0xFF"
    by (simp add: mask_eq_exp_minus_1)
  then show ?thesis
    by (simp add: take_bit_eq_mask)
qed

lemma memory_size_step:
  "(ucast ((ucast (m :: u16) :: u32) + (d1 AND GENMASK 7 0)) :: u16) =
   m + of_nat (resp_width (st, d0, d1, d2))"
  by (simp add: ucast_add_down ucast_up_down GENMASK_7_0 and_FF resp_width_def of_nat_unat)

lemma get_mem_width_info_j_mock:
  assumes ok: "mock_ok H bases" and b: "io96b_csr_addr inst \<in> set bases"
  shows "m_resps (hw s) = rs @ rest \<Longrightarrow> length js = length rs \<Longrightarrow>
     (\<forall>r\<in>set rs. resp_ready H r) \<Longrightarrow> length (cmd_resp_data resp) = 3 \<Longrightarrow>
     \<exists>resp' s'.
       get_mem_width_info_j H (mock_dev H bases) inst js m resp s =
         ((0, m + of_nat (instance_width rs), resp'), s') \<and>
       length (cmd_resp_data resp') = 3 \<and> m_resps (hw s') = rest \<and> console s' = console s"
proof (induction js arbitrary: rs m resp s)
  case Nil
  then show ?case by (simp add: instance_width_def)
next
  case (Cons j js)
  from Cons.prems(2) obtain st d0 d1 d2 rs' where rs: "rs = (st, d0, d1, d2) # rs'"
    by (cases rs) auto
  let ?D = "mock_dev H bases"
  let ?b = "io96b_csr_addr inst"
  let ?w = "push_bit 0 (GET_MEM_WIDTH_INFO H) OR push_bit 16 (CMD_GET_MEM_INFO H) OR
            push_bit 24 (ip_instance_id (mb_ctrl inst) ! j) OR
            push_bit 29 (ip_type (mb_ctrl inst) ! j)"
  let ?s1 = "s\<lparr>hw := mock_exchange H ?b (hw s),
               trace := trace s @ exchange_trace_2 H ?b ?w st d0 d1\<rparr>"
  let ?r1 = "\<lparr>cmd_resp_status = st, cmd_resp_data = [d0, d1, 0]\<rparr>"
  let ?m1 = "m + of_nat (resp_width (st, d0, d1, d2))"
  from Cons.prems(3) rs have rdy:
    "st AND IOSSM_STATUS_COMMAND_RESPONSE_READY H = IOSSM_STATUS_COMMAND_RESPONSE_READY H"
    by (simp add: resp_ready_def)
  have q: "m_resps (hw s) = (st, d0, d1, d2) # rs' @ rest"
    using Cons.prems(1) rs by simp
  have ex: "io96b_mb_req H ?D ?b (ip_type (mb_ctrl inst) ! j) (ip_instance_id (mb_ctrl inst) ! j)
              (CMD_GET_MEM_INFO H) (GET_MEM_WIDTH_INFO H)
              0 0 0 0 0 0 0 2 resp s = ((0, ?r1), ?s1)"
    by (rule mb_req_mock_2[OF ok b q rdy Cons.prems(4)])
  have ms: "ucast ((ucast m :: u32) + (cmd_resp_data ?r1 ! 1 AND GENMASK 7 0)) = ?m1"
    using memory_size_step[of m d1 st d0 d2] by simp
  have step: "get_mem_width_info_j H ?D inst (j # js) m resp s =
              get_mem_width_info_j H ?D inst js ?m1 ?r1 ?s1"
    unfolding get_mem_width_info_j.simps ex Let_def prod.case ms by simp
  have p1: "m_resps (hw ?s1) = rs' @ rest" using q by simp
  have p2: "length js = length rs'" using Cons.prems(2) rs by simp
  have p3: "\<forall>r\<in>set rs'. resp_ready H r" using Cons.prems(3) rs by simp
  have p4: "length (cmd_resp_data ?r1) = 3" by simp
  from Cons.IH[OF p1 p2 p3 p4, of ?m1] show ?case
    unfolding step by (simp add: rs instance_width_def add.assoc)
qed

lemma size_update_fields:
  "io96b_csr_addr (xs[i := (xs ! i)\<lparr>size' := m\<rparr>] ! k) = io96b_csr_addr (xs ! k)"
  "mb_ctrl (xs[i := (xs ! i)\<lparr>size' := m\<rparr>] ! k) = mb_ctrl (xs ! k)"
proof -
  have "xs[i := (xs ! i)\<lparr>size' := m\<rparr>] ! k =
        (if k = i \<and> i < length xs then (xs ! k)\<lparr>size' := m\<rparr> else xs ! k)"
  proof (cases "i < length xs")
    case True
    then show ?thesis by (simp add: nth_list_update)
  next
    case False
    then have "length xs \<le> i" by simp
    then have "xs[i := (xs ! i)\<lparr>size' := m\<rparr>] = xs"
      by (rule list_update_beyond)
    with False show ?thesis by simp
  qed
  then show "io96b_csr_addr (xs[i := (xs ! i)\<lparr>size' := m\<rparr>] ! k) = io96b_csr_addr (xs ! k)"
    and "mb_ctrl (xs[i := (xs ! i)\<lparr>size' := m\<rparr>] ! k) = mb_ctrl (xs ! k)"
    by simp_all
qed

lemma get_mem_width_info_i_mock:
  assumes ok: "mock_ok H bases"
  shows "(\<forall>i\<in>set is. io96b_csr_addr (io96b ctrl0 ! i) \<in> set bases) \<Longrightarrow>
     length rss = length is \<Longrightarrow>
     (\<forall>p<length is. length (rss ! p) = num_mem_interface (mb_ctrl (io96b ctrl0 ! (is ! p)))) \<Longrightarrow>
     m_resps (hw s) = concat rss @ rest \<Longrightarrow>
     (\<forall>r\<in>set (concat rss). resp_ready H r) \<Longrightarrow>
     length (cmd_resp_data resp) = 3 \<Longrightarrow>
     (\<forall>rs\<in>set rss. (of_nat (instance_width rs) :: u16) \<noteq> 0) \<Longrightarrow>
     \<exists>s'.
       get_mem_width_info_i H (mock_dev H bases) is t ctrl0 resp s =
         ((0, t + of_nat (sum_list (map instance_width rss)),
           ctrl0\<lparr>io96b :=
             fold (\<lambda>(i, rs) xs. xs[i := (xs ! i)\<lparr>size' := of_nat (instance_width rs)\<rparr>])
               (zip is rss) (io96b ctrl0)\<rparr>), s') \<and>
       console s' = console s"
proof (induction "is" arbitrary: rss t ctrl0 resp s)
  case Nil
  then show ?case by simp
next
  case (Cons i "is")
  from Cons.prems(2) obtain rs1 rss' where rss: "rss = rs1 # rss'"
    by (cases rss) auto
  let ?D = "mock_dev H bases"
  let ?inst = "io96b ctrl0 ! i"
  let ?n = "num_mem_interface (mb_ctrl ?inst)"
  let ?m = "of_nat (instance_width rs1) :: u16"
  let ?c1 = "ctrl0\<lparr>io96b := (io96b ctrl0)[i := ?inst\<lparr>size' := ?m\<rparr>]\<rparr>"
  have b: "io96b_csr_addr ?inst \<in> set bases"
    using Cons.prems(1) by simp
  have n: "length [0..<?n] = length rs1"
    using Cons.prems(3) rss by auto
  have q: "m_resps (hw s) = rs1 @ (concat rss' @ rest)"
    using Cons.prems(4) rss by simp
  have rdy: "\<forall>r\<in>set rs1. resp_ready H r"
    using Cons.prems(5) rss by simp
  from get_mem_width_info_j_mock[OF ok b q n rdy Cons.prems(6), of 0]
  obtain resp1 s1 where
    inner: "get_mem_width_info_j H ?D ?inst [0..<?n] 0 resp s = ((0, ?m, resp1), s1)"
    and l1: "length (cmd_resp_data resp1) = 3"
    and q1: "m_resps (hw s1) = concat rss' @ rest"
    and c1: "console s1 = console s"
    by auto
  have nz: "?m \<noteq> 0"
    using Cons.prems(7) rss by simp
  have step: "get_mem_width_info_i H ?D (i # is) t ctrl0 resp s =
              get_mem_width_info_i H ?D is (t + ?m) ?c1 resp1 s1"
    using inner nz by (simp add: Let_def)
  have p1: "\<forall>k\<in>set is. io96b_csr_addr (io96b ?c1 ! k) \<in> set bases"
    using Cons.prems(1) by (simp add: size_update_fields)
  have p2: "length rss' = length is"
    using Cons.prems(2) rss by simp
  have p3: "\<forall>p<length is. length (rss' ! p) = num_mem_interface (mb_ctrl (io96b ?c1 ! (is ! p)))"
    using Cons.prems(3) rss by (auto simp: size_update_fields)
  have p5: "\<forall>r\<in>set (concat rss'). resp_ready H r"
    using Cons.prems(5) rss by simp
  have p7: "\<forall>rs\<in>set rss'. (of_nat (instance_width rs) :: u16) \<noteq> 0"
    using Cons.prems(7) rss by simp
  from Cons.IH[OF p1 p2 p3 q1 p5 l1 p7, of "t + ?m"] c1 show ?case
    unfolding step by (simp add: rss add.assoc)
qed

lemma fold_size_nth:
  "length rss \<le> length xs \<Longrightarrow>
   fold (\<lambda>(i, rs) xs. xs[i := (xs ! i)\<lparr>size' := f rs\<rparr>]) (zip [0..<length rss] rss) xs ! k =
     (if k < length rss then (xs ! k)\<lparr>size' := f (rss ! k)\<rparr> else xs ! k)"
proof (induction rss arbitrary: k rule: rev_induct)
  case Nil
  then show ?case by simp
next
  case (snoc rs rss)
  let ?F = "\<lambda>(i, rs) xs. xs[i := (xs ! i)\<lparr>size' := f rs\<rparr>]"
  let ?ys = "fold ?F (zip [0..<length rss] rss) xs"
  have len: "length ?ys = length xs"
    by (induction rss arbitrary: xs rule: rev_induct) simp_all
  have z: "zip [0..<length (rss @ [rs])] (rss @ [rs]) =
           zip [0..<length rss] rss @ [(length rss, rs)]"
    by simp
  from snoc have ih: "\<And>k. ?ys ! k =
      (if k < length rss then (xs ! k)\<lparr>size' := f (rss ! k)\<rparr> else xs ! k)"
    by simp
  from snoc.prems have lt: "length rss < length ?ys"
    by (simp add: len)
  show ?case
    unfolding z fold_append
    by (cases "k = length rss") (use lt in \<open>simp_all add: ih nth_list_update nth_append\<close>)
qed

lemma unat_width: "n < 2 ^ 16 \<Longrightarrow> unat (of_nat n :: u16) = n"
  by (simp add: unat_of_nat)

lemma sum_list_widths:
  "sum_list (map resp_width (concat rss)) = sum_list (map instance_width rss)"
  by (induction rss) (simp_all add: instance_width_def)

lemma instance_width_le:
  "rs \<in> set rss \<Longrightarrow> instance_width rs \<le> sum_list (map instance_width rss)"
  by (induction rss) auto

text \<open>
  Claim C8: \<^verbatim>\<open>get_mem_width_info\<close> aggregates by addition. Against the simulated mailbox
  with one ready response queued per interface, in the order of the queries, where every
  instance has a non-zero width and the widths add up to less than \<open>2 ^ 16\<close> (the sizes
  are 16-bit): the call returns 0, the size recorded for every instance is the sum over
  its interfaces of the low 8 bits of the second response data word, and the overall size
  is the sum of the instance sizes, which is the sum of all reported widths.
\<close>

theorem get_mem_width_info_sums:
  assumes ok: "mock_ok H bases"
      and rss: "length rss = num_instance ctrl"
      and arr: "num_instance ctrl \<le> length (io96b ctrl)"
      and inst: "\<forall>i<num_instance ctrl.
                   io96b_csr_addr (io96b ctrl ! i) \<in> set bases \<and>
                   length (rss ! i) = num_mem_interface (mb_ctrl (io96b ctrl ! i))"
      and q: "m_resps (hw s) = concat rss"
      and rdy: "\<forall>r\<in>set (concat rss). resp_ready H r"
      and pos: "0 < num_instance ctrl"
      and nz: "\<forall>rs\<in>set rss. 0 < instance_width rs"
      and bound: "sum_list (map resp_width (concat rss)) < 2 ^ 16"
  shows "\<exists>ctrl' s'.
           get_mem_width_info H (mock_dev H bases) ctrl s = ((0, ctrl'), s') \<and>
           (\<forall>i<num_instance ctrl. unat (size' (io96b ctrl' ! i)) = instance_width (rss ! i)) \<and>
           unat (overall_size ctrl') =
             sum_list (map (\<lambda>i. unat (size' (io96b ctrl' ! i))) [0..<num_instance ctrl]) \<and>
           unat (overall_size ctrl') = sum_list (map resp_width (concat rss))"
proof -
  let ?is = "[0..<num_instance ctrl]"
  let ?W = "\<lambda>rs. of_nat (instance_width rs) :: u16"
  let ?total = "sum_list (map instance_width rss)"
  let ?xs = "fold (\<lambda>(i, rs) xs. xs[i := (xs ! i)\<lparr>size' := ?W rs\<rparr>]) (zip ?is rss) (io96b ctrl)"
  have tb: "?total < 2 ^ 16"
    using bound by (simp add: sum_list_widths)
  have wb: "instance_width rs < 2 ^ 16" if "rs \<in> set rss" for rs
  proof -
    from that have "instance_width rs \<le> ?total"
      by (rule instance_width_le)
    with tb show ?thesis by simp
  qed
  have uw: "unat (?W rs) = instance_width rs" if "rs \<in> set rss" for rs
    using wb[OF that] by (rule unat_width)
  have p1: "\<forall>i\<in>set ?is. io96b_csr_addr (io96b ctrl ! i) \<in> set bases"
    using inst by simp
  have p2: "length rss = length ?is" using rss by simp
  have p3: "\<forall>p<length ?is. length (rss ! p) = num_mem_interface (mb_ctrl (io96b ctrl ! (?is ! p)))"
    using inst by simp
  have p4: "m_resps (hw s) = concat rss @ []" using q by simp
  have p6: "length (cmd_resp_data usr_resp_init) = 3" by (simp add: usr_resp_init_def)
  have p7: "\<forall>rs\<in>set rss. ?W rs \<noteq> 0"
  proof
    fix rs assume rs: "rs \<in> set rss"
    with nz have "unat (?W rs) \<noteq> 0" by (simp add: uw)
    then show "?W rs \<noteq> 0" by auto
  qed
  from rss pos obtain rs0 where rs0: "rs0 \<in> set rss"
    by (cases rss) auto
  with nz have "0 < instance_width rs0" by simp
  moreover from rs0 have "instance_width rs0 \<le> ?total"
    by (rule instance_width_le)
  ultimately have tpos: "0 < ?total" by simp
  have ut: "unat (of_nat ?total :: u16) = ?total"
    using tb by (rule unat_width)
  have tnz: "(of_nat ?total :: u16) \<noteq> 0"
  proof
    assume z: "(of_nat ?total :: u16) = 0"
    from ut[unfolded z] have "0 = ?total"
      by (simp only: unsigned_0)
    with tpos show False by linarith
  qed
  from get_mem_width_info_i_mock[OF ok p1 p2 p3 p4 rdy p6 p7, of 0]
  obtain s' where
    run: "get_mem_width_info_i H (mock_dev H bases) ?is 0 ctrl usr_resp_init s =
            ((0, of_nat ?total, ctrl\<lparr>io96b := ?xs\<rparr>), s')"
    by auto
  have res: "get_mem_width_info H (mock_dev H bases) ctrl s =
               ((0, ctrl\<lparr>io96b := ?xs, overall_size := of_nat ?total\<rparr>), s')"
    unfolding get_mem_width_info_def run using tnz by simp
  have nth: "?xs ! i = (io96b ctrl ! i)\<lparr>size' := ?W (rss ! i)\<rparr>" if "i < num_instance ctrl" for i
    using fold_size_nth[of rss "io96b ctrl" "?W" i] that arr rss by simp
  have sz: "unat (size' (?xs ! i)) = instance_width (rss ! i)" if "i < num_instance ctrl" for i
    using that rss by (simp add: nth uw)
  have "map (\<lambda>i. unat (size' (?xs ! i))) ?is = map (\<lambda>i. instance_width (rss ! i)) ?is"
    by (rule map_cong) (simp_all add: sz)
  also have "\<dots> = map instance_width rss"
    using rss by (simp add: list_eq_iff_nth_eq)
  finally have sm: "sum_list (map (\<lambda>i. unat (size' (?xs ! i))) ?is) = ?total"
    by simp
  show ?thesis
    unfolding res using sz sm ut by (simp add: sum_list_widths)
qed

theorem get_mem_width_info_sums_witness:
  "mock_ok hdr0 [0x1000, 0x2000] \<and>
   map resp_width [(1, 0, 8, 0), (1, 0, 8, 0), (1, 0, 4, 0)] = [8, 8, 4] \<and>
   (\<exists>ctrl' s'.
      get_mem_width_info hdr0 dev0 width_ctrl
        (mock0 [(1, 0, 8, 0), (1, 0, 8, 0), (1, 0, 4, 0)] (\<lambda>_. [])) = ((0, ctrl'), s') \<and>
      unat (size' (io96b ctrl' ! 0)) = 20 \<and> unat (overall_size ctrl') = 20)"
proof -
  let ?rss = "[[(1, 0, 8, 0), (1, 0, 8, 0), (1, 0, 4, 0)]] :: (u32 \<times> u32 \<times> u32 \<times> u32) list list"
  have w: "resp_width (1, 0, 8, 0) = 8" "resp_width (1, 0, 4, 0) = 4"
    by (simp_all add: resp_width_def take_bit_eq_mod)
  have len: "length ?rss = num_instance width_ctrl"
    and arr: "num_instance width_ctrl \<le> length (io96b width_ctrl)"
    and inst: "\<forall>i<num_instance width_ctrl.
                 io96b_csr_addr (io96b width_ctrl ! i) \<in> set [0x1000, 0x2000] \<and>
                 length (?rss ! i) = num_mem_interface (mb_ctrl (io96b width_ctrl ! i))"
    and pos: "0 < num_instance width_ctrl"
    by (simp_all add: width_ctrl_def example_ctrl_def)
  have q: "m_resps (hw (mock0 [(1, 0, 8, 0), (1, 0, 8, 0), (1, 0, 4, 0)] (\<lambda>_. []))) = concat ?rss"
    by (simp add: mock0_simps)
  have rdy: "\<forall>r\<in>set (concat ?rss). resp_ready hdr0 r"
    by (simp add: resp_ready_def)
  have nz: "\<forall>rs\<in>set ?rss. 0 < instance_width rs"
    and bound: "sum_list (map resp_width (concat ?rss)) < 2 ^ 16"
    by (simp_all add: instance_width_def w)
  from get_mem_width_info_sums[OF mock_ok_dev0 len arr inst q rdy pos nz bound]
  obtain ctrl' s' where
    run: "get_mem_width_info hdr0 dev0 width_ctrl
            (mock0 [(1, 0, 8, 0), (1, 0, 8, 0), (1, 0, 4, 0)] (\<lambda>_. [])) = ((0, ctrl'), s')"
    and sz: "\<forall>i<num_instance width_ctrl.
               unat (size' (io96b ctrl' ! i)) = instance_width (?rss ! i)"
    and tot: "unat (overall_size ctrl') = sum_list (map resp_width (concat ?rss))"
    unfolding dev0_def by blast
  from sz pos have "unat (size' (io96b ctrl' ! 0)) = 20"
    by (simp add: instance_width_def w)
  moreover from tot have "unat (overall_size ctrl') = 20"
    by (simp add: w)
  ultimately show ?thesis
    using run mock_ok_dev0 by (simp add: w)
qed

section \<open>Calibration retry: claims\<close>

lemma status_not_req:
  assumes "mock_ok H bases" "b \<in> set bases"
  shows "IOSSM_CMD_RESPONSE_STATUS_OFFSET H \<noteq> IOSSM_CMD_REQ_OFFSET H"
  using mock_ok_D(1)[OF assms] assms(2) by auto

lemma live_not_mailbox:
  assumes "a - IOSSM_CMD_REQ_OFFSET H \<notin> set bases" "\<not> is_resp_reg H bases a" "b \<in> set bases"
  shows "a \<noteq> b + IOSSM_CMD_REQ_OFFSET H"
    and "a \<noteq> b + IOSSM_CMD_RESPONSE_STATUS_OFFSET H"
    and "a \<noteq> b + IOSSM_CMD_RESPONSE_DATA_0_OFFSET H"
    and "a \<noteq> b + IOSSM_CMD_RESPONSE_DATA_1_OFFSET H"
  using assms is_resp_reg_I[OF assms(3), of H] by auto

lemma retry_view_exchange_2:
  assumes "mock_ok H bases" "a - IOSSM_CMD_REQ_OFFSET H \<notin> set bases"
    "\<not> is_resp_reg H bases a" "b \<in> set bases"
  shows "retry_view H b a (exchange_trace_2 H b w st d0 d1) = [Wr (b + IOSSM_CMD_REQ_OFFSET H) w]"
  using live_not_mailbox[OF assms(2,3,4)] status_not_req[OF assms(1,4)]
  by (auto simp: exchange_trace_2_def retry_view_def)

lemma retry_view_append:
  "retry_view H b a (xs @ ys) = retry_view H b a xs @ retry_view H b a ys"
  by (simp add: retry_view_def)

lemma retry_view_read: "retry_view H b a [Rd a v] = [Rd a v]"
  by (simp add: retry_view_def)

lemma retry_view_Cons_read: "retry_view H b a (Rd a v # evs) = Rd a v # retry_view H b a evs"
  by (simp add: retry_view_def)

lemma retry_view_Nil: "retry_view H b a [] = []"
  by (simp add: retry_view_def)

lemma trig_mem_cal_k_mock:
  assumes ok: "mock_ok H bases" and b: "io96b_csr_addr inst \<in> set bases"
      and a1: "a - IOSSM_CMD_REQ_OFFSET H \<notin> set bases" and a2: "\<not> is_resp_reg H bases a"
      and a: "a = io96b_csr_addr inst + ucast off"
  shows "m_live (hw s) a = vs \<Longrightarrow> n \<le> length vs \<Longrightarrow>
     cmd_resp_data resp ! j = off \<Longrightarrow> length (cmd_resp_data resp) = 3 \<Longrightarrow>
     m_resps (hw s) = concat (map (\<lambda>(t, q). [t, q]) pairs) @ rest \<Longrightarrow>
     length pairs = min n (length (takeWhile (cal_failed H) vs)) \<Longrightarrow>
     (\<forall>(t, q)\<in>set pairs. resp_ready H t \<and> resp_ready H q \<and> cal_status_offset j q = off) \<Longrightarrow>
     \<exists>resp' s' evs.
       trig_mem_cal_k H (mock_dev H bases) inst j n resp s =
         ((0, length (takeWhile (cal_failed H) vs) < n, resp'), s') \<and>
       length (cmd_resp_data resp') = 3 \<and>
       trace s' = trace s @ evs \<and> console s' = console s \<and> m_resps (hw s') = rest \<and>
       m_live (hw s') =
         (m_live (hw s))(a := drop (min n (Suc (length (takeWhile (cal_failed H) vs)))) vs) \<and>
       retry_view H (io96b_csr_addr inst) a evs =
         concat (map (retry_round H inst j a)
                   (take (min n (length (takeWhile (cal_failed H) vs))) vs)) @
         (if length (takeWhile (cal_failed H) vs) < n
          then [Rd a (vs ! length (takeWhile (cal_failed H) vs))] else [])"
proof (induction n arbitrary: vs pairs resp s)
  case 0
  then show ?case by (auto simp: retry_view_Nil fun_eq_iff)
next
  case (Suc n)
  let ?D = "mock_dev H bases"
  let ?b = "io96b_csr_addr inst"
  from Suc.prems(2) obtain v vs' where vs: "vs = v # vs'"
    by (cases vs) auto
  let ?s1 = "s\<lparr>hw := (hw s)\<lparr>m_live := (m_live (hw s))(a := vs')\<rparr>, trace := trace s @ [Rd a v]\<rparr>"
  have rd: "readl ?D (?b + ucast off) s = (v, ?s1)"
    using mock_readl_live[OF a1 a2, of s v vs'] Suc.prems(1) vs by (simp add: a)
  show ?case
  proof (cases "cal_failed H v")
    case False
    then have res: "trig_mem_cal_k H ?D inst j (Suc n) resp s = ((0, True, resp), ?s1)"
      using rd Suc.prems(3) by (simp add: cal_failed_def Let_def)
    from False Suc.prems(5,6) vs have "m_resps (hw ?s1) = rest"
      by simp
    with False Suc.prems(4) vs show ?thesis
      unfolding res by (simp add: retry_view_read fun_eq_iff)
  next
    case True
    let ?k = "length (takeWhile (cal_failed H) vs')"
    from True vs have k: "length (takeWhile (cal_failed H) vs) = Suc ?k"
      by simp
    from Suc.prems(6) obtain t q pairs' where pairs: "pairs = (t, q) # pairs'"
      unfolding k by (cases pairs) auto
    obtain tst t0 t1 t2 where t: "t = (tst, t0, t1, t2)" by (cases t)
    obtain qst q0 q1 q2 where q: "q = (qst, q0, q1, q2)" by (cases q)
    let ?rt = "\<lparr>cmd_resp_status = tst, cmd_resp_data = [t0, t1, 0]\<rparr>"
    let ?rq = "\<lparr>cmd_resp_status = qst, cmd_resp_data = [q0, q1, 0]\<rparr>"
    let ?s2 = "?s1\<lparr>hw := mock_exchange H ?b (hw ?s1),
                 trace := trace ?s1 @ exchange_trace_2 H ?b (trig_cal_word H inst j) tst t0 t1\<rparr>"
    let ?s3 = "?s2\<lparr>hw := mock_exchange H ?b (hw ?s2),
                 trace := trace ?s2 @ exchange_trace_2 H ?b (cal_status_word H) qst q0 q1\<rparr>"
    from Suc.prems(7) pairs t q have
      rt: "tst AND IOSSM_STATUS_COMMAND_RESPONSE_READY H = IOSSM_STATUS_COMMAND_RESPONSE_READY H"
      and rq: "qst AND IOSSM_STATUS_COMMAND_RESPONSE_READY H = IOSSM_STATUS_COMMAND_RESPONSE_READY H"
      and oq: "cal_status_offset j (qst, q0, q1, q2) = off"
      by (simp_all add: resp_ready_def)
    have m1: "m_resps (hw ?s1) =
                (tst, t0, t1, t2) # (qst, q0, q1, q2) # concat (map (\<lambda>(t, q). [t, q]) pairs') @ rest"
      using Suc.prems(5) pairs t q by simp
    have ex1: "io96b_mb_req H ?D ?b (ip_type (mb_ctrl inst) ! j) (ip_instance_id (mb_ctrl inst) ! j)
                 (CMD_TRIG_MEM_CAL_OP H) (TRIG_MEM_CAL H) 0 0 0 0 0 0 0 2 resp ?s1 = ((0, ?rt), ?s2)"
      unfolding trig_cal_word_def by (rule mb_req_mock_2[OF ok b m1 rt Suc.prems(4)])
    have m2: "m_resps (hw ?s2) = (qst, q0, q1, q2) # concat (map (\<lambda>(t, q). [t, q]) pairs') @ rest"
      using m1 by simp
    have lt: "length (cmd_resp_data ?rt) = 3" by simp
    have ex2: "io96b_mb_req H ?D ?b 0 0 (CMD_TRIG_MEM_CAL_OP H) (GET_MEM_CAL_STATUS H)
                 0 0 0 0 0 0 0 2 ?rt ?s2 = ((0, ?rq), ?s3)"
      unfolding cal_status_word_def by (rule mb_req_mock_2[OF ok b m2 rq lt])
    have step: "trig_mem_cal_k H ?D inst j (Suc n) resp s = trig_mem_cal_k H ?D inst j n ?rq ?s3"
      using rd True ex1 ex2 Suc.prems(3) by (simp add: cal_failed_def Let_def)
    have p1: "m_live (hw ?s3) a = vs'" by simp
    have p2: "n \<le> length vs'" using Suc.prems(2) vs by simp
    have p3: "cmd_resp_data ?rq ! j = off"
      using oq by (simp add: cal_status_offset_def)
    have p4: "length (cmd_resp_data ?rq) = 3" by simp
    have p5: "m_resps (hw ?s3) = concat (map (\<lambda>(t, q). [t, q]) pairs') @ rest"
      using m2 by simp
    have p6: "length pairs' = min n ?k"
      using Suc.prems(6) pairs unfolding k by simp
    have p7: "\<forall>(t, q)\<in>set pairs'. resp_ready H t \<and> resp_ready H q \<and> cal_status_offset j q = off"
      using Suc.prems(7) pairs by simp
    from Suc.IH[OF p1 p2 p3 p4 p5 p6 p7]
    obtain resp' s' evs where
      run: "trig_mem_cal_k H ?D inst j n ?rq ?s3 = ((0, ?k < n, resp'), s')"
      and l': "length (cmd_resp_data resp') = 3"
      and tr: "trace s' = trace ?s3 @ evs"
      and co: "console s' = console ?s3"
      and mr: "m_resps (hw s') = rest"
      and ml: "m_live (hw s') = (m_live (hw ?s3))(a := drop (min n (Suc ?k)) vs')"
      and rv: "retry_view H ?b a evs =
                 concat (map (retry_round H inst j a) (take (min n ?k) vs')) @
                 (if ?k < n then [Rd a (vs' ! ?k)] else [])"
      by blast
    let ?evs = "[Rd a v] @ exchange_trace_2 H ?b (trig_cal_word H inst j) tst t0 t1 @
                exchange_trace_2 H ?b (cal_status_word H) qst q0 q1 @ evs"
    have tr': "trace s' = trace s @ ?evs"
      using tr by simp
    have rv': "retry_view H ?b a ?evs =
                 concat (map (retry_round H inst j a) (take (min (Suc n) (Suc ?k)) vs)) @
                 (if Suc ?k < Suc n then [Rd a (vs ! Suc ?k)] else [])"
      using rv by (simp add: retry_view_append retry_view_Cons_read
            retry_view_exchange_2[OF ok a1 a2 b] vs retry_round_def)
    have ml': "m_live (hw s') = (m_live (hw s))(a := drop (min (Suc n) (Suc (Suc ?k))) vs)"
      using ml by (simp add: vs fun_eq_iff)
    from run l' tr' co mr ml' rv' show ?thesis
      unfolding step k by auto
  qed
qed


lemma trig_mem_cal_j_append:
  "trig_mem_cal_j H D inst (xs @ ys) resp s =
     (let ((ret, resp'), s') = trig_mem_cal_j H D inst xs resp s
      in if ret \<noteq> 0 then ((ret, resp'), s') else trig_mem_cal_j H D inst ys resp' s')"
  by (induction xs arbitrary: resp s) (simp_all add: Let_def split: prod.splits)

lemma trig_mem_cal_j_mock:
  assumes ok: "mock_ok H bases" and b: "io96b_csr_addr inst \<in> set bases"
      and a1: "a - IOSSM_CMD_REQ_OFFSET H \<notin> set bases" and a2: "\<not> is_resp_reg H bases a"
      and a: "a = io96b_csr_addr inst + ucast off"
      and live: "m_live (hw s) a = vs" and vs: "3 \<le> length vs"
      and len: "length (cmd_resp_data resp) = 3"
      and q: "m_resps (hw s) = q0 # retry_responses pairs @ rest"
      and np: "length pairs = min 3 (failed_reads H vs)"
      and q0: "resp_ready H q0" "cal_status_offset j q0 = off"
      and ps: "\<forall>(t, q)\<in>set pairs. resp_ready H t \<and> resp_ready H q \<and> cal_status_offset j q = off"
  shows "\<exists>resp' s' evs.
       (\<forall>js. trig_mem_cal_j H (mock_dev H bases) inst (j # js) resp s =
         (if failed_reads H vs < 3 then trig_mem_cal_j H (mock_dev H bases) inst js resp' s'
          else ((- EPERM, resp'), printf SDRAM_calibration_failed s'))) \<and>
       length (cmd_resp_data resp') = 3 \<and>
       trace s' = trace s @ evs \<and> console s' = console s \<and> m_resps (hw s') = rest \<and>
       m_live (hw s') = (m_live (hw s))(a := drop (min 3 (Suc (failed_reads H vs))) vs) \<and>
       retry_view H (io96b_csr_addr inst) a evs =
         Wr (io96b_csr_addr inst + IOSSM_CMD_REQ_OFFSET H) (cal_status_word H) #
         concat (map (retry_round H inst j a) (take (min 3 (failed_reads H vs)) vs)) @
         (if failed_reads H vs < 3 then [Rd a (vs ! failed_reads H vs)] else [])"
proof -
  let ?D = "mock_dev H bases"
  let ?b = "io96b_csr_addr inst"
  obtain st d0 d1 d2 where r: "q0 = (st, d0, d1, d2)" by (cases q0)
  let ?r0 = "\<lparr>cmd_resp_status = st, cmd_resp_data = [d0, d1, 0]\<rparr>"
  let ?s0 = "s\<lparr>hw := mock_exchange H ?b (hw s),
               trace := trace s @ exchange_trace_2 H ?b (cal_status_word H) st d0 d1\<rparr>"
  from q0 r have rdy: "st AND IOSSM_STATUS_COMMAND_RESPONSE_READY H = IOSSM_STATUS_COMMAND_RESPONSE_READY H"
    by (simp add: resp_ready_def)
  have m: "m_resps (hw s) = (st, d0, d1, d2) # retry_responses pairs @ rest"
    using q r by simp
  have ex: "io96b_mb_req H ?D ?b 0 0 (CMD_TRIG_MEM_CAL_OP H) (GET_MEM_CAL_STATUS H)
              0 0 0 0 0 0 0 2 resp s = ((0, ?r0), ?s0)"
    unfolding cal_status_word_def by (rule mb_req_mock_2[OF ok b m rdy len])
  have p1: "m_live (hw ?s0) a = vs" using live by simp
  have p2: "3 \<le> length vs" by (rule vs)
  have p3: "cmd_resp_data ?r0 ! j = off"
    using q0(2) r by (simp add: cal_status_offset_def)
  have p4: "length (cmd_resp_data ?r0) = 3" by simp
  have p5: "m_resps (hw ?s0) = concat (map (\<lambda>(t, q). [t, q]) pairs) @ rest"
    using m by (simp add: retry_responses_def)
  have p6: "length pairs = min 3 (length (takeWhile (cal_failed H) vs))"
    using np by (simp add: failed_reads_def)
  from trig_mem_cal_k_mock[OF ok b a1 a2 a p1 p2 p3 p4 p5 p6 ps]
  obtain resp' s' evs where
    run: "trig_mem_cal_k H ?D inst j 3 ?r0 ?s0 = ((0, failed_reads H vs < 3, resp'), s')"
    and l': "length (cmd_resp_data resp') = 3"
    and tr: "trace s' = trace ?s0 @ evs"
    and co: "console s' = console ?s0"
    and mr: "m_resps (hw s') = rest"
    and ml: "m_live (hw s') = (m_live (hw ?s0))(a := drop (min 3 (Suc (failed_reads H vs))) vs)"
    and rv: "retry_view H ?b a evs =
               concat (map (retry_round H inst j a) (take (min 3 (failed_reads H vs)) vs)) @
               (if failed_reads H vs < 3 then [Rd a (vs ! failed_reads H vs)] else [])"
    unfolding failed_reads_def by blast
  let ?evs = "exchange_trace_2 H ?b (cal_status_word H) st d0 d1 @ evs"
  have res: "trig_mem_cal_j H ?D inst (j # js) resp s =
         (if failed_reads H vs < 3 then trig_mem_cal_j H ?D inst js resp' s'
          else ((- EPERM, resp'), printf SDRAM_calibration_failed s'))" for js
    using ex run by (simp add: Let_def)
  have tr': "trace s' = trace s @ ?evs" using tr by simp
  have co': "console s' = console s" using co by simp
  have ml': "m_live (hw s') = (m_live (hw s))(a := drop (min 3 (Suc (failed_reads H vs))) vs)"
    using ml by (simp add: fun_eq_iff)
  have rv': "retry_view H ?b a ?evs =
         Wr (?b + IOSSM_CMD_REQ_OFFSET H) (cal_status_word H) #
         concat (map (retry_round H inst j a) (take (min 3 (failed_reads H vs)) vs)) @
         (if failed_reads H vs < 3 then [Rd a (vs ! failed_reads H vs)] else [])"
    using rv by (simp add: retry_view_append retry_view_exchange_2[OF ok a1 a2 b])
  from res l' tr' co' mr ml' rv' show ?thesis by blast
qed

text \<open>
  Claim C1: for an interface of an instance whose calibration failed, the retry loop of
  \<^verbatim>\<open>trig_mem_cal\<close> reads the interface's live status register at most 3 times
  (\<^verbatim>\<open>MAX_RETRY_COUNT\<close>). If the register reports success on read \<open>k + 1\<close> with \<open>k < 3\<close>,
  the interface is recovered after exactly \<open>k\<close> trigger commands, one after each failed
  read; if all 3 reads fail, the call returns \<open>-EPERM\<close> for the instance, which is not
  marked as passed.

  Stated for interface \<open>j\<close> of instance \<open>i\<close>, reached in state \<open>s\<close> after the interfaces
  before it, against the simulated mailbox: the live status register is the one the status
  queries name (offset \<open>off\<close>), its successive values are \<open>vs\<close>, and a ready response is
  queued for the status query and for the two commands of every retry. With
  \<open>k = failed_reads H vs\<close>:

  \<^item> if \<open>k < 3\<close>, the interface loop goes on with the interfaces \<open>js\<close> after \<open>j\<close>
    (\<^verbatim>\<open>recal_success\<close> is true), nothing is printed, and the reads of the status register
    and the commands are, in order: the status query, then for each of the \<open>k\<close> failed
    values its read, the trigger command and the status query, then the read of the
    value \<open>k + 1\<close>;

  \<^item> otherwise the loop over the instances returns \<open>-EPERM\<close> on reaching instance \<open>i\<close>, with
    the controller set unchanged (the instance still marked failed) and the failure
    printed; the reads and commands are the status query and 3 failed attempts, the last
    one followed by no further read.
\<close>

theorem trig_mem_cal_retry:
  assumes ok: "mock_ok H bases"
      and b: "io96b_csr_addr (io96b ctrl ! i) \<in> set bases"
      and failed: "\<not> cal_status (io96b ctrl ! i)"
      and j: "j < num_mem_interface (mb_ctrl (io96b ctrl ! i))" "j < NUM_CMD_RESPONSE_DATA"
      and pre: "trig_mem_cal_j H (mock_dev H bases) (io96b ctrl ! i) [0..<j] resp0 s0 = ((0, resp), s)"
      and len: "length (cmd_resp_data resp) = 3"
      and a1: "io96b_csr_addr (io96b ctrl ! i) + ucast off - IOSSM_CMD_REQ_OFFSET H \<notin> set bases"
      and a2: "\<not> is_resp_reg H bases (io96b_csr_addr (io96b ctrl ! i) + ucast off)"
      and live: "m_live (hw s) (io96b_csr_addr (io96b ctrl ! i) + ucast off) = vs"
      and vs: "3 \<le> length vs"
      and q: "m_resps (hw s) = q0 # retry_responses pairs @ rest"
      and np: "length pairs = min 3 (failed_reads H vs)"
      and q0: "resp_ready H q0" "cal_status_offset j q0 = off"
      and ps: "\<forall>(t, q)\<in>set pairs. resp_ready H t \<and> resp_ready H q \<and> cal_status_offset j q = off"
  shows "if failed_reads H vs < 3
         then \<exists>resp' s' evs.
                (\<forall>js. trig_mem_cal_j H (mock_dev H bases) (io96b ctrl ! i) ([0..<j] @ j # js) resp0 s0 =
                      trig_mem_cal_j H (mock_dev H bases) (io96b ctrl ! i) js resp' s') \<and>
                console s' = console s \<and> trace s' = trace s @ evs \<and>
                retry_view H (io96b_csr_addr (io96b ctrl ! i))
                    (io96b_csr_addr (io96b ctrl ! i) + ucast off) evs =
                  Wr (io96b_csr_addr (io96b ctrl ! i) + IOSSM_CMD_REQ_OFFSET H) (cal_status_word H) #
                  concat (map (retry_round H (io96b ctrl ! i) j
                                 (io96b_csr_addr (io96b ctrl ! i) + ucast off))
                            (take (failed_reads H vs) vs)) @
                  [Rd (io96b_csr_addr (io96b ctrl ! i) + ucast off) (vs ! failed_reads H vs)]
         else \<exists>s' evs.
                trig_mem_cal_i H (mock_dev H bases) (i # is) ctrl resp0 s0 = ((- EPERM, ctrl), s') \<and>
                console s' = console s @ [SDRAM_calibration_failed] \<and> trace s' = trace s @ evs \<and>
                retry_view H (io96b_csr_addr (io96b ctrl ! i))
                    (io96b_csr_addr (io96b ctrl ! i) + ucast off) evs =
                  Wr (io96b_csr_addr (io96b ctrl ! i) + IOSSM_CMD_REQ_OFFSET H) (cal_status_word H) #
                  concat (map (retry_round H (io96b ctrl ! i) j
                                 (io96b_csr_addr (io96b ctrl ! i) + ucast off))
                            (take 3 vs))"
proof -
  let ?D = "mock_dev H bases"
  let ?inst = "io96b ctrl ! i"
  let ?n = "num_mem_interface (mb_ctrl ?inst)"
  let ?b = "io96b_csr_addr ?inst"
  let ?a = "?b + ucast off"
  from trig_mem_cal_j_mock[OF ok b a1 a2 refl live vs len q np q0 ps]
  obtain resp' s' evs where
    run: "\<And>js. trig_mem_cal_j H ?D ?inst (j # js) resp s =
            (if failed_reads H vs < 3 then trig_mem_cal_j H ?D ?inst js resp' s'
             else ((- EPERM, resp'), printf SDRAM_calibration_failed s'))"
    and tr: "trace s' = trace s @ evs"
    and co: "console s' = console s"
    and rv: "retry_view H ?b ?a evs =
               Wr (?b + IOSSM_CMD_REQ_OFFSET H) (cal_status_word H) #
               concat (map (retry_round H ?inst j ?a) (take (min 3 (failed_reads H vs)) vs)) @
               (if failed_reads H vs < 3 then [Rd ?a (vs ! failed_reads H vs)] else [])"
    by blast
  have app: "trig_mem_cal_j H ?D ?inst ([0..<j] @ j # js) resp0 s0 =
             trig_mem_cal_j H ?D ?inst (j # js) resp s" for js
    using pre by (simp add: trig_mem_cal_j_append del: trig_mem_cal_j.simps(2))
  show ?thesis
  proof (cases "failed_reads H vs < 3")
    case True
    then have mn: "min 3 (failed_reads H vs) = failed_reads H vs"
      by simp
    have "\<forall>js. trig_mem_cal_j H ?D ?inst ([0..<j] @ j # js) resp0 s0 =
               trig_mem_cal_j H ?D ?inst js resp' s'"
      unfolding app run using True by simp
    moreover have "retry_view H ?b ?a evs =
               Wr (?b + IOSSM_CMD_REQ_OFFSET H) (cal_status_word H) #
               concat (map (retry_round H ?inst j ?a) (take (failed_reads H vs) vs)) @
               [Rd ?a (vs ! failed_reads H vs)]"
      using rv True unfolding mn by simp
    ultimately have "\<exists>resp' s' evs.
        (\<forall>js. trig_mem_cal_j H ?D ?inst ([0..<j] @ j # js) resp0 s0 =
              trig_mem_cal_j H ?D ?inst js resp' s') \<and>
        console s' = console s \<and> trace s' = trace s @ evs \<and>
        retry_view H ?b ?a evs =
          Wr (?b + IOSSM_CMD_REQ_OFFSET H) (cal_status_word H) #
          concat (map (retry_round H ?inst j ?a) (take (failed_reads H vs) vs)) @
          [Rd ?a (vs ! failed_reads H vs)]"
      using co tr by blast
    with True show ?thesis
      by (simp only: if_True)
  next
    case False
    then have mn: "min 3 (failed_reads H vs) = 3"
      by simp
    have up: "[0..<?n] = [0..<j] @ j # [Suc j..<?n]"
      using j(1) upt_add_eq_append[of 0 j "?n - j"] by (simp add: upt_conv_Cons)
    have inner: "trig_mem_cal_j H ?D ?inst [0..<?n] resp0 s0 =
                   ((- EPERM, resp'), printf SDRAM_calibration_failed s')"
      unfolding up app run using False by simp
    have "trig_mem_cal_i H ?D (i # is) ctrl resp0 s0 =
            ((- EPERM, ctrl), printf SDRAM_calibration_failed s')"
      using failed inner by simp
    moreover have "console (printf SDRAM_calibration_failed s') =
                   console s @ [SDRAM_calibration_failed]"
      using co by (simp add: printf_def)
    moreover have "trace (printf SDRAM_calibration_failed s') = trace s @ evs"
      using tr by (simp add: printf_def)
    moreover have "retry_view H ?b ?a evs =
               Wr (?b + IOSSM_CMD_REQ_OFFSET H) (cal_status_word H) #
               concat (map (retry_round H ?inst j ?a) (take 3 vs))"
      using rv False unfolding mn by simp
    ultimately have "\<exists>s' evs.
        trig_mem_cal_i H ?D (i # is) ctrl resp0 s0 = ((- EPERM, ctrl), s') \<and>
        console s' = console s @ [SDRAM_calibration_failed] \<and> trace s' = trace s @ evs \<and>
        retry_view H ?b ?a evs =
          Wr (?b + IOSSM_CMD_REQ_OFFSET H) (cal_status_word H) #
          concat (map (retry_round H ?inst j ?a) (take 3 vs))"
      by blast
    with False show ?thesis
      by (simp only: if_False)
  qed
qed

theorem trig_mem_cal_retry_witness:
  "mock_ok hdr0 [0x1000, 0x2000] \<and>
   failed_reads hdr0 [0, 0, 1] = 2 \<and> failed_reads hdr0 [0, 0, 0] = 3 \<and>
   \<not> cal_status (io96b retry_ctrl ! 0) \<and>
   (\<exists>ctrl' s'.
      trig_mem_cal hdr0 dev0 retry_ctrl (retry_mock 2 [0, 0, 1]) = ((0, ctrl'), s') \<and>
      cal_status (io96b ctrl' ! 0) \<and>
      retry_view hdr0 0x1000 0x1010 (trace s') =
        [Wr 0x143C (cal_status_word hdr0),
         Rd 0x1010 0, Wr 0x143C (trig_cal_word hdr0 (io96b retry_ctrl ! 0) 0),
         Wr 0x143C (cal_status_word hdr0),
         Rd 0x1010 0, Wr 0x143C (trig_cal_word hdr0 (io96b retry_ctrl ! 0) 0),
         Wr 0x143C (cal_status_word hdr0),
         Rd 0x1010 1]) \<and>
   (\<exists>s'.
      trig_mem_cal hdr0 dev0 retry_ctrl (retry_mock 3 [0, 0, 0]) = ((- EPERM, retry_ctrl), s') \<and>
      console s' = [SDRAM_calibration_failed] \<and>
      retry_view hdr0 0x1000 0x1010 (trace s') =
        [Wr 0x143C (cal_status_word hdr0),
         Rd 0x1010 0, Wr 0x143C (trig_cal_word hdr0 (io96b retry_ctrl ! 0) 0),
         Wr 0x143C (cal_status_word hdr0),
         Rd 0x1010 0, Wr 0x143C (trig_cal_word hdr0 (io96b retry_ctrl ! 0) 0),
         Wr 0x143C (cal_status_word hdr0),
         Rd 0x1010 0, Wr 0x143C (trig_cal_word hdr0 (io96b retry_ctrl ! 0) 0),
         Wr 0x143C (cal_status_word hdr0)])"
proof -
  let ?D = "mock_dev hdr0 [0x1000, 0x2000]"
  let ?inst = "io96b retry_ctrl ! 0"
  let ?p = "((1, 0, 0, 0), (1, 0x10, 0, 0)) :: (u32 \<times> u32 \<times> u32 \<times> u32) \<times> (u32 \<times> u32 \<times> u32 \<times> u32)"
  have fr: "failed_reads hdr0 [0, 0, 1] = 2" "failed_reads hdr0 [0, 0, 0] = 3"
    by (simp_all add: failed_reads_def cal_failed_def)
  have b: "io96b_csr_addr ?inst \<in> set [0x1000, 0x2000]"
    and failed: "\<not> cal_status ?inst"
    and j: "0 < num_mem_interface (mb_ctrl ?inst)" "0 < NUM_CMD_RESPONSE_DATA"
    and base: "io96b_csr_addr ?inst = 0x1000"
    and n1: "num_mem_interface (mb_ctrl ?inst) = 1" "num_instance retry_ctrl = 1"
    by (simp_all add: retry_ctrl_def example_ctrl_def example_inst_def)
  have pre: "trig_mem_cal_j hdr0 ?D ?inst [0..<0] usr_resp_init s = ((0, usr_resp_init), s)" for s
    by simp
  have len: "length (cmd_resp_data usr_resp_init) = 3"
    by (simp add: usr_resp_init_def)
  have a1: "io96b_csr_addr ?inst + ucast (0x10 :: u32) - IOSSM_CMD_REQ_OFFSET hdr0 \<notin> set [0x1000, 0x2000]"
    and a2: "\<not> is_resp_reg hdr0 [0x1000, 0x2000] (io96b_csr_addr ?inst + ucast (0x10 :: u32))"
    and a: "io96b_csr_addr ?inst + ucast (0x10 :: u32) = 0x1010"
    and rq: "io96b_csr_addr ?inst + IOSSM_CMD_REQ_OFFSET hdr0 = 0x143C"
    by (simp_all add: base is_resp_reg_def resp_regs_def)
  have live: "m_live (hw (retry_mock n vs)) (io96b_csr_addr ?inst + ucast (0x10 :: u32)) = vs" for n vs
    unfolding a by (simp add: retry_mock_def mock0_simps)
  have q: "m_resps (hw (retry_mock n vs)) = (1, 0x10, 0, 0) # retry_responses (replicate n ?p) @ []" for n vs
    by (simp add: retry_mock_def mock0_simps)
  have q0: "resp_ready hdr0 (1, 0x10, 0, 0)" "cal_status_offset 0 (1, 0x10, 0, 0) = 0x10"
    by (simp_all add: resp_ready_def cal_status_offset_def)
  have ps: "\<forall>(t, q)\<in>set (replicate n ?p).
              resp_ready hdr0 t \<and> resp_ready hdr0 q \<and> cal_status_offset 0 q = 0x10" for n
    by (simp add: resp_ready_def cal_status_offset_def)
  have tr: "trace (retry_mock n vs) = []" "console (retry_mock n vs) = []" for n vs
    by (simp_all add: retry_mock_def mock0_simps)
  have vl: "3 \<le> length [0, 0, 1 :: u32]" "3 \<le> length [0, 0, 0 :: u32]"
    by simp_all
  have np: "length (replicate 2 ?p) = min 3 (failed_reads hdr0 [0, 0, 1])"
    "length (replicate 3 ?p) = min 3 (failed_reads hdr0 [0, 0, 0])"
    by (simp_all add: fr)
  have tk: "take 2 [0, 0, 1 :: u32] = [0, 0]" "[0, 0, 1 :: u32] ! 2 = 1"
    "take 3 [0, 0, 0 :: u32] = [0, 0, 0]"
    by (simp_all add: numeral_2_eq_2 numeral_3_eq_3)
  from trig_mem_cal_retry[OF mock_ok_dev0 b failed j pre[of "retry_mock 2 [0, 0, 1]"] len a1 a2
         live[of 2 "[0, 0, 1]"] vl(1) q[of 2 "[0, 0, 1]"] np(1) q0 ps[of 2]]
  obtain resp' s' where
    run: "trig_mem_cal_j hdr0 ?D ?inst ([0..<0] @ 0 # []) usr_resp_init (retry_mock 2 [0, 0, 1]) =
            trig_mem_cal_j hdr0 ?D ?inst [] resp' s'"
    and rv: "retry_view hdr0 0x1000 0x1010 (trace s') =
        [Wr 0x143C (cal_status_word hdr0),
         Rd 0x1010 0, Wr 0x143C (trig_cal_word hdr0 ?inst 0), Wr 0x143C (cal_status_word hdr0),
         Rd 0x1010 0, Wr 0x143C (trig_cal_word hdr0 ?inst 0), Wr 0x143C (cal_status_word hdr0),
         Rd 0x1010 1]"
    unfolding fr a base rq tr tk by (auto simp: retry_round_def base rq)
  have run': "trig_mem_cal_j hdr0 ?D ?inst [0..<num_mem_interface (mb_ctrl ?inst)] usr_resp_init
                (retry_mock 2 [0, 0, 1]) = ((0, resp'), s')"
    using run unfolding n1 upt_1 by (simp del: trig_mem_cal_j.simps(2))
  let ?c = "retry_ctrl\<lparr>io96b := (io96b retry_ctrl)[0 := ?inst\<lparr>cal_status := True\<rparr>]\<rparr>"
  have whole: "trig_mem_cal hdr0 dev0 retry_ctrl (retry_mock 2 [0, 0, 1]) =
                 ((0, ?c\<lparr>overall_cal_status := cal_status (io96b ?c ! 0)\<rparr>),
                  printf (Initial_DDR_calibration_succeed 0) s')"
    unfolding trig_mem_cal_def dev0_def n1(2) upt_1 using failed run' by (simp add: Let_def)
  have "cal_status (io96b (?c\<lparr>overall_cal_status := cal_status (io96b ?c ! 0)\<rparr>) ! 0)"
    by (simp add: retry_ctrl_def example_ctrl_def)
  moreover have "trace (printf (Initial_DDR_calibration_succeed 0) s') = trace s'"
    by (simp add: printf_def)
  ultimately have A: "\<exists>ctrl' s'.
      trig_mem_cal hdr0 dev0 retry_ctrl (retry_mock 2 [0, 0, 1]) = ((0, ctrl'), s') \<and>
      cal_status (io96b ctrl' ! 0) \<and>
      retry_view hdr0 0x1000 0x1010 (trace s') =
        [Wr 0x143C (cal_status_word hdr0),
         Rd 0x1010 0, Wr 0x143C (trig_cal_word hdr0 ?inst 0), Wr 0x143C (cal_status_word hdr0),
         Rd 0x1010 0, Wr 0x143C (trig_cal_word hdr0 ?inst 0), Wr 0x143C (cal_status_word hdr0),
         Rd 0x1010 1]"
    using whole rv by (metis (no_types))
  from trig_mem_cal_retry[OF mock_ok_dev0 b failed j pre[of "retry_mock 3 [0, 0, 0]"] len a1 a2
         live[of 3 "[0, 0, 0]"] vl(2) q[of 3 "[0, 0, 0]"] np(2) q0 ps[of 3], of "[]"]
  have B: "\<exists>s'.
      trig_mem_cal hdr0 dev0 retry_ctrl (retry_mock 3 [0, 0, 0]) = ((- EPERM, retry_ctrl), s') \<and>
      console s' = [SDRAM_calibration_failed] \<and>
      retry_view hdr0 0x1000 0x1010 (trace s') =
        [Wr 0x143C (cal_status_word hdr0),
         Rd 0x1010 0, Wr 0x143C (trig_cal_word hdr0 ?inst 0), Wr 0x143C (cal_status_word hdr0),
         Rd 0x1010 0, Wr 0x143C (trig_cal_word hdr0 ?inst 0), Wr 0x143C (cal_status_word hdr0),
         Rd 0x1010 0, Wr 0x143C (trig_cal_word hdr0 ?inst 0), Wr 0x143C (cal_status_word hdr0)]"
    unfolding fr a base rq tr tk dev0_def trig_mem_cal_def n1 upt_1
    by (auto simp: retry_round_def base rq)
  from A B fr failed mock_ok_dev0 show ?thesis
    by blast
qed

section \<open>The overall calibration flag: claims\<close>

text \<open>
  Claim C3: whenever the overall calibration flag is updated (after \<^verbatim>\<open>init_mem_cal\<close>,
  after each recovery in \<^verbatim>\<open>trig_mem_cal\<close>, in the re-check after a double-bit error in
  \<^verbatim>\<open>sdram_mmr_init_full\<close>) it is the conjunction of the flags of all instances, never
  taken from a single, possibly stale-indexed, instance.

  The source does not compute a conjunction at two of these places. Line 418 of
  \<^verbatim>\<open>trig_mem_cal\<close> assigns the flag of the instance just recovered: with two failed
  instances of which the first recovers and the second exhausts its retries, the call
  returns \<open>-EPERM\<close> with the overall flag true and the second instance still failed.
  Line 971 of \<^verbatim>\<open>sdram_mmr_init_full\<close> reads \<^verbatim>\<open>io96b[i]\<close> after the loop, with
  \<open>i = num_instance\<close>: with one instance in use and \<^verbatim>\<open>true\<close> in the unused element, the
  overall flag stays true although the loop has just marked every instance failed, so
  that the re-calibration of line 975 is not entered; with both elements in use the read
  is beyond the array. The sibling code for HBM (line 1008) assigns \<^verbatim>\<open>false\<close> there.
\<close>

theorem overall_cal_status_single_instance:
  "fst (trig_mem_cal hdr0 dev0 cal_ctrl cal_mock) =
     (- EPERM,
      cal_ctrl\<lparr>io96b := [example_inst 0x1000 True 1, example_inst 0x2000 False 1],
               overall_cal_status := True\<rparr>) \<and>
   sdram_mmr_init_full_dbe True (dbe_ctrl 1) =
     Some ((dbe_ctrl 1)\<lparr>io96b := [example_inst 0x1000 False 1, example_inst 0x2000 True 1],
                        overall_cal_status := True\<rparr>) \<and>
   sdram_mmr_init_full_dbe True (dbe_ctrl 2) = None"
proof -
  let ?D = "mock_dev hdr0 [0x1000, 0x2000]"
  let ?i0 = "example_inst 0x1000 False 1"
  let ?i1 = "example_inst 0x2000 False 1"
  let ?p = "((1, 0, 0, 0), (1, 0x10, 0, 0)) :: (u32 \<times> u32 \<times> u32 \<times> u32) \<times> (u32 \<times> u32 \<times> u32 \<times> u32)"
  let ?q = "(1, 0x10, 0, 0) :: u32 \<times> u32 \<times> u32 \<times> u32"
  let ?rest = "?q # retry_responses (replicate 3 ?p) @ []"
  have fr: "failed_reads hdr0 [1, 1, 1] = 0" "failed_reads hdr0 [0, 0, 0] = 3"
    by (simp_all add: failed_reads_def cal_failed_def)
  have b0: "io96b_csr_addr ?i0 \<in> set [0x1000, 0x2000]"
    and b1: "io96b_csr_addr ?i1 \<in> set [0x1000, 0x2000]"
    by (simp_all add: example_inst_def)
  have a0: "0x1010 - IOSSM_CMD_REQ_OFFSET hdr0 \<notin> set [0x1000, 0x2000 :: phys_addr_t]"
    "\<not> is_resp_reg hdr0 [0x1000, 0x2000] 0x1010"
    "(0x1010 :: phys_addr_t) = io96b_csr_addr ?i0 + ucast (0x10 :: u32)"
    and a1: "0x2010 - IOSSM_CMD_REQ_OFFSET hdr0 \<notin> set [0x1000, 0x2000 :: phys_addr_t]"
    "\<not> is_resp_reg hdr0 [0x1000, 0x2000] 0x2010"
    "(0x2010 :: phys_addr_t) = io96b_csr_addr ?i1 + ucast (0x10 :: u32)"
    by (simp_all add: example_inst_def is_resp_reg_def resp_regs_def)
  have q0: "resp_ready hdr0 ?q" "cal_status_offset 0 ?q = 0x10"
    by (simp_all add: resp_ready_def cal_status_offset_def)
  have ps: "\<forall>(t, q)\<in>set (replicate n ?p).
              resp_ready hdr0 t \<and> resp_ready hdr0 q \<and> cal_status_offset 0 q = 0x10" for n
    by (simp add: resp_ready_def cal_status_offset_def)
  have len: "length (cmd_resp_data usr_resp_init) = 3"
    by (simp add: usr_resp_init_def)
  have live0: "m_live (hw cal_mock) 0x1010 = [1, 1, 1]"
    and m0: "m_resps (hw cal_mock) = ?q # retry_responses (replicate 0 ?p) @ ?rest"
    by (simp_all add: cal_mock_def mock0_simps retry_responses_def)
  have vl: "3 \<le> length [1, 1, 1 :: u32]" "3 \<le> length [0, 0, 0 :: u32]"
    by simp_all
  have np: "length (replicate 0 ?p) = min 3 (failed_reads hdr0 [1, 1, 1])"
    "length (replicate 3 ?p) = min 3 (failed_reads hdr0 [0, 0, 0])"
    by (simp_all add: fr)
  from trig_mem_cal_j_mock[OF mock_ok_dev0 b0 a0 live0 vl(1) len m0 np(1) q0 ps[of 0]]
  obtain resp1 s1 where
    run0: "\<And>js. trig_mem_cal_j hdr0 ?D ?i0 (0 # js) usr_resp_init cal_mock =
                  trig_mem_cal_j hdr0 ?D ?i0 js resp1 s1"
    and len1: "length (cmd_resp_data resp1) = 3"
    and m1: "m_resps (hw s1) = ?rest"
    and l1: "m_live (hw s1) = (m_live (hw cal_mock))(0x1010 := drop (min 3 (Suc 0)) [1, 1, 1])"
    unfolding fr by auto
  let ?s1 = "printf (Initial_DDR_calibration_succeed 0) s1"
  have live1: "m_live (hw ?s1) 0x2010 = [0, 0, 0]"
    and m1': "m_resps (hw ?s1) = ?q # retry_responses (replicate 3 ?p) @ []"
    using l1 m1 by (simp_all add: printf_def cal_mock_def mock0_simps)
  from trig_mem_cal_j_mock[OF mock_ok_dev0 b1 a1 live1 vl(2) len1 m1' np(2) q0 ps[of 3]]
  obtain resp2 s2 where
    run1: "\<And>js. trig_mem_cal_j hdr0 ?D ?i1 (0 # js) resp1 ?s1 =
                  ((- EPERM, resp2), printf SDRAM_calibration_failed s2)"
    unfolding fr by auto
  let ?c1 = "cal_ctrl\<lparr>io96b := [example_inst 0x1000 True 1, ?i1], overall_cal_status := True\<rparr>"
  have ei: "cal_status (example_inst b c n) = c"
    "num_mem_interface (mb_ctrl (example_inst b c n)) = n"
    "(example_inst b c n)\<lparr>cal_status := c'\<rparr> = example_inst b c' n" for b c c' n
    by (simp_all add: example_inst_def)
  have "trig_mem_cal hdr0 dev0 cal_ctrl cal_mock =
          ((- EPERM, ?c1), printf SDRAM_calibration_failed s2)"
    unfolding trig_mem_cal_def dev0_def using run0 run1
    by (simp add: cal_ctrl_def example_ctrl_def upt_2 upt_1 Let_def ei
          del: trig_mem_cal_j.simps(2))
  moreover have "sdram_mmr_init_full_dbe True (dbe_ctrl 1) =
     Some ((dbe_ctrl 1)\<lparr>io96b := [example_inst 0x1000 False 1, example_inst 0x2000 True 1],
                        overall_cal_status := True\<rparr>)"
    by (simp add: sdram_mmr_init_full_dbe_def dbe_ctrl_def example_ctrl_def example_inst_def
          upt_1 Let_def)
  moreover have "sdram_mmr_init_full_dbe True (dbe_ctrl 2) = None"
    by (simp add: sdram_mmr_init_full_dbe_def dbe_ctrl_def example_ctrl_def upt_2 Let_def)
  ultimately show ?thesis by simp
qed


end
